theory Spec2Isabelle
  imports Complex_Main
begin

section \<open>JavaScript values\<close>

text \<open>
  An optional TypeScript field (\<^verbatim>\<open>x?: number\<close>) and a nullable SQL column are both
  an \<open>option\<close>. Timestamps are the integers \<^verbatim>\<open>Date.now()\<close> returns. The source
  writes \<^verbatim>\<open>x || null\<close> wherever it binds an optional value to a column: the
  falsy values \<^verbatim>\<open>0\<close> and \<^verbatim>\<open>''\<close> become \<^verbatim>\<open>null\<close> as well as \<^verbatim>\<open>undefined\<close>.
\<close>

fun orNullNum :: "int option \<Rightarrow> int option" where
  "orNullNum None = None"
| "orNullNum (Some n) = (if n = 0 then None else Some n)"

fun orNullStr :: "string option \<Rightarrow> string option" where
  "orNullStr None = None"
| "orNullStr (Some s) = (if s = [] then None else Some s)"

fun orNullReal :: "real option \<Rightarrow> real option" where
  "orNullReal None = None"
| "orNullReal (Some x) = (if x = 0 then None else Some x)"

text \<open>\<^verbatim>\<open>x || 0\<close> on an optional number.\<close>

fun orZero :: "int option \<Rightarrow> int" where
  "orZero None = 0"
| "orZero (Some n) = n"

text \<open>
  \<^verbatim>\<open>Math.round\<close> rounds to the nearest integer, a tie upwards; on an integer number of
  milliseconds divided by 60000 that is the floor of the quotient plus one half.
\<close>

definition roundMinutes :: "int \<Rightarrow> int" where
  "roundMinutes ms = (ms + 30000) div 60000"

text \<open>
  \<^verbatim>\<open>new Date(t).toISOString().split('T')[0]\<close>: the calendar date, in UTC, of the instant
  \<open>t\<close> milliseconds after 1970-01-01T00:00:00Z, printed as \<^verbatim>\<open>YYYY-MM-DD\<close> (a year
  outside 0 to 9999 is printed with a sign and six digits). \<open>civil\<close> is the year, month
  and day of the proleptic Gregorian calendar for a number of days since 1970-01-01,
  counted in years that start on 1 March within eras of 400 years (146097 days).
\<close>

definition civil :: "int \<Rightarrow> int \<times> int \<times> int" where
  "civil z =
    (let era = (z + 719468) div 146097;
         doe = (z + 719468) mod 146097;
         yoe = (doe - doe div 1460 + doe div 36524 - doe div 146096) div 365;
         doy = doe - (365 * yoe + yoe div 4 - yoe div 100);
         mp = (5 * doy + 2) div 153;
         d = doy - (153 * mp + 2) div 5 + 1;
         m = (if mp < 10 then mp + 3 else mp - 9);
         y = yoe + era * 400 + (if m \<le> 2 then 1 else 0)
     in (y, m, d))"

definition digit :: "nat \<Rightarrow> char" where
  "digit k = ''0123456789'' ! (k mod 10)"

definition pad2 :: "nat \<Rightarrow> string" where
  "pad2 k = [digit (k div 10), digit k]"

definition pad4 :: "nat \<Rightarrow> string" where
  "pad4 k = pad2 (k div 100) @ pad2 k"

definition pad6 :: "nat \<Rightarrow> string" where
  "pad6 k = pad2 (k div 10000) @ pad4 k"

definition yearString :: "int \<Rightarrow> string" where
  "yearString y =
    (if 0 \<le> y \<and> y \<le> 9999 then pad4 (nat y)
     else (if y < 0 then ''-'' else ''+'') @ pad6 (nat \<bar>y\<bar>))"

definition isoDate :: "int \<Rightarrow> string" where
  "isoDate t =
    (case civil (t div 86400000) of
       (y, m, d) \<Rightarrow> yearString y @ ''-'' @ pad2 (nat m) @ ''-'' @ pad2 (nat d))"

text \<open>
  The calendar date of the instant \<open>t\<close> on a terminal whose local time is
  \<open>offsetMinutes\<close> ahead of UTC (\<^verbatim>\<open>-new Date(t).getTimezoneOffset()\<close>): the day whose
  midnight \<^verbatim>\<open>setHours(0, 0, 0, 0)\<close> gives in \<^verbatim>\<open>getStats\<close> and \<^verbatim>\<open>getTodayCheckins\<close>.
\<close>

definition localDate :: "int \<Rightarrow> int \<Rightarrow> string" where
  "localDate offsetMinutes t = isoDate (t + offsetMinutes * 60000)"

section \<open>Types of checkinService.ts, database.ts and syncService.ts\<close>

datatype CheckType = check_in | check_out | break_start | break_end

datatype AuthMethod = nfc | pin | manual

datatype SyncStatus = pending | synced | failed | conflict

text \<open>
  \<open>CheckinRecord\<close> is also the row of table \<^verbatim>\<open>checkins\<close>: \<^verbatim>\<open>mapCheckinRow\<close> maps the
  columns to these fields one to one. Column \<^verbatim>\<open>created_at\<close>, which no code of the
  repository reads, is left out. \<open>rowId\<close> is the field \<^verbatim>\<open>id\<close>.
\<close>

record CheckinRecord =
  rowId :: "nat option"
  localId :: string
  userId :: int
  userName :: string
  checkType :: CheckType
  timestamp :: int
  authMethod :: AuthMethod
  nfcCardHash :: "string option"
  latitude :: "real option"
  longitude :: "real option"
  createdOffline :: bool
  syncStatus :: SyncStatus
  syncedAt :: "int option"
  syncError :: "string option"

record UserStatus =
  us_userId :: int
  us_userName :: string
  isCheckedIn :: bool
  isOnBreak :: bool
  lastCheckIn :: "int option"
  lastCheckOut :: "int option"
  currentSessionStart :: "int option"
  totalTodayMinutes :: int

text \<open>
  \<^verbatim>\<open>Partial<UserStatus>\<close>, the argument of \<^verbatim>\<open>updateUserStatus\<close>: \<open>None\<close> is a field that
  is absent or \<^verbatim>\<open>undefined\<close> (the source tests \<^verbatim>\<open>!== undefined\<close>, which does not tell
  the two apart). The callers never pass \<^verbatim>\<open>userId\<close> or \<^verbatim>\<open>userName\<close>.
\<close>

record StatusUpdates =
  upd_isCheckedIn :: "bool option"
  upd_isOnBreak :: "bool option"
  upd_lastCheckIn :: "int option"
  upd_lastCheckOut :: "int option"
  upd_currentSessionStart :: "int option"
  upd_totalTodayMinutes :: "int option"

definition noUpdates :: StatusUpdates where
  "noUpdates = \<lparr>upd_isCheckedIn = None, upd_isOnBreak = None, upd_lastCheckIn = None,
     upd_lastCheckOut = None, upd_currentSessionStart = None, upd_totalTodayMinutes = None\<rparr>"

text \<open>A row of table \<^verbatim>\<open>user_status\<close>; the primary key \<^verbatim>\<open>user_id\<close> is the key of the map.\<close>

record UserStatusRow =
  is_checked_in :: bool
  is_on_break :: bool
  last_check_in :: "int option"
  last_check_out :: "int option"
  current_session_start :: "int option"
  total_today_minutes :: int
  today_date :: string

record LocalUser =
  u_id :: int
  u_name :: string
  personnelNumber :: "string option"
  department :: "string option"
  u_nfcCardHash :: "string option"
  pinHash :: "string option"
  profilePhotoUrl :: "string option"
  isActive :: bool
  lastSyncedAt :: "int option"

record TerminalConfig =
  terminalId :: string
  tenantId :: int
  cfg_name :: string
  location :: "string option"
  apiKey :: string
  serverUrl :: string
  syncIntervalSeconds :: int
  offlineBufferHours :: int
  nfcEnabled :: bool
  pinFallbackEnabled :: bool
  timezone :: string
  language :: string
  lastSyncAt :: "int option"

datatype SyncType = full | incremental | heartbeat

datatype LogStatus = in_progress | completed | log_failed

text \<open>A row of table \<^verbatim>\<open>sync_log\<close>, the record of one sync attempt.\<close>

record SyncLogRow =
  log_id :: nat
  sync_type :: SyncType
  started_at :: int
  completed_at :: "int option"
  records_sent :: int
  records_received :: int
  records_failed :: int
  status :: LogStatus
  error_message :: "string option"

text \<open>
  The SQLite database: one value per table. \<open>checkins\<close> and \<open>sync_log\<close> are in rowid
  order; \<open>checkins_seq\<close> and \<open>sync_log_seq\<close> are the last AUTOINCREMENT ids given out.
\<close>

record sqlite =
  terminal_config :: "TerminalConfig option"
  users :: "int \<rightharpoonup> LocalUser"
  user_status :: "int \<rightharpoonup> UserStatusRow"
  checkins :: "CheckinRecord list"
  checkins_seq :: nat
  sync_log :: "SyncLogRow list"
  sync_log_seq :: nat

record FailedRecord =
  f_localId :: string
  f_error :: string

record ServerUser =
  su_userId :: int
  su_name :: string
  su_personnelNumber :: "string option"
  su_department :: "string option"
  su_nfcCardHash :: "string option"
  su_pinHash :: "string option"
  su_profilePhotoUrl :: "string option"
  su_isActive :: bool

record ServerSettings =
  set_syncIntervalSeconds :: int
  set_offlineBufferHours :: int
  set_nfcEnabled :: bool
  set_pinFallbackEnabled :: bool
  set_timezone :: string
  set_language :: string
  breakReminderMinutes :: int
  autoCheckoutHours :: int

datatype ConflictType = duplicate | time_mismatch | user_mismatch

datatype Resolution = use_server | use_local | manual_resolution

text \<open>\<^verbatim>\<open>serverRecord: any\<close> is never read and is left out.\<close>

record ConflictRecord =
  k_localId :: string
  conflictType :: ConflictType
  resolution :: Resolution

record SyncResponse =
  success :: bool
  serverTimestamp :: int
  syncedRecords :: int
  failedRecords :: "FailedRecord list"
  r_users :: "ServerUser list option"
  r_settings :: "ServerSettings option"
  conflicts :: "ConflictRecord list option"

record SyncRequest =
  q_terminalId :: string
  lastSyncTimestamp :: int
  q_checkins :: "CheckinRecord list"
  q_syncType :: SyncType

text \<open>The fields of class \<^verbatim>\<open>SyncService\<close>; a timer is the period it was set with.\<close>

record SyncService =
  api :: "string option"
  config :: "TerminalConfig option"
  syncInterval :: "int option"
  heartbeatInterval :: "int option"
  isSyncing :: bool
  isOnline :: bool
  retryCount :: int

definition maxRetries :: int where
  "maxRetries = 3"

section \<open>Errors, the environment and the state\<close>

text \<open>
  What the source throws: \<^verbatim>\<open>new Error(message)\<close>, SQLite's refusal of a row that
  breaks a UNIQUE constraint (the column it names), the \<^verbatim>\<open>TypeError\<close> of reading a
  field of \<^verbatim>\<open>null\<close>, and the \<^verbatim>\<open>AxiosError\<close> of a request that did not return a 2xx
  response (whether a response arrived at all, and its message).
\<close>

datatype error =
  Error string
  | UniqueConstraintFailed string
  | TypeError string
  | AxiosError bool string

fun message :: "error \<Rightarrow> string" where
  "message (Error m) = m"
| "message (UniqueConstraintFailed c) = ''UNIQUE constraint failed: '' @ c"
| "message (TypeError m) = m"
| "message (AxiosError has_response m) = m"

text \<open>
  The environment is what the code reads but does not compute: the clock, the strings
  \<^verbatim>\<open>generateLocalId\<close> returns (built from the clock and \<^verbatim>\<open>Math.random\<close>),
  \<^verbatim>\<open>navigator.onLine\<close>, and the order SQLite gives to rows that an \<^verbatim>\<open>ORDER BY\<close> leaves
  tied (a rank per row; rows of one rank stay in rowid order). The first three are indexed
  by the number of readings taken before them, so two readings in one operation may differ.
\<close>

record env =
  clock :: "nat \<Rightarrow> int"
  localIds :: "nat \<Rightarrow> string"
  onLine :: "nat \<Rightarrow> bool"
  tieRank :: "CheckinRecord \<Rightarrow> nat"

text \<open>
  The state of the running app: the handle \<^verbatim>\<open>Database.db\<close> (\<open>None\<close> until
  \<^verbatim>\<open>initialize\<close> has run), the readings taken so far, the \<^verbatim>\<open>syncService\<close> singleton,
  the number of retry callbacks \<^verbatim>\<open>setTimeout\<close> holds, the sync attempts
  \<^verbatim>\<open>startAutoSync\<close> has started and not awaited, and the requests posted to the backend.
\<close>

record world =
  db :: "sqlite option"
  ticks :: nat
  sync :: SyncService
  retryTimers :: nat
  started :: "SyncType list"
  outbox :: "SyncRequest list"

text \<open>
  An \<^verbatim>\<open>async\<close> function takes the state and returns the new state with either the
  value it resolves to or the error it rejects with; \<open>bindE\<close> is \<^verbatim>\<open>await\<close>.
\<close>

type_synonym 'a io = "world \<Rightarrow> (error + 'a) \<times> world"

definition returnE :: "'a \<Rightarrow> 'a io" where
  "returnE x w = (Inr x, w)"

definition throwE :: "error \<Rightarrow> 'a io" where
  "throwE e w = (Inl e, w)"

definition bindE :: "'a io \<Rightarrow> ('a \<Rightarrow> 'b io) \<Rightarrow> 'b io" where
  "bindE m f w = (case m w of (Inl e, w') \<Rightarrow> (Inl e, w') | (Inr x, w') \<Rightarrow> f x w')"

text \<open>A \<^verbatim>\<open>for ... of\<close> loop whose body awaits.\<close>

fun forE :: "'a list \<Rightarrow> ('a \<Rightarrow> unit io) \<Rightarrow> unit io" where
  "forE [] f = returnE ()"
| "forE (x # xs) f = bindE (f x) (\<lambda>_. forE xs f)"

definition dateNow :: "env \<Rightarrow> world \<Rightarrow> int \<times> world" where
  "dateNow e w = (clock e (ticks w), w\<lparr>ticks := Suc (ticks w)\<rparr>)"

text \<open>The date of reading \<open>n\<close>: \<^verbatim>\<open>new Date().toISOString().split('T')[0]\<close>.\<close>

definition dateAt :: "env \<Rightarrow> nat \<Rightarrow> string" where
  "dateAt e n = isoDate (clock e n)"

definition todayISO :: "env \<Rightarrow> world \<Rightarrow> string \<times> world" where
  "todayISO e w = (dateAt e (ticks w), w\<lparr>ticks := Suc (ticks w)\<rparr>)"

definition generateLocalId :: "env \<Rightarrow> world \<Rightarrow> string \<times> world" where
  "generateLocalId e w = (localIds e (ticks w), w\<lparr>ticks := Suc (ticks w)\<rparr>)"

definition notInitialized :: error where
  "notInitialized = Error ''Database not initialized''"

section \<open>database.ts\<close>

text \<open>
  Every method of class \<^verbatim>\<open>Database\<close> starts with
  \<^verbatim>\<open>if (!this.db) throw new Error('Database not initialized')\<close>. A statement
  \<^verbatim>\<open>INSERT OR REPLACE\<close> on a primary key is a map update, an \<^verbatim>\<open>UPDATE ... WHERE\<close>
  rewrites every row the condition selects and is no error when it selects none, and an
  \<^verbatim>\<open>INSERT\<close> of a \<^verbatim>\<open>local_id\<close> that a row of \<^verbatim>\<open>checkins\<close> already has is refused
  by the column's UNIQUE constraint.
\<close>

definition saveTerminalConfig :: "TerminalConfig \<Rightarrow> unit io" where
  "saveTerminalConfig cfg w =
     (case db w of
        None \<Rightarrow> (Inl notInitialized, w)
      | Some d \<Rightarrow>
          (Inr (), w\<lparr>db := Some (d\<lparr>terminal_config :=
             Some (cfg\<lparr>location := orNullStr (location cfg),
                        lastSyncAt := orNullNum (lastSyncAt cfg)\<rparr>)\<rparr>)\<rparr>))"

definition getTerminalConfig :: "TerminalConfig option io" where
  "getTerminalConfig w =
     (case db w of
        None \<Rightarrow> (Inl notInitialized, w)
      | Some d \<Rightarrow> (Inr (terminal_config d), w))"

definition saveUser :: "env \<Rightarrow> LocalUser \<Rightarrow> unit io" where
  "saveUser e user w =
     (case db w of
        None \<Rightarrow> (Inl notInitialized, w)
      | Some d \<Rightarrow>
          (let (stamp, w1) =
                 (case orNullNum (lastSyncedAt user) of
                    Some t \<Rightarrow> (t, w)
                  | None \<Rightarrow> dateNow e w)
           in (Inr (), w1\<lparr>db := Some (d\<lparr>users := (users d)(u_id user \<mapsto>
                 user\<lparr>personnelNumber := orNullStr (personnelNumber user),
                      department := orNullStr (department user),
                      u_nfcCardHash := orNullStr (u_nfcCardHash user),
                      pinHash := orNullStr (pinHash user),
                      profilePhotoUrl := orNullStr (profilePhotoUrl user),
                      lastSyncedAt := Some stamp\<rparr>)\<rparr>)\<rparr>)))"

definition saveUsers :: "env \<Rightarrow> LocalUser list \<Rightarrow> unit io" where
  "saveUsers e us = forE us (saveUser e)"

definition getUserById :: "int \<Rightarrow> LocalUser option io" where
  "getUserById uid w =
     (case db w of
        None \<Rightarrow> (Inl notInitialized, w)
      | Some d \<Rightarrow> (Inr (users d uid), w))"

definition resetDailyStatus :: "int \<Rightarrow> string \<Rightarrow> unit io" where
  "resetDailyStatus uid today w =
     (case db w of
        None \<Rightarrow> (Inl notInitialized, w)
      | Some d \<Rightarrow>
          (case user_status d uid of
             None \<Rightarrow> (Inr (), w)
           | Some row \<Rightarrow>
               (Inr (), w\<lparr>db := Some (d\<lparr>user_status := (user_status d)(uid \<mapsto>
                  row\<lparr>is_checked_in := False, is_on_break := False,
                      current_session_start := None, total_today_minutes := 0,
                      today_date := today\<rparr>)\<rparr>)\<rparr>)))"

definition getUserStatus :: "env \<Rightarrow> int \<Rightarrow> UserStatus option io" where
  "getUserStatus e uid w =
     (case db w of
        None \<Rightarrow> (Inl notInitialized, w)
      | Some d \<Rightarrow>
          (let (today, w1) = todayISO e w in
           case user_status d uid of
             None \<Rightarrow> (Inr None, w1)
           | Some result \<Rightarrow>
               if today_date result \<noteq> today then
                 bindE (resetDailyStatus uid today) (\<lambda>_. returnE (Some
                   \<lparr>us_userId = uid, us_userName = [], isCheckedIn = False,
                    isOnBreak = False, lastCheckIn = None, lastCheckOut = None,
                    currentSessionStart = None, totalTodayMinutes = 0\<rparr>)) w1
               else
                 bindE (getUserById uid) (\<lambda>user. returnE (Some
                   \<lparr>us_userId = uid,
                    us_userName = (case user of None \<Rightarrow> [] | Some u \<Rightarrow> u_name u),
                    isCheckedIn = is_checked_in result,
                    isOnBreak = is_on_break result,
                    lastCheckIn = last_check_in result,
                    lastCheckOut = last_check_out result,
                    currentSessionStart = current_session_start result,
                    totalTodayMinutes = total_today_minutes result\<rparr>)) w1))"

text \<open>
  \<^verbatim>\<open>updateUserStatus\<close> inserts the row of a user who has none, and otherwise sets the
  columns whose update is not \<^verbatim>\<open>undefined\<close>; both write \<^verbatim>\<open>today_date\<close>.
\<close>

definition updateUserStatus :: "env \<Rightarrow> int \<Rightarrow> StatusUpdates \<Rightarrow> unit io" where
  "updateUserStatus e uid updates w =
     (case db w of
        None \<Rightarrow> (Inl notInitialized, w)
      | Some d \<Rightarrow>
          (let (today, w1) = todayISO e w in
           case user_status d uid of
             None \<Rightarrow>
               (Inr (), w1\<lparr>db := Some (d\<lparr>user_status := (user_status d)(uid \<mapsto>
                  \<lparr>is_checked_in = (upd_isCheckedIn updates = Some True),
                   is_on_break = (upd_isOnBreak updates = Some True),
                   last_check_in = orNullNum (upd_lastCheckIn updates),
                   last_check_out = orNullNum (upd_lastCheckOut updates),
                   current_session_start = orNullNum (upd_currentSessionStart updates),
                   total_today_minutes = orZero (upd_totalTodayMinutes updates),
                   today_date = today\<rparr>)\<rparr>)\<rparr>)
           | Some row \<Rightarrow>
               (Inr (), w1\<lparr>db := Some (d\<lparr>user_status := (user_status d)(uid \<mapsto>
                  \<lparr>is_checked_in =
                     (case upd_isCheckedIn updates of None \<Rightarrow> is_checked_in row | Some b \<Rightarrow> b),
                   is_on_break =
                     (case upd_isOnBreak updates of None \<Rightarrow> is_on_break row | Some b \<Rightarrow> b),
                   last_check_in =
                     (case upd_lastCheckIn updates of None \<Rightarrow> last_check_in row
                      | Some t \<Rightarrow> Some t),
                   last_check_out =
                     (case upd_lastCheckOut updates of None \<Rightarrow> last_check_out row
                      | Some t \<Rightarrow> Some t),
                   current_session_start =
                     (case upd_currentSessionStart updates of
                        None \<Rightarrow> current_session_start row
                      | Some t \<Rightarrow> orNullNum (Some t)),
                   total_today_minutes =
                     (case upd_totalTodayMinutes updates of
                        None \<Rightarrow> total_today_minutes row
                      | Some m \<Rightarrow> m),
                   today_date = today\<rparr>)\<rparr>)\<rparr>)))"

text \<open>
  \<^verbatim>\<open>saveCheckin\<close> binds \<^verbatim>\<open>checkin.syncStatus\<close> to column \<^verbatim>\<open>sync_status\<close>; the columns
  \<^verbatim>\<open>synced_at\<close> and \<^verbatim>\<open>sync_error\<close> are not in the statement and stay NULL.
\<close>

definition saveCheckin :: "CheckinRecord \<Rightarrow> unit io" where
  "saveCheckin checkin w =
     (case db w of
        None \<Rightarrow> (Inl notInitialized, w)
      | Some d \<Rightarrow>
          if localId checkin \<in> set (map localId (checkins d)) then
            (Inl (UniqueConstraintFailed ''checkins.local_id''), w)
          else
            (Inr (), w\<lparr>db := Some (d\<lparr>checkins := checkins d @
               [checkin\<lparr>rowId := Some (Suc (checkins_seq d)),
                        nfcCardHash := orNullStr (nfcCardHash checkin),
                        latitude := orNullReal (latitude checkin),
                        longitude := orNullReal (longitude checkin),
                        syncedAt := None, syncError := None\<rparr>],
               checkins_seq := Suc (checkins_seq d)\<rparr>)\<rparr>))"

text \<open>
  \<^verbatim>\<open>ORDER BY timestamp ASC\<close> orders the selected rows by timestamp and promises nothing
  about rows of one timestamp: those come in the order of the environment's \<open>tieRank\<close>
  (\<open>sort_key\<close> is stable, so the second sort keeps the order the first one made).
\<close>

definition getPendingCheckins :: "env \<Rightarrow> CheckinRecord list io" where
  "getPendingCheckins e w =
     (case db w of
        None \<Rightarrow> (Inl notInitialized, w)
      | Some d \<Rightarrow>
          (Inr (sort_key timestamp
                  (sort_key (tieRank e)
                     (filter (\<lambda>c. syncStatus c = pending \<or> syncStatus c = failed)
                        (checkins d)))),
           w))"

definition updateCheckinSyncStatus ::
    "string \<Rightarrow> SyncStatus \<Rightarrow> int option \<Rightarrow> string option \<Rightarrow> unit io" where
  "updateCheckinSyncStatus lid st syncedAt_arg err w =
     (case db w of
        None \<Rightarrow> (Inl notInitialized, w)
      | Some d \<Rightarrow>
          (Inr (), w\<lparr>db := Some (d\<lparr>checkins :=
             map (\<lambda>c. if localId c = lid
                       then c\<lparr>syncStatus := st, syncedAt := orNullNum syncedAt_arg,
                              syncError := orNullStr err\<rparr>
                       else c) (checkins d)\<rparr>)\<rparr>))"

definition deleteOldSyncedCheckins :: "env \<Rightarrow> int \<Rightarrow> nat io" where
  "deleteOldSyncedCheckins e olderThanDays w =
     (case db w of
        None \<Rightarrow> (Inl notInitialized, w)
      | Some d \<Rightarrow>
          (let (now, w1) = dateNow e w;
               cutoff = now - olderThanDays * 24 * 60 * 60 * 1000;
               old = (\<lambda>c. syncStatus c = synced \<and> timestamp c < cutoff)
           in (Inr (length (filter old (checkins d))),
               w1\<lparr>db := Some (d\<lparr>checkins := filter (\<lambda>c. \<not> old c) (checkins d)\<rparr>)\<rparr>)))"

definition logSyncStart :: "env \<Rightarrow> SyncType \<Rightarrow> nat io" where
  "logSyncStart e ty w =
     (case db w of
        None \<Rightarrow> (Inl notInitialized, w)
      | Some d \<Rightarrow>
          (let (now, w1) = dateNow e w; new_id = Suc (sync_log_seq d)
           in (Inr new_id, w1\<lparr>db := Some (d\<lparr>sync_log := sync_log d @
                 [\<lparr>log_id = new_id, sync_type = ty, started_at = now, completed_at = None,
                   records_sent = 0, records_received = 0, records_failed = 0,
                   status = in_progress, error_message = None\<rparr>],
                 sync_log_seq := new_id\<rparr>)\<rparr>)))"

definition logSyncComplete :: "env \<Rightarrow> nat \<Rightarrow> int \<Rightarrow> int \<Rightarrow> int \<Rightarrow> unit io" where
  "logSyncComplete e logId recordsSent recordsReceived recordsFailed w =
     (case db w of
        None \<Rightarrow> (Inl notInitialized, w)
      | Some d \<Rightarrow>
          (let (now, w1) = dateNow e w
           in (Inr (), w1\<lparr>db := Some (d\<lparr>sync_log :=
                 map (\<lambda>r. if log_id r = logId
                           then r\<lparr>completed_at := Some now, records_sent := recordsSent,
                                  records_received := recordsReceived,
                                  records_failed := recordsFailed, status := completed\<rparr>
                           else r) (sync_log d)\<rparr>)\<rparr>)))"

definition logSyncFailed :: "env \<Rightarrow> nat \<Rightarrow> string \<Rightarrow> unit io" where
  "logSyncFailed e logId errorMessage w =
     (case db w of
        None \<Rightarrow> (Inl notInitialized, w)
      | Some d \<Rightarrow>
          (let (now, w1) = dateNow e w
           in (Inr (), w1\<lparr>db := Some (d\<lparr>sync_log :=
                 map (\<lambda>r. if log_id r = logId
                           then r\<lparr>completed_at := Some now, status := log_failed,
                                  error_message := Some errorMessage\<rparr>
                           else r) (sync_log d)\<rparr>)\<rparr>)))"

section \<open>checkinService.ts\<close>

text \<open>
  The fields of the object literal are evaluated in order: \<^verbatim>\<open>generateLocalId()\<close>,
  \<^verbatim>\<open>Date.now()\<close>, then \<^verbatim>\<open>navigator.onLine\<close>. The result is the JavaScript object, not
  the stored row.
\<close>

definition newRecord ::
    "env \<Rightarrow> int \<Rightarrow> string \<Rightarrow> CheckType \<Rightarrow> AuthMethod \<Rightarrow> string option \<Rightarrow> world
      \<Rightarrow> CheckinRecord \<times> world" where
  "newRecord e uid uname ty auth hash w =
     (let (lid, w1) = generateLocalId e w; (now, w2) = dateNow e w1
      in (\<lparr>rowId = None, localId = lid, userId = uid, userName = uname, checkType = ty,
           timestamp = now, authMethod = auth, nfcCardHash = hash, latitude = None,
           longitude = None, createdOffline = (\<not> onLine e (ticks w2)),
           syncStatus = pending, syncedAt = None, syncError = None\<rparr>, w2))"

definition checkIn ::
    "env \<Rightarrow> int \<Rightarrow> string \<Rightarrow> AuthMethod \<Rightarrow> string option \<Rightarrow> CheckinRecord io" where
  "checkIn e uid uname auth hash w =
     (let (record, w1) = newRecord e uid uname check_in auth hash w
      in bindE (saveCheckin record) (\<lambda>_.
         bindE (updateUserStatus e uid
                  (noUpdates\<lparr>upd_isCheckedIn := Some True,
                             upd_lastCheckIn := Some (timestamp record),
                             upd_currentSessionStart := Some (timestamp record)\<rparr>)) (\<lambda>_.
         returnE record)) w1)"

text \<open>
  \<^verbatim>\<open>checkOut\<close> passes \<^verbatim>\<open>currentSessionStart: undefined\<close>, which \<^verbatim>\<open>updateUserStatus\<close>
  reads as a field that is not given.
\<close>

definition checkOut ::
    "env \<Rightarrow> int \<Rightarrow> string \<Rightarrow> AuthMethod \<Rightarrow> string option \<Rightarrow> CheckinRecord io" where
  "checkOut e uid uname auth hash w =
     (let (record, w1) = newRecord e uid uname check_out auth hash w
      in bindE (saveCheckin record) (\<lambda>_.
         bindE (getUserStatus e uid) (\<lambda>userStatus.
           let sessionMinutes =
                 (case userStatus of
                    None \<Rightarrow> 0
                  | Some st \<Rightarrow>
                      (case orNullNum (currentSessionStart st) of
                         None \<Rightarrow> 0
                       | Some start \<Rightarrow> roundMinutes (timestamp record - start)));
               total = (case userStatus of None \<Rightarrow> 0 | Some st \<Rightarrow> totalTodayMinutes st)
           in
         bindE (updateUserStatus e uid
                  (noUpdates\<lparr>upd_isCheckedIn := Some False, upd_isOnBreak := Some False,
                             upd_lastCheckOut := Some (timestamp record),
                             upd_currentSessionStart := None,
                             upd_totalTodayMinutes := Some (total + sessionMinutes)\<rparr>)) (\<lambda>_.
         returnE record))) w1)"

definition startBreak :: "env \<Rightarrow> int \<Rightarrow> string \<Rightarrow> AuthMethod \<Rightarrow> CheckinRecord io" where
  "startBreak e uid uname auth w =
     (let (record, w1) = newRecord e uid uname break_start auth None w
      in bindE (saveCheckin record) (\<lambda>_.
         bindE (updateUserStatus e uid (noUpdates\<lparr>upd_isOnBreak := Some True\<rparr>)) (\<lambda>_.
         returnE record)) w1)"

definition endBreak :: "env \<Rightarrow> int \<Rightarrow> string \<Rightarrow> AuthMethod \<Rightarrow> CheckinRecord io" where
  "endBreak e uid uname auth w =
     (let (record, w1) = newRecord e uid uname break_end auth None w
      in bindE (saveCheckin record) (\<lambda>_.
         bindE (updateUserStatus e uid (noUpdates\<lparr>upd_isOnBreak := Some False\<rparr>)) (\<lambda>_.
         returnE record)) w1)"

definition toggleCheckin ::
    "env \<Rightarrow> int \<Rightarrow> string \<Rightarrow> AuthMethod \<Rightarrow> string option
      \<Rightarrow> (CheckType \<times> CheckinRecord) io" where
  "toggleCheckin e uid uname auth hash =
     bindE (getUserStatus e uid) (\<lambda>userStatus.
       if \<not> (case userStatus of None \<Rightarrow> False | Some st \<Rightarrow> isCheckedIn st) then
         bindE (checkIn e uid uname auth hash) (\<lambda>record. returnE (check_in, record))
       else
         bindE (checkOut e uid uname auth hash) (\<lambda>record. returnE (check_out, record)))"

section \<open>syncService.ts\<close>

text \<open>
  \<^verbatim>\<open>performSync\<close> runs without suspending up to its first \<^verbatim>\<open>await\<close>: the two guards
  and \<^verbatim>\<open>this.isSyncing = true\<close>. \<open>performSync_enter\<close> is that prefix and tells whether
  the attempt goes on; \<open>performSync_run\<close> is the rest.
\<close>

definition performSync_enter :: "world \<Rightarrow> bool \<times> world" where
  "performSync_enter w =
     (if api (sync w) = None \<or> config (sync w) = None then (False, w)
      else if isSyncing (sync w) then (False, w)
      else (True, w\<lparr>sync := (sync w)\<lparr>isSyncing := True\<rparr>\<rparr>))"

definition stopAutoSync :: "world \<Rightarrow> world" where
  "stopAutoSync w = w\<lparr>sync := (sync w)\<lparr>syncInterval := None, heartbeatInterval := None\<rparr>\<rparr>"

text \<open>
  \<^verbatim>\<open>startAutoSync\<close> calls \<^verbatim>\<open>this.syncIncremental()\<close> and does not await it: the call runs
  the prefix of \<^verbatim>\<open>performSync\<close>, and an attempt that passes the guards is left started.
\<close>

definition startAutoSync :: "world \<Rightarrow> world" where
  "startAutoSync w =
     (case config (sync w) of
        None \<Rightarrow> w
      | Some cfg \<Rightarrow>
          (let w1 = stopAutoSync w;
               w2 = w1\<lparr>sync := (sync w1)\<lparr>syncInterval := Some (syncIntervalSeconds cfg * 1000),
                                          heartbeatInterval := Some 30000\<rparr>\<rparr>;
               (entered, w3) = performSync_enter w2
           in if entered then w3\<lparr>started := started w3 @ [incremental]\<rparr> else w3))"

text \<open>
  The outcome of \<^verbatim>\<open>this.api.post\<close>: the promise resolves with the response body, or
  rejects with an \<^verbatim>\<open>AxiosError\<close> that has a response (a status outside 2xx) or has none
  (no connection, or the timeout of 30 s). The outcome is a parameter of the attempt.
  The request interceptor reads the clock when \<^verbatim>\<open>this.config\<close> is set; the response
  interceptor sets \<^verbatim>\<open>isOnline\<close> and \<^verbatim>\<open>retryCount\<close>.
\<close>

datatype PostResult = Resolved SyncResponse | Rejected bool string

definition api_post :: "env \<Rightarrow> PostResult \<Rightarrow> SyncRequest \<Rightarrow> SyncResponse io" where
  "api_post e reply request w =
     (let w1 = (if config (sync w) \<noteq> None then snd (dateNow e w) else w);
          w2 = w1\<lparr>outbox := outbox w1 @ [request]\<rparr>
      in case reply of
           Resolved data \<Rightarrow>
             (Inr data, w2\<lparr>sync := (sync w2)\<lparr>isOnline := True, retryCount := 0\<rparr>\<rparr>)
         | Rejected has_response msg \<Rightarrow>
             (Inl (AxiosError has_response msg),
              if \<not> has_response then w2\<lparr>sync := (sync w2)\<lparr>isOnline := False\<rparr>\<rparr> else w2))"

fun toLocalUsers :: "env \<Rightarrow> ServerUser list \<Rightarrow> world \<Rightarrow> LocalUser list \<times> world" where
  "toLocalUsers e [] w = ([], w)"
| "toLocalUsers e (u # us) w =
     (let (now, w1) = dateNow e w; (rest, w2) = toLocalUsers e us w1
      in (\<lparr>u_id = su_userId u, u_name = su_name u,
           personnelNumber = su_personnelNumber u, department = su_department u,
           u_nfcCardHash = orNullStr (su_nfcCardHash u), pinHash = orNullStr (su_pinHash u),
           profilePhotoUrl = su_profilePhotoUrl u, isActive = su_isActive u,
           lastSyncedAt = Some now\<rparr> # rest, w2))"

definition updateLocalUsers :: "env \<Rightarrow> ServerUser list \<Rightarrow> unit io" where
  "updateLocalUsers e serverUsers w =
     (let (localUsers, w1) = toLocalUsers e serverUsers w in saveUsers e localUsers w1)"

definition updateSettings :: "ServerSettings \<Rightarrow> unit io" where
  "updateSettings settings w =
     (case config (sync w) of
        None \<Rightarrow> (Inr (), w)
      | Some c \<Rightarrow>
          (let c' = c\<lparr>syncIntervalSeconds := set_syncIntervalSeconds settings,
                      offlineBufferHours := set_offlineBufferHours settings,
                      nfcEnabled := set_nfcEnabled settings,
                      pinFallbackEnabled := set_pinFallbackEnabled settings,
                      timezone := set_timezone settings,
                      language := set_language settings\<rparr>
           in bindE (saveTerminalConfig c')
                (\<lambda>_ w2. (Inr (), if syncInterval (sync w2) \<noteq> None then startAutoSync w2 else w2))
                (w\<lparr>sync := (sync w)\<lparr>config := Some c'\<rparr>\<rparr>)))"

fun conflictTypeStr :: "ConflictType \<Rightarrow> string" where
  "conflictTypeStr duplicate = ''duplicate''"
| "conflictTypeStr time_mismatch = ''time_mismatch''"
| "conflictTypeStr user_mismatch = ''user_mismatch''"

text \<open>The body of the loop of \<^verbatim>\<open>handleConflicts\<close>: the \<^verbatim>\<open>switch\<close> on the resolution.\<close>

definition handleConflict :: "ConflictRecord \<Rightarrow> unit io" where
  "handleConflict c =
     (case resolution c of
        use_server \<Rightarrow>
          updateCheckinSyncStatus (k_localId c) conflict None
            (Some (''Resolved: '' @ conflictTypeStr (conflictType c)))
      | use_local \<Rightarrow> updateCheckinSyncStatus (k_localId c) pending None None
      | manual_resolution \<Rightarrow>
          updateCheckinSyncStatus (k_localId c) conflict None
            (Some (''Manual resolution required: '' @ conflictTypeStr (conflictType c))))"

definition handleConflicts :: "ConflictRecord list \<Rightarrow> unit io" where
  "handleConflicts cs = forE cs handleConflict"

definition syncedLocalIds :: "SyncResponse \<Rightarrow> CheckinRecord list \<Rightarrow> string list" where
  "syncedLocalIds data pendingCheckins =
     map localId
       (filter (\<lambda>c. find (\<lambda>f. f_localId f = localId c) (failedRecords data) = None)
          pendingCheckins)"

definition markSynced :: "env \<Rightarrow> string \<Rightarrow> unit io" where
  "markSynced e lid w =
     (let (now, w1) = dateNow e w in updateCheckinSyncStatus lid synced (Some now) None w1)"

definition markFailed :: "FailedRecord \<Rightarrow> unit io" where
  "markFailed f = updateCheckinSyncStatus (f_localId f) failed None (Some (f_error f))"

text \<open>\<^verbatim>\<open>this.config.lastSyncAt = data.serverTimestamp\<close>, then the config is saved.\<close>

definition advanceLastSyncAt :: "int \<Rightarrow> unit io" where
  "advanceLastSyncAt t w =
     (case config (sync w) of
        None \<Rightarrow> (Inl (TypeError ''Cannot set properties of null''), w)
      | Some c \<Rightarrow>
          saveTerminalConfig (c\<lparr>lastSyncAt := Some t\<rparr>)
            (w\<lparr>sync := (sync w)\<lparr>config := Some (c\<lparr>lastSyncAt := Some t\<rparr>)\<rparr>\<rparr>))"

text \<open>The branch \<^verbatim>\<open>if (data.success)\<close> of the \<^verbatim>\<open>try\<close> block.\<close>

definition applyResponse ::
    "env \<Rightarrow> nat \<Rightarrow> CheckinRecord list \<Rightarrow> SyncResponse \<Rightarrow> SyncResponse io" where
  "applyResponse e logId pendingCheckins data =
     bindE (forE (syncedLocalIds data pendingCheckins) (markSynced e)) (\<lambda>_.
     bindE (forE (failedRecords data) markFailed) (\<lambda>_.
     bindE (case r_users data of
              None \<Rightarrow> returnE ()
            | Some us \<Rightarrow> if length us > 0 then updateLocalUsers e us else returnE ()) (\<lambda>_.
     bindE (case r_settings data of
              None \<Rightarrow> returnE ()
            | Some settings \<Rightarrow> updateSettings settings) (\<lambda>_.
     bindE (case conflicts data of
              None \<Rightarrow> returnE ()
            | Some cs \<Rightarrow> if length cs > 0 then handleConflicts cs else returnE ()) (\<lambda>_.
     bindE (advanceLastSyncAt (serverTimestamp data)) (\<lambda>_.
     bindE (logSyncComplete e logId
              (int (length (syncedLocalIds data pendingCheckins)))
              (case r_users data of None \<Rightarrow> 0 | Some us \<Rightarrow> int (length us))
              (int (length (failedRecords data)))) (\<lambda>_.
     returnE data)))))))"

text \<open>The \<^verbatim>\<open>try\<close> block of \<^verbatim>\<open>performSync\<close>.\<close>

definition performSync_try :: "env \<Rightarrow> PostResult \<Rightarrow> SyncType \<Rightarrow> nat \<Rightarrow> SyncResponse io" where
  "performSync_try e reply ty logId =
     bindE (getPendingCheckins e) (\<lambda>pendingCheckins w.
       case config (sync w) of
         None \<Rightarrow> (Inl (TypeError ''Cannot read properties of null''), w)
       | Some cfg \<Rightarrow>
           bindE (api_post e reply
                    \<lparr>q_terminalId = terminalId cfg,
                     lastSyncTimestamp = orZero (lastSyncAt cfg),
                     q_checkins = pendingCheckins, q_syncType = ty\<rparr>) (\<lambda>data.
             if success data then applyResponse e logId pendingCheckins data
             else throwE (Error ''Sync failed: server returned success=false'')) w)"

text \<open>
  The \<^verbatim>\<open>catch\<close> block: the session is closed as failed, and while fewer than
  \<open>maxRetries\<close> retries are counted, one more \<^verbatim>\<open>setTimeout\<close> callback is scheduled.
\<close>

definition performSync_catch :: "env \<Rightarrow> nat \<Rightarrow> error \<Rightarrow> SyncResponse option io" where
  "performSync_catch e logId err =
     bindE (logSyncFailed e logId (message err)) (\<lambda>_ w.
       (Inr None,
        if retryCount (sync w) < maxRetries
        then w\<lparr>sync := (sync w)\<lparr>retryCount := retryCount (sync w) + 1\<rparr>,
               retryTimers := Suc (retryTimers w)\<rparr>
        else w))"

text \<open>
  From \<^verbatim>\<open>logSyncStart\<close> on. An error of \<^verbatim>\<open>logSyncStart\<close> is thrown before the \<^verbatim>\<open>try\<close>
  statement, so the \<^verbatim>\<open>finally\<close> block does not run for it.
\<close>

definition performSync_run :: "env \<Rightarrow> PostResult \<Rightarrow> SyncType \<Rightarrow> SyncResponse option io" where
  "performSync_run e reply ty w =
     (case logSyncStart e ty w of
        (Inl err, w1) \<Rightarrow> (Inl err, w1)
      | (Inr logId, w1) \<Rightarrow>
          (let (r, w2) =
                 (case performSync_try e reply ty logId w1 of
                    (Inr data, w2) \<Rightarrow> (Inr (Some data), w2)
                  | (Inl err, w2) \<Rightarrow> performSync_catch e logId err w2)
           in (r, w2\<lparr>sync := (sync w2)\<lparr>isSyncing := False\<rparr>\<rparr>)))"

definition performSync :: "env \<Rightarrow> PostResult \<Rightarrow> SyncType \<Rightarrow> SyncResponse option io" where
  "performSync e reply ty w =
     (case performSync_enter w of
        (False, w1) \<Rightarrow> (Inr None, w1)
      | (True, w1) \<Rightarrow> performSync_run e reply ty w1)"

definition syncFull :: "env \<Rightarrow> PostResult \<Rightarrow> SyncResponse option io" where
  "syncFull e reply = performSync e reply full"

definition syncIncremental :: "env \<Rightarrow> PostResult \<Rightarrow> SyncResponse option io" where
  "syncIncremental e reply = performSync e reply incremental"

text \<open>
  \<^verbatim>\<open>forceSync\<close>, the trigger of the settings and admin screens, resets the retry counter
  before it calls \<^verbatim>\<open>syncFull\<close>.
\<close>

definition forceSync :: "env \<Rightarrow> PostResult \<Rightarrow> SyncResponse option io" where
  "forceSync e reply w = syncFull e reply (w\<lparr>sync := (sync w)\<lparr>retryCount := 0\<rparr>\<rparr>)"

section \<open>Observations and example states\<close>

text \<open>What is stored, read off the state; an unopened database stores nothing.\<close>

definition storedCheckins :: "world \<Rightarrow> CheckinRecord list" where
  "storedCheckins w = (case db w of None \<Rightarrow> [] | Some d \<Rightarrow> checkins d)"

definition storedStatus :: "world \<Rightarrow> int \<Rightarrow> UserStatusRow option" where
  "storedStatus w uid = (case db w of None \<Rightarrow> None | Some d \<Rightarrow> user_status d uid)"

definition storedConfig :: "world \<Rightarrow> TerminalConfig option" where
  "storedConfig w = (case db w of None \<Rightarrow> None | Some d \<Rightarrow> terminal_config d)"

definition storedLog :: "world \<Rightarrow> SyncLogRow list" where
  "storedLog w = (case db w of None \<Rightarrow> [] | Some d \<Rightarrow> sync_log d)"

text \<open>
  The checkpoint an attempt sends: \<^verbatim>\<open>this.config.lastSyncAt || 0\<close>.
\<close>

definition checkpoint :: "world \<Rightarrow> int" where
  "checkpoint w = (case config (sync w) of None \<Rightarrow> 0 | Some c \<Rightarrow> orZero (lastSyncAt c))"

text \<open>The ids a response names in \<^verbatim>\<open>failedRecords\<close> and in \<^verbatim>\<open>conflicts\<close>.\<close>

definition failedIds :: "SyncResponse \<Rightarrow> string set" where
  "failedIds data = f_localId ` set (failedRecords data)"

definition conflictIds :: "SyncResponse \<Rightarrow> string set" where
  "conflictIds data = (case conflicts data of None \<Rightarrow> {} | Some cs \<Rightarrow> k_localId ` set cs)"

text \<open>The ids of the events an attempt sends: those \<^verbatim>\<open>getPendingCheckins\<close> selects.\<close>

definition sentIds :: "world \<Rightarrow> string set" where
  "sentIds w =
     set (map localId
            (filter (\<lambda>c. syncStatus c = pending \<or> syncStatus c = failed) (storedCheckins w)))"

text \<open>The state after \<^verbatim>\<open>database.initialize()\<close> on a new installation.\<close>

definition emptyDb :: sqlite where
  "emptyDb = \<lparr>terminal_config = None, users = Map.empty, user_status = Map.empty,
     checkins = [], checkins_seq = 0, sync_log = [], sync_log_seq = 0\<rparr>"

definition newSyncService :: SyncService where
  "newSyncService = \<lparr>api = None, config = None, syncInterval = None, heartbeatInterval = None,
     isSyncing = False, isOnline = True, retryCount = 0\<rparr>"

definition world0 :: world where
  "world0 = \<lparr>db = Some emptyDb, ticks = 0, sync = newSyncService, retryTimers = 0,
     started = [], outbox = []\<rparr>"

text \<open>Three events of user 7, and a store that holds the first.\<close>

definition eventA :: CheckinRecord where
  "eventA = \<lparr>rowId = Some 1, localId = ''a'', userId = 7, userName = ''Ann'',
     checkType = check_in, timestamp = 1000, authMethod = nfc, nfcCardHash = None,
     latitude = None, longitude = None, createdOffline = False, syncStatus = pending,
     syncedAt = None, syncError = None\<rparr>"

definition eventB :: CheckinRecord where
  "eventB = eventA\<lparr>rowId := Some 2, localId := ''b'', checkType := check_out,
     timestamp := 2000\<rparr>"

definition eventC :: CheckinRecord where
  "eventC = eventA\<lparr>rowId := Some 3, localId := ''c'', timestamp := 3000\<rparr>"

definition worldA :: world where
  "worldA = world0\<lparr>db := Some (emptyDb\<lparr>checkins := [eventA], checkins_seq := 1\<rparr>)\<rparr>"

text \<open>
  A user whose row was written the day before: checked in, 120 minutes worked. Every
  reading of \<open>envMarch1\<close> falls on 2024-03-01.
\<close>

definition yesterdayRow :: UserStatusRow where
  "yesterdayRow = \<lparr>is_checked_in = True, is_on_break = False, last_check_in = Some 1000,
     last_check_out = None, current_session_start = Some 1000, total_today_minutes = 120,
     today_date = ''2024-02-29''\<rparr>"

definition worldYesterday :: world where
  "worldYesterday = world0\<lparr>db := Some (emptyDb\<lparr>user_status := [7 \<mapsto> yesterdayRow]\<rparr>)\<rparr>"

definition envMarch1 :: env where
  "envMarch1 = \<lparr>clock = (\<lambda>n. 1709280000000 + int n),
     localIds = (\<lambda>n. if n = 0 then ''k0'' else ''k1''), onLine = (\<lambda>n. True),
     tieRank = (\<lambda>c. 0)\<rparr>"

text \<open>
  Whether a status read on the day \<open>today\<close> finds the user checked in: a row of another
  day is reset by the read.
\<close>

definition checkedInOn :: "string \<Rightarrow> UserStatusRow option \<Rightarrow> bool" where
  "checkedInOn today r =
     (case r of None \<Rightarrow> False | Some row \<Rightarrow> today_date row = today \<and> is_checked_in row)"

text \<open>
  Ann toggles at 08:00 and again 90 minutes later; \<open>worldCheckedIn\<close> is the state between
  the two, and in \<open>worldOnBreak\<close> she is on a break as well.
\<close>

definition envToggle :: env where
  "envToggle = \<lparr>clock = (\<lambda>n. if n < 4 then 1709280000000 else 1709285400000),
     localIds = (\<lambda>n. if n < 4 then ''k1'' else ''k2''), onLine = (\<lambda>n. True),
     tieRank = (\<lambda>c. 0)\<rparr>"

definition dbCheckedIn :: sqlite where
  "dbCheckedIn = emptyDb\<lparr>
     user_status := [7 \<mapsto> \<lparr>is_checked_in = True, is_on_break = False,
        last_check_in = Some 1709280000000, last_check_out = None,
        current_session_start = Some 1709280000000, total_today_minutes = 0,
        today_date = ''2024-03-01''\<rparr>],
     checkins := [\<lparr>rowId = Some 1, localId = ''k1'', userId = 7, userName = ''Ann'',
        checkType = check_in, timestamp = 1709280000000, authMethod = nfc,
        nfcCardHash = None, latitude = None, longitude = None, createdOffline = False,
        syncStatus = pending, syncedAt = None, syncError = None\<rparr>],
     checkins_seq := 1\<rparr>"

definition worldCheckedIn :: world where
  "worldCheckedIn = world0\<lparr>db := Some dbCheckedIn, ticks := 4\<rparr>"

definition dbOnBreak :: sqlite where
  "dbOnBreak = dbCheckedIn\<lparr>user_status := [7 \<mapsto> \<lparr>is_checked_in = True, is_on_break = True,
        last_check_in = Some 1709280000000, last_check_out = None,
        current_session_start = Some 1709280000000, total_today_minutes = 0,
        today_date = ''2024-03-01''\<rparr>]\<rparr>"

definition worldOnBreak :: world where
  "worldOnBreak = world0\<lparr>db := Some dbOnBreak, ticks := 4\<rparr>"

text \<open>
  A mark is one call of \<^verbatim>\<open>updateCheckinSyncStatus\<close>: the id, the status and the two
  optional arguments. \<open>applyMark\<close> is what the call does to one row and \<open>applyMarks\<close> what
  a sequence of calls does. The loops of \<^verbatim>\<open>performSync\<close> and \<^verbatim>\<open>handleConflicts\<close> make
  the marks \<open>syncedMarks\<close> (one clock reading each, from reading \<open>t\<close> on), \<open>failedMark\<close>
  and \<open>conflictMark\<close>.
\<close>

definition applyMark ::
    "string \<Rightarrow> SyncStatus \<Rightarrow> int option \<Rightarrow> string option \<Rightarrow> CheckinRecord \<Rightarrow> CheckinRecord" where
  "applyMark lid st sa er c =
     (if localId c = lid
      then c\<lparr>syncStatus := st, syncedAt := orNullNum sa, syncError := orNullStr er\<rparr>
      else c)"

type_synonym mark = "string \<times> SyncStatus \<times> int option \<times> string option"

fun applyMarks :: "mark list \<Rightarrow> CheckinRecord \<Rightarrow> CheckinRecord" where
  "applyMarks [] c = c"
| "applyMarks ((lid, st, sa, er) # ms) c = applyMarks ms (applyMark lid st sa er c)"

fun syncedMarks :: "env \<Rightarrow> nat \<Rightarrow> string list \<Rightarrow> mark list" where
  "syncedMarks e t [] = []"
| "syncedMarks e t (lid # ids) = (lid, synced, Some (clock e t), None) # syncedMarks e (Suc t) ids"

definition failedMark :: "FailedRecord \<Rightarrow> mark" where
  "failedMark f = (f_localId f, failed, None, Some (f_error f))"

definition conflictMark :: "ConflictRecord \<Rightarrow> mark" where
  "conflictMark k =
     (case resolution k of
        use_server \<Rightarrow>
          (k_localId k, conflict, None, Some (''Resolved: '' @ conflictTypeStr (conflictType k)))
      | use_local \<Rightarrow> (k_localId k, pending, None, None)
      | manual_resolution \<Rightarrow>
          (k_localId k, conflict, None,
           Some (''Manual resolution required: '' @ conflictTypeStr (conflictType k))))"

text \<open>
  A store of three events whose second was refused by an earlier attempt, and one
  conflict directive for each of them.
\<close>

definition worldFailedB :: world where
  "worldFailedB = world0\<lparr>db := Some (emptyDb\<lparr>
     checkins := [eventA, eventB\<lparr>syncStatus := failed, syncError := Some ''rejected''\<rparr>, eventC],
     checkins_seq := 3\<rparr>)\<rparr>"

definition directives :: "ConflictRecord list" where
  "directives =
     [\<lparr>k_localId = ''a'', conflictType = duplicate, resolution = use_server\<rparr>,
      \<lparr>k_localId = ''b'', conflictType = time_mismatch, resolution = use_local\<rparr>,
      \<lparr>k_localId = ''c'', conflictType = user_mismatch, resolution = manual_resolution\<rparr>]"

text \<open>
  The marks of one successful response, in the order \<^verbatim>\<open>performSync\<close> makes them, and the
  queue \<^verbatim>\<open>getPendingCheckins\<close> returns.
\<close>

definition responseMarks :: "env \<Rightarrow> nat \<Rightarrow> CheckinRecord list \<Rightarrow> SyncResponse \<Rightarrow> mark list" where
  "responseMarks e t pendingCheckins data =
     syncedMarks e t (syncedLocalIds data pendingCheckins)
     @ map failedMark (failedRecords data)
     @ (case conflicts data of None \<Rightarrow> [] | Some ks \<Rightarrow> map conflictMark ks)"

definition pendingQueue :: "env \<Rightarrow> sqlite \<Rightarrow> CheckinRecord list" where
  "pendingQueue e d =
     sort_key timestamp
       (sort_key (tieRank e)
          (filter (\<lambda>c. syncStatus c = pending \<or> syncStatus c = failed) (checkins d)))"

text \<open>
  A registered terminal whose last checkpoint is 100 and whose store holds three pending
  events, and the responses: one that refuses the second event, one that sends a
  conflict directive for the first, one that refuses the second event and sends a
  directive, to be resolved by hand, for the third, and one whose \<open>serverTimestamp\<close> is
  behind the checkpoint.
\<close>

definition configT :: TerminalConfig where
  "configT = \<lparr>terminalId = ''T-1'', tenantId = 1, cfg_name = ''Gate'', location = None,
     apiKey = ''secret'', serverUrl = ''https://timer.example'', syncIntervalSeconds = 60,
     offlineBufferHours = 72, nfcEnabled = True, pinFallbackEnabled = True,
     timezone = ''Europe/Berlin'', language = ''de'', lastSyncAt = Some 100\<rparr>"

definition dbABC :: sqlite where
  "dbABC = emptyDb\<lparr>terminal_config := Some configT,
     checkins := [eventA, eventB, eventC], checkins_seq := 3\<rparr>"

definition worldABC :: world where
  "worldABC = world0\<lparr>db := Some dbABC,
     sync := newSyncService\<lparr>api := Some ''https://timer.example'', config := Some configT\<rparr>\<rparr>"

definition replyPartial :: SyncResponse where
  "replyPartial = \<lparr>success = True, serverTimestamp = 5000, syncedRecords = 2,
     failedRecords = [\<lparr>f_localId = ''b'', f_error = ''rejected''\<rparr>],
     r_users = None, r_settings = None, conflicts = None\<rparr>"

definition replyConflict :: SyncResponse where
  "replyConflict = \<lparr>success = True, serverTimestamp = 5000, syncedRecords = 3,
     failedRecords = [], r_users = None, r_settings = None,
     conflicts = Some [\<lparr>k_localId = ''a'', conflictType = duplicate, resolution = use_server\<rparr>]\<rparr>"

definition replyMixed :: SyncResponse where
  "replyMixed = \<lparr>success = True, serverTimestamp = 6000, syncedRecords = 1,
     failedRecords = [\<lparr>f_localId = ''b'', f_error = ''rejected''\<rparr>],
     r_users = None, r_settings = None,
     conflicts = Some [\<lparr>k_localId = ''c'', conflictType = user_mismatch,
                        resolution = manual_resolution\<rparr>]\<rparr>"

definition replyEarly :: SyncResponse where
  "replyEarly = \<lparr>success = True, serverTimestamp = 50, syncedRecords = 3,
     failedRecords = [], r_users = None, r_settings = None, conflicts = None\<rparr>"

text \<open>A response that reports \<^verbatim>\<open>success = false\<close>.\<close>

definition replyRefused :: SyncResponse where
  "replyRefused = replyPartial\<lparr>success := False\<rparr>"

text \<open>
  An attempt has failed for want of a network, and the retry it scheduled has been let
  in and is running: the flag is set and the retry counter is 1.
\<close>

definition worldRetrying :: world where
  "worldRetrying =
     snd (performSync_enter
            (snd (performSync envMarch1 (Rejected False ''Network Error'') incremental worldABC)))"

text \<open>
  A terminal one hour ahead of UTC (\<^verbatim>\<open>Europe/Berlin\<close>, the default of column
  \<^verbatim>\<open>timezone\<close>, in winter). Ann checks in on 29 February 2024 at 08:00 local time
  (07:00 UTC): the three readings of \<^verbatim>\<open>checkIn\<close>. The next reading is taken on 1 March at
  00:30 local time, which is 29 February, 23:30, in UTC.
\<close>

definition envNight :: env where
  "envNight = \<lparr>clock = (\<lambda>n. if n < 3 then 1709190000000 else 1709249400000),
     localIds = (\<lambda>n. ''k1''), onLine = (\<lambda>n. True), tieRank = (\<lambda>c. 0)\<rparr>"

definition worldNight :: world where
  "worldNight = snd (checkIn envNight 7 ''Ann'' nfc None world0)"

section \<open>Calendar dates\<close>

text \<open>
  The instants of 29 February and of 1 March 2024, in UTC: the days 19782 and 19783 after
  1970-01-01.
\<close>

lemma isoDate_feb29 [simp]:
  assumes "1709164800000 \<le> t" and "t < 1709251200000"
  shows "isoDate t = ''2024-02-29''"
proof -
  have "t div 86400000 = 19782"
    using assms by (intro int_div_pos_eq [where r = "t - 19782 * 86400000"]) auto
  then show ?thesis
    by (simp add: isoDate_def civil_def Let_def yearString_def pad4_def pad2_def digit_def)
qed

lemma isoDate_march1 [simp]:
  assumes "1709251200000 \<le> t" and "t < 1709337600000"
  shows "isoDate t = ''2024-03-01''"
proof -
  have "t div 86400000 = 19783"
    using assms by (intro int_div_pos_eq [where r = "t - 19783 * 86400000"]) auto
  then show ?thesis
    by (simp add: isoDate_def civil_def Let_def yearString_def pad4_def pad2_def digit_def)
qed

lemma worldYesterday_ticks [simp]: "ticks worldYesterday = 0"
  by (simp add: worldYesterday_def world0_def)

section \<open>The event store\<close>

lemma world_db_same: "db w = Some d \<Longrightarrow> w\<lparr>db := Some d\<rparr> = w"
  by (cases w) simp

text \<open>
  C2 (as amended). With the database open: \<^verbatim>\<open>saveCheckin\<close> of an event whose
  \<open>localId\<close> a stored event has is refused with the UNIQUE-constraint error and the state
  is unchanged; an event with a new \<open>localId\<close> is appended as the last row, with the
  \<open>syncStatus\<close> the event carries and no \<open>syncedAt\<close> or \<open>syncError\<close>. Distinct ids stay
  distinct, and every record the check-in service builds carries \<open>pending\<close>.
\<close>

theorem saveCheckin_unique_append:
  assumes "db w = Some d"
  shows "(localId c \<in> localId ` set (storedCheckins w) \<longrightarrow>
            saveCheckin c w = (Inl (UniqueConstraintFailed ''checkins.local_id''), w))
       \<and> (localId c \<notin> localId ` set (storedCheckins w) \<longrightarrow>
            fst (saveCheckin c w) = Inr () \<and>
            (\<exists>row. storedCheckins (snd (saveCheckin c w)) = storedCheckins w @ [row]
               \<and> localId row = localId c \<and> syncStatus row = syncStatus c
               \<and> userId row = userId c \<and> userName row = userName c
               \<and> checkType row = checkType c \<and> timestamp row = timestamp c
               \<and> authMethod row = authMethod c \<and> createdOffline row = createdOffline c
               \<and> syncedAt row = None \<and> syncError row = None))
       \<and> (distinct (map localId (storedCheckins w)) \<longrightarrow>
            distinct (map localId (storedCheckins (snd (saveCheckin c w)))))
       \<and> syncStatus (fst (newRecord e uid uname ty auth hash w)) = pending"
proof -
  have stored: "storedCheckins w = checkins d"
    using assms by (simp add: storedCheckins_def)
  have built: "syncStatus (fst (newRecord e uid uname ty auth hash w)) = pending"
    by (simp add: newRecord_def generateLocalId_def dateNow_def)
  show ?thesis
  proof (cases "localId c \<in> localId ` set (checkins d)")
    case True
    then have "saveCheckin c w = (Inl (UniqueConstraintFailed ''checkins.local_id''), w)"
      using assms by (simp add: saveCheckin_def)
    with True stored built show ?thesis by simp
  next
    case False
    then show ?thesis
      using assms built by (auto simp: saveCheckin_def storedCheckins_def)
  qed
qed

theorem saveCheckin_unique_append_witness:
  "db worldA = Some (emptyDb\<lparr>checkins := [eventA], checkins_seq := 1\<rparr>)
   \<and> localId eventA \<in> localId ` set (storedCheckins worldA)
   \<and> saveCheckin eventA worldA = (Inl (UniqueConstraintFailed ''checkins.local_id''), worldA)
   \<and> localId eventB \<notin> localId ` set (storedCheckins worldA)
   \<and> fst (saveCheckin eventB worldA) = Inr ()
   \<and> map localId (storedCheckins (snd (saveCheckin eventB worldA))) = [''a'', ''b'']
   \<and> map syncStatus (storedCheckins (snd (saveCheckin eventB worldA))) = [pending, pending]
   \<and> distinct (map localId (storedCheckins worldA))
   \<and> distinct (map localId (storedCheckins (snd (saveCheckin eventB worldA))))"
proof -
  have open_db: "db worldA = Some (emptyDb\<lparr>checkins := [eventA], checkins_seq := 1\<rparr>)"
    by (simp add: worldA_def world0_def)
  have stored: "storedCheckins worldA = [eventA]"
    by (simp add: storedCheckins_def open_db)
  have ids: "localId eventA = ''a''" "localId eventB = ''b''" "syncStatus eventA = pending"
    "syncStatus eventB = pending"
    by (simp_all add: eventA_def eventB_def)
  from saveCheckin_unique_append [OF open_db, of eventA]
  have dup: "saveCheckin eventA worldA = (Inl (UniqueConstraintFailed ''checkins.local_id''), worldA)"
    by (simp add: stored)
  from saveCheckin_unique_append [OF open_db, of eventB]
  have fresh: "fst (saveCheckin eventB worldA) = Inr ()"
    by (simp add: stored ids)
  have after: "storedCheckins (snd (saveCheckin eventB worldA)) = [eventA, eventB]"
    by (simp add: saveCheckin_def storedCheckins_def open_db emptyDb_def eventA_def eventB_def)
  from dup fresh open_db show ?thesis
    by (simp add: stored after ids)
qed

text \<open>
  The claim C2 as it is written fails for an event that does not carry \<open>pending\<close>: its
  \<open>localId\<close> is new, and it is stored as \<open>synced\<close>.
\<close>

theorem saveCheckin_keeps_given_status:
  "localId (eventA\<lparr>syncStatus := synced\<rparr>) \<notin> localId ` set (storedCheckins world0)
   \<and> fst (saveCheckin (eventA\<lparr>syncStatus := synced\<rparr>) world0) = Inr ()
   \<and> map syncStatus (storedCheckins (snd (saveCheckin (eventA\<lparr>syncStatus := synced\<rparr>) world0)))
       = [synced]"
  by (simp add: saveCheckin_def storedCheckins_def world0_def emptyDb_def eventA_def)

text \<open>
  C9 (as amended). With the database open, \<^verbatim>\<open>updateCheckinSyncStatus\<close> never fails. For
  a \<open>localId\<close> no stored event has, it leaves the whole state as it was. Otherwise the state
  changes in table \<^verbatim>\<open>checkins\<close> only: the rows stay in place, and a row is rewritten
  exactly when it has that \<open>localId\<close>, in \<open>syncStatus\<close>, \<open>syncedAt\<close> and \<open>syncError\<close> only.
  The other operations on events do not rewrite a row: \<^verbatim>\<open>saveCheckin\<close> leaves the stored
  rows as a prefix and \<^verbatim>\<open>deleteOldSyncedCheckins\<close> leaves a subset of them.
\<close>

theorem updateCheckinSyncStatus_effect:
  assumes "db w = Some d"
  shows "fst (updateCheckinSyncStatus lid st sAt err w) = Inr ()
       \<and> (lid \<notin> localId ` set (storedCheckins w) \<longrightarrow>
            snd (updateCheckinSyncStatus lid st sAt err w) = w)
       \<and> snd (updateCheckinSyncStatus lid st sAt err w) =
            w\<lparr>db := Some (d\<lparr>checkins :=
                 storedCheckins (snd (updateCheckinSyncStatus lid st sAt err w))\<rparr>)\<rparr>
       \<and> length (storedCheckins (snd (updateCheckinSyncStatus lid st sAt err w)))
            = length (storedCheckins w)
       \<and> (\<forall>i < length (storedCheckins w).
            storedCheckins (snd (updateCheckinSyncStatus lid st sAt err w)) ! i =
              (if localId (storedCheckins w ! i) = lid
               then (storedCheckins w ! i)\<lparr>syncStatus := st, syncedAt := orNullNum sAt,
                                           syncError := orNullStr err\<rparr>
               else storedCheckins w ! i))
       \<and> take (length (storedCheckins w)) (storedCheckins (snd (saveCheckin c w)))
            = storedCheckins w
       \<and> set (storedCheckins (snd (deleteOldSyncedCheckins e days w)))
            \<subseteq> set (storedCheckins w)"
proof -
  let ?f = "\<lambda>c. if localId c = lid
                 then c\<lparr>syncStatus := st, syncedAt := orNullNum sAt, syncError := orNullStr err\<rparr>
                 else c"
  have stored: "storedCheckins w = checkins d"
    using assms by (simp add: storedCheckins_def)
  have run: "updateCheckinSyncStatus lid st sAt err w =
               (Inr (), w\<lparr>db := Some (d\<lparr>checkins := map ?f (checkins d)\<rparr>)\<rparr>)"
    using assms by (simp add: updateCheckinSyncStatus_def)
  have after: "storedCheckins (snd (updateCheckinSyncStatus lid st sAt err w)) = map ?f (checkins d)"
    by (simp add: run storedCheckins_def)
  have absent: "snd (updateCheckinSyncStatus lid st sAt err w) = w"
    if "lid \<notin> localId ` set (checkins d)"
  proof -
    from that have "map ?f (checkins d) = checkins d"
      by (intro map_idI) auto
    then show ?thesis
      using assms by (simp add: run world_db_same)
  qed
  have append_only: "take (length (checkins d)) (storedCheckins (snd (saveCheckin c w))) = checkins d"
    using assms by (simp add: saveCheckin_def storedCheckins_def)
  have delete_only: "set (storedCheckins (snd (deleteOldSyncedCheckins e days w))) \<subseteq> set (checkins d)"
    using assms by (auto simp: deleteOldSyncedCheckins_def storedCheckins_def dateNow_def Let_def)
  from absent append_only delete_only show ?thesis
    by (simp add: stored after) (simp add: run)
qed

theorem updateCheckinSyncStatus_effect_witness:
  "db worldA = Some (emptyDb\<lparr>checkins := [eventA], checkins_seq := 1\<rparr>)
   \<and> ''ghost'' \<notin> localId ` set (storedCheckins worldA)
   \<and> snd (updateCheckinSyncStatus ''ghost'' failed None (Some ''no such event'') worldA) = worldA
   \<and> (0::nat) < length (storedCheckins worldA)
   \<and> storedCheckins (snd (updateCheckinSyncStatus ''a'' synced (Some 5000) None worldA)) ! 0
       = eventA\<lparr>syncStatus := synced, syncedAt := Some 5000, syncError := None\<rparr>"
proof -
  have open_db: "db worldA = Some (emptyDb\<lparr>checkins := [eventA], checkins_seq := 1\<rparr>)"
    by (simp add: worldA_def world0_def)
  have stored: "storedCheckins worldA = [eventA]"
    by (simp add: storedCheckins_def open_db)
  have id_a: "localId eventA = ''a''"
    by (simp add: eventA_def)
  from updateCheckinSyncStatus_effect [OF open_db, of "''ghost''" failed None "Some ''no such event''"]
  have ghost: "snd (updateCheckinSyncStatus ''ghost'' failed None (Some ''no such event'') worldA) = worldA"
    by (simp add: stored id_a)
  from updateCheckinSyncStatus_effect [OF open_db, of "''a''" synced "Some 5000" None]
  have "storedCheckins (snd (updateCheckinSyncStatus ''a'' synced (Some 5000) None worldA)) ! 0
          = eventA\<lparr>syncStatus := synced, syncedAt := Some 5000, syncError := None\<rparr>"
    by (simp add: stored id_a)
  with ghost open_db show ?thesis
    by (simp add: stored id_a)
qed

text \<open>
  The claim C9 as it is written fails: for an unknown \<open>localId\<close> the call resolves, with
  no error, and nothing is changed.
\<close>

theorem updateCheckinSyncStatus_unknown_id_no_error:
  "''ghost'' \<notin> localId ` set (storedCheckins worldA)
   \<and> updateCheckinSyncStatus ''ghost'' failed None (Some ''no such event'') worldA
       = (Inr (), worldA)"
  by (simp add: updateCheckinSyncStatus_def storedCheckins_def worldA_def world0_def
        emptyDb_def eventA_def)

section \<open>The daily status\<close>

text \<open>
  The rollover as \<^verbatim>\<open>getUserStatus\<close> does it. The day it compares the stored date with is
  the UTC date of its reading of the clock. When the stored row of a user carries
  another date than that, the status returned is not checked in, not on break, has no
  session start and zero minutes, and the stored row has been reset to that: the two
  flags cleared, no session start, zero minutes, and the UTC date of the reading.
\<close>

lemma getUserStatus_rollover:
  assumes "storedStatus w uid = Some row"
    and "today_date row \<noteq> dateAt e (ticks w)"
  shows "\<exists>st. fst (getUserStatus e uid w) = Inr (Some st)
           \<and> isCheckedIn st = False \<and> isOnBreak st = False
           \<and> currentSessionStart st = None \<and> totalTodayMinutes st = 0
           \<and> storedStatus (snd (getUserStatus e uid w)) uid =
               Some (row\<lparr>is_checked_in := False, is_on_break := False,
                         current_session_start := None, total_today_minutes := 0,
                         today_date := dateAt e (ticks w)\<rparr>)"
proof -
  from assms(1) obtain d where d: "db w = Some d" "user_status d uid = Some row"
    by (auto simp: storedStatus_def split: option.splits)
  let ?today = "dateAt e (ticks w)"
  let ?w1 = "w\<lparr>ticks := Suc (ticks w)\<rparr>"
  have reset: "resetDailyStatus uid ?today ?w1 =
      (Inr (), ?w1\<lparr>db := Some (d\<lparr>user_status := (user_status d)(uid \<mapsto>
         row\<lparr>is_checked_in := False, is_on_break := False, current_session_start := None,
             total_today_minutes := 0, today_date := ?today\<rparr>)\<rparr>)\<rparr>)"
    using d by (simp add: resetDailyStatus_def)
  have "getUserStatus e uid w =
      (Inr (Some \<lparr>us_userId = uid, us_userName = [], isCheckedIn = False, isOnBreak = False,
                  lastCheckIn = None, lastCheckOut = None, currentSessionStart = None,
                  totalTodayMinutes = 0\<rparr>),
       ?w1\<lparr>db := Some (d\<lparr>user_status := (user_status d)(uid \<mapsto>
         row\<lparr>is_checked_in := False, is_on_break := False, current_session_start := None,
             total_today_minutes := 0, today_date := ?today\<rparr>)\<rparr>)\<rparr>)"
    using d assms(2) by (simp add: getUserStatus_def todayISO_def bindE_def returnE_def reset)
  then show ?thesis
    by (simp add: storedStatus_def)
qed

lemma getUserStatus_rollover_example:
  "storedStatus worldYesterday 7 = Some yesterdayRow
   \<and> today_date yesterdayRow \<noteq> dateAt envMarch1 (ticks worldYesterday)
   \<and> (\<exists>st. fst (getUserStatus envMarch1 7 worldYesterday) = Inr (Some st)
           \<and> isCheckedIn st = False \<and> isOnBreak st = False
           \<and> currentSessionStart st = None \<and> totalTodayMinutes st = 0)
   \<and> storedStatus (snd (getUserStatus envMarch1 7 worldYesterday)) 7 =
        Some \<lparr>is_checked_in = False, is_on_break = False, last_check_in = Some 1000,
              last_check_out = None, current_session_start = None, total_today_minutes = 0,
              today_date = ''2024-03-01''\<rparr>"
proof -
  have row: "storedStatus worldYesterday 7 = Some yesterdayRow"
    by (simp add: storedStatus_def worldYesterday_def world0_def)
  have day: "today_date yesterdayRow \<noteq> dateAt envMarch1 (ticks worldYesterday)"
    by (simp add: yesterdayRow_def envMarch1_def dateAt_def worldYesterday_def world0_def)
  from getUserStatus_rollover [OF row day] row day show ?thesis
    by (auto simp: yesterdayRow_def envMarch1_def dateAt_def)
qed

lemma newRecord_eq:
  "newRecord e uid uname ty auth hash w =
    (\<lparr>rowId = None, localId = localIds e (ticks w), userId = uid, userName = uname,
      checkType = ty, timestamp = clock e (Suc (ticks w)), authMethod = auth,
      nfcCardHash = hash, latitude = None, longitude = None,
      createdOffline = (\<not> onLine e (Suc (Suc (ticks w)))), syncStatus = pending,
      syncedAt = None, syncError = None\<rparr>, w\<lparr>ticks := Suc (Suc (ticks w))\<rparr>)"
  by (simp add: newRecord_def generateLocalId_def dateNow_def)

lemmas toggle_eval = toggleCheckin_def checkIn_def checkOut_def newRecord_eq saveCheckin_def
  getUserStatus_def resetDailyStatus_def updateUserStatus_def todayISO_def noUpdates_def
  getUserById_def bindE_def returnE_def dateAt_def roundMinutes_def

text \<open>
  C5 (the code departs from it). A read of the status of a user whose stored row carries
  a date other than today's, the date of the terminal, is to return a status that is not
  checked in, not on break, with no session start and zero minutes, and to store that
  reset. The day of \<^verbatim>\<open>getUserStatus\<close> is the UTC day, not the day of the terminal: on a
  terminal one hour ahead of UTC, Ann checks in on 29 February at 08:00; a read at 00:30
  on 1 March (23:30 UTC on 29 February) finds a row whose date, 2024-02-29, is no longer
  the terminal's date, 2024-03-01, and returns it as it is: checked in, with the session
  start of the day before. The stored row is not reset. The date the code computes is
  2024-02-29 until 01:00.
\<close>

theorem getUserStatus_misses_local_midnight:
  "storedStatus worldNight 7 =
     Some \<lparr>is_checked_in = True, is_on_break = False, last_check_in = Some 1709190000000,
           last_check_out = None, current_session_start = Some 1709190000000,
           total_today_minutes = 0, today_date = ''2024-02-29''\<rparr>
   \<and> clock envNight (ticks worldNight) = 1709249400000
   \<and> dateAt envNight (ticks worldNight) = ''2024-02-29''
   \<and> localDate 60 (clock envNight (ticks worldNight)) = ''2024-03-01''
   \<and> fst (getUserStatus envNight 7 worldNight) =
       Inr (Some \<lparr>us_userId = 7, us_userName = [], isCheckedIn = True, isOnBreak = False,
                  lastCheckIn = Some 1709190000000, lastCheckOut = None,
                  currentSessionStart = Some 1709190000000, totalTodayMinutes = 0\<rparr>)
   \<and> storedStatus (snd (getUserStatus envNight 7 worldNight)) 7 = storedStatus worldNight 7"
proof -
  have night: "worldNight = world0\<lparr>
      db := Some (emptyDb\<lparr>
        user_status := [7 \<mapsto> \<lparr>is_checked_in = True, is_on_break = False,
           last_check_in = Some 1709190000000, last_check_out = None,
           current_session_start = Some 1709190000000, total_today_minutes = 0,
           today_date = ''2024-02-29''\<rparr>],
        checkins := [\<lparr>rowId = Some 1, localId = ''k1'', userId = 7, userName = ''Ann'',
           checkType = check_in, timestamp = 1709190000000, authMethod = nfc,
           nfcCardHash = None, latitude = None, longitude = None, createdOffline = False,
           syncStatus = pending, syncedAt = None, syncError = None\<rparr>],
        checkins_seq := 1\<rparr>),
      ticks := 3\<rparr>"
    by (simp add: worldNight_def toggle_eval world0_def emptyDb_def envNight_def)
  have row: "storedStatus worldNight 7 =
     Some \<lparr>is_checked_in = True, is_on_break = False, last_check_in = Some 1709190000000,
           last_check_out = None, current_session_start = Some 1709190000000,
           total_today_minutes = 0, today_date = ''2024-02-29''\<rparr>"
    and t: "ticks worldNight = 3"
    by (simp_all add: night storedStatus_def world0_def)
  have now: "clock envNight (ticks worldNight) = 1709249400000"
    by (simp add: t envNight_def)
  have utc: "dateAt envNight (ticks worldNight) = ''2024-02-29''"
    and loc: "localDate 60 (clock envNight (ticks worldNight)) = ''2024-03-01''"
    by (simp_all add: now localDate_def dateAt_def)
  have read: "fst (getUserStatus envNight 7 worldNight) =
       Inr (Some \<lparr>us_userId = 7, us_userName = [], isCheckedIn = True, isOnBreak = False,
                  lastCheckIn = Some 1709190000000, lastCheckOut = None,
                  currentSessionStart = Some 1709190000000, totalTodayMinutes = 0\<rparr>)"
    "storedStatus (snd (getUserStatus envNight 7 worldNight)) 7 = storedStatus worldNight 7"
    by (simp_all add: night toggle_eval storedStatus_def world0_def emptyDb_def envNight_def)
  from row now utc loc read show ?thesis
    by simp
qed

text \<open>
  C10. \<^verbatim>\<open>checkIn\<close> writes the status without reading it. For a user whose stored row
  carries another date than the date of the write and \<open>m\<close> minutes, and a generated id
  that is new, the call succeeds and leaves the row dated today, checked in, with the
  \<open>m\<close> minutes of the earlier day. When \<^verbatim>\<open>getUserStatus\<close> runs first, the row is reset by
  that read and the minutes are 0 after the check-in.
\<close>

theorem checkIn_no_rollover:
  assumes "db w = Some d"
    and "user_status d uid = Some row"
    and "today_date row \<noteq> dateAt e (ticks w + 2)"
    and "total_today_minutes row = m"
    and "localIds e (ticks w) \<notin> localId ` set (checkins d)"
  shows "(\<exists>record row'. fst (checkIn e uid uname auth hash w) = Inr record
           \<and> storedStatus (snd (checkIn e uid uname auth hash w)) uid = Some row'
           \<and> today_date row' = dateAt e (ticks w + 2)
           \<and> is_checked_in row' = True
           \<and> total_today_minutes row' = m)
       \<and> (today_date row \<noteq> dateAt e (ticks w)
            \<and> localIds e (ticks w + 1) \<notin> localId ` set (checkins d) \<longrightarrow>
          (\<exists>row'. storedStatus (snd (bindE (getUserStatus e uid)
                      (\<lambda>_. checkIn e uid uname auth hash) w)) uid = Some row'
             \<and> is_checked_in row' = True \<and> total_today_minutes row' = 0))"
  using assms
  by (auto simp: checkIn_def newRecord_eq saveCheckin_def getUserStatus_def resetDailyStatus_def
        updateUserStatus_def todayISO_def storedStatus_def noUpdates_def
        bindE_def returnE_def Let_def split: option.splits prod.splits)

theorem checkIn_no_rollover_witness:
  "db worldYesterday = Some (emptyDb\<lparr>user_status := [7 \<mapsto> yesterdayRow]\<rparr>)
   \<and> user_status (emptyDb\<lparr>user_status := [7 \<mapsto> yesterdayRow]\<rparr>) 7 = Some yesterdayRow
   \<and> today_date yesterdayRow \<noteq> dateAt envMarch1 (ticks worldYesterday + 2)
   \<and> total_today_minutes yesterdayRow = 120
   \<and> localIds envMarch1 (ticks worldYesterday)
        \<notin> localId ` set (checkins (emptyDb\<lparr>user_status := [7 \<mapsto> yesterdayRow]\<rparr>))
   \<and> today_date yesterdayRow \<noteq> dateAt envMarch1 (ticks worldYesterday)
   \<and> localIds envMarch1 (ticks worldYesterday + 1)
        \<notin> localId ` set (checkins (emptyDb\<lparr>user_status := [7 \<mapsto> yesterdayRow]\<rparr>))
   \<and> (\<exists>row'. storedStatus (snd (checkIn envMarch1 7 ''Ann'' nfc None worldYesterday)) 7 = Some row'
          \<and> today_date row' = ''2024-03-01'' \<and> is_checked_in row'
          \<and> total_today_minutes row' = 120)
   \<and> (\<exists>row'. storedStatus (snd (bindE (getUserStatus envMarch1 7)
                  (\<lambda>_. checkIn envMarch1 7 ''Ann'' nfc None) worldYesterday)) 7 = Some row'
          \<and> is_checked_in row' \<and> total_today_minutes row' = 0)"
proof -
  let ?d = "emptyDb\<lparr>user_status := [7 \<mapsto> yesterdayRow]\<rparr>"
  have h: "db worldYesterday = Some ?d" "user_status ?d 7 = Some yesterdayRow"
    "today_date yesterdayRow \<noteq> dateAt envMarch1 (ticks worldYesterday + 2)"
    "total_today_minutes yesterdayRow = 120"
    "localIds envMarch1 (ticks worldYesterday) \<notin> localId ` set (checkins ?d)"
    by (simp_all add: worldYesterday_def world0_def emptyDb_def yesterdayRow_def envMarch1_def
          dateAt_def)
  have h': "today_date yesterdayRow \<noteq> dateAt envMarch1 (ticks worldYesterday)"
    "localIds envMarch1 (ticks worldYesterday + 1) \<notin> localId ` set (checkins ?d)"
    by (simp_all add: emptyDb_def yesterdayRow_def envMarch1_def dateAt_def)
  have day: "dateAt envMarch1 (ticks worldYesterday + 2) = ''2024-03-01''"
    by (simp add: envMarch1_def dateAt_def)
  from checkIn_no_rollover [OF h, of "''Ann''" nfc None] h h' day show ?thesis
    by auto
qed


text \<open>
  C8. \<^verbatim>\<open>toggleCheckin\<close> reads the status first; \<open>checkedInOn\<close> says of the stored row
  what that read returns in \<open>isCheckedIn\<close>. When that read does not find the user
  checked in (no row, a row of another day, or a row that is not checked in), the call
  returns \<open>check_in\<close>, appends a \<open>check_in\<close> event of the user and leaves the user
  checked in. When it finds the user checked in, the call returns \<open>check_out\<close>, appends a
  \<open>check_out\<close> event and leaves the user neither checked in nor on break. The break flag
  of the row is not part of the condition. The generated id is taken to be new.
\<close>

theorem toggleCheckin_decision:
  assumes "db w = Some d"
    and "localIds e (ticks w + 1) \<notin> localId ` set (checkins d)"
  shows "(checkedInOn (dateAt e (ticks w)) (user_status d uid) \<longleftrightarrow>
           (\<exists>st. fst (getUserStatus e uid w) = Inr (Some st) \<and> isCheckedIn st))
       \<and> (\<not> checkedInOn (dateAt e (ticks w)) (user_status d uid) \<longrightarrow>
           (\<exists>record ev row'.
              fst (toggleCheckin e uid uname auth hash w) = Inr (check_in, record)
              \<and> checkType record = check_in
              \<and> storedCheckins (snd (toggleCheckin e uid uname auth hash w))
                   = storedCheckins w @ [ev]
              \<and> localId ev = localId record \<and> checkType ev = check_in \<and> userId ev = uid
              \<and> storedStatus (snd (toggleCheckin e uid uname auth hash w)) uid = Some row'
              \<and> is_checked_in row'))
       \<and> (checkedInOn (dateAt e (ticks w)) (user_status d uid) \<longrightarrow>
           (\<exists>record ev row'.
              fst (toggleCheckin e uid uname auth hash w) = Inr (check_out, record)
              \<and> checkType record = check_out
              \<and> storedCheckins (snd (toggleCheckin e uid uname auth hash w))
                   = storedCheckins w @ [ev]
              \<and> localId ev = localId record \<and> checkType ev = check_out \<and> userId ev = uid
              \<and> storedStatus (snd (toggleCheckin e uid uname auth hash w)) uid = Some row'
              \<and> \<not> is_checked_in row' \<and> \<not> is_on_break row'))"
  using assms
  by (auto simp: toggleCheckin_def checkIn_def checkOut_def newRecord_eq saveCheckin_def getUserStatus_def resetDailyStatus_def
        updateUserStatus_def todayISO_def storedStatus_def storedCheckins_def noUpdates_def checkedInOn_def getUserById_def
        bindE_def returnE_def Let_def split: option.splits prod.splits)

theorem toggleCheckin_decision_witness:
  "db world0 = Some emptyDb
   \<and> localIds envToggle (ticks world0 + 1) \<notin> localId ` set (checkins emptyDb)
   \<and> \<not> checkedInOn (dateAt envToggle (ticks world0)) (user_status emptyDb 7)
   \<and> (\<exists>record. fst (toggleCheckin envToggle 7 ''Ann'' nfc None world0) = Inr (check_in, record))
   \<and> snd (toggleCheckin envToggle 7 ''Ann'' nfc None world0) = worldCheckedIn
   \<and> db worldCheckedIn = Some dbCheckedIn
   \<and> localIds envToggle (ticks worldCheckedIn + 1) \<notin> localId ` set (checkins dbCheckedIn)
   \<and> checkedInOn (dateAt envToggle (ticks worldCheckedIn)) (user_status dbCheckedIn 7)
   \<and> (\<exists>record. fst (toggleCheckin envToggle 7 ''Ann'' nfc None worldCheckedIn)
                   = Inr (check_out, record))
   \<and> map_option total_today_minutes
        (storedStatus (snd (toggleCheckin envToggle 7 ''Ann'' nfc None worldCheckedIn)) 7) = Some 90
   \<and> db worldOnBreak = Some dbOnBreak
   \<and> localIds envToggle (ticks worldOnBreak + 1) \<notin> localId ` set (checkins dbOnBreak)
   \<and> checkedInOn (dateAt envToggle (ticks worldOnBreak)) (user_status dbOnBreak 7)
   \<and> map_option is_on_break (user_status dbOnBreak 7) = Some True
   \<and> (\<exists>record. fst (toggleCheckin envToggle 7 ''Ann'' nfc None worldOnBreak)
                   = Inr (check_out, record))"
proof -
  have h0: "db world0 = Some emptyDb"
    "localIds envToggle (ticks world0 + 1) \<notin> localId ` set (checkins emptyDb)"
    "\<not> checkedInOn (dateAt envToggle (ticks world0)) (user_status emptyDb 7)"
    by (simp_all add: world0_def emptyDb_def checkedInOn_def)
  have h1: "db worldCheckedIn = Some dbCheckedIn"
    "localIds envToggle (ticks worldCheckedIn + 1) \<notin> localId ` set (checkins dbCheckedIn)"
    "checkedInOn (dateAt envToggle (ticks worldCheckedIn)) (user_status dbCheckedIn 7)"
    by (simp_all add: worldCheckedIn_def world0_def dbCheckedIn_def emptyDb_def checkedInOn_def
          envToggle_def dateAt_def)
  have h2: "db worldOnBreak = Some dbOnBreak"
    "localIds envToggle (ticks worldOnBreak + 1) \<notin> localId ` set (checkins dbOnBreak)"
    "checkedInOn (dateAt envToggle (ticks worldOnBreak)) (user_status dbOnBreak 7)"
    "map_option is_on_break (user_status dbOnBreak 7) = Some True"
    by (simp_all add: worldOnBreak_def world0_def dbOnBreak_def dbCheckedIn_def emptyDb_def
          checkedInOn_def envToggle_def dateAt_def)
  from toggleCheckin_decision [OF h0(1,2), of 7 "''Ann''" nfc None] h0(3)
  have r0: "\<exists>record. fst (toggleCheckin envToggle 7 ''Ann'' nfc None world0) = Inr (check_in, record)"
    by blast
  from toggleCheckin_decision [OF h1(1,2), of 7 "''Ann''" nfc None] h1(3)
  have r1: "\<exists>record. fst (toggleCheckin envToggle 7 ''Ann'' nfc None worldCheckedIn)
                  = Inr (check_out, record)"
    by blast
  from toggleCheckin_decision [OF h2(1,2), of 7 "''Ann''" nfc None] h2(3)
  have r2: "\<exists>record. fst (toggleCheckin envToggle 7 ''Ann'' nfc None worldOnBreak)
                  = Inr (check_out, record)"
    by blast
  have first: "snd (toggleCheckin envToggle 7 ''Ann'' nfc None world0) = worldCheckedIn"
    by (simp add: toggle_eval world0_def emptyDb_def envToggle_def worldCheckedIn_def
          dbCheckedIn_def)
  have minutes: "map_option total_today_minutes
        (storedStatus (snd (toggleCheckin envToggle 7 ''Ann'' nfc None worldCheckedIn)) 7) = Some 90"
    by (simp add: toggle_eval storedStatus_def world0_def emptyDb_def envToggle_def
          worldCheckedIn_def dbCheckedIn_def)
  from h0 h1 h2 r0 r1 r2 first minutes show ?thesis
    by blast
qed

section \<open>Marking events\<close>

lemma updateCheckinSyncStatus_mark:
  "db w = Some d \<Longrightarrow>
   updateCheckinSyncStatus lid st sa er w =
     (Inr (), w\<lparr>db := Some (d\<lparr>checkins := map (applyMark lid st sa er) (checkins d)\<rparr>)\<rparr>)"
  by (simp add: updateCheckinSyncStatus_def applyMark_def)

lemma applyMarks_append: "applyMarks (ms @ ns) c = applyMarks ns (applyMarks ms c)"
  by (induction ms arbitrary: c) auto

lemma applyMark_localId: "localId (applyMark lid st sa er c) = localId c"
  by (simp add: applyMark_def)

lemma applyMarks_localId: "localId (applyMarks ms c) = localId c"
  by (induction ms arbitrary: c) (auto simp: applyMark_localId)

lemma applyMarks_untouched:
  "localId c \<notin> fst ` set ms \<Longrightarrow> applyMarks ms c = c"
  by (induction ms arbitrary: c) (auto simp: applyMark_def)

lemma applyMarks_only_sync:
  "applyMarks ms c = c\<lparr>syncStatus := syncStatus (applyMarks ms c),
                        syncedAt := syncedAt (applyMarks ms c),
                        syncError := syncError (applyMarks ms c)\<rparr>"
proof (induction ms arbitrary: c)
  case Nil
  show ?case by simp
next
  case (Cons m ms)
  obtain lid st sa er where m: "m = (lid, st, sa, er)"
    by (cases m) auto
  let ?c1 = "applyMark lid st sa er c"
  have "applyMarks ms ?c1 = ?c1\<lparr>syncStatus := syncStatus (applyMarks ms ?c1),
          syncedAt := syncedAt (applyMarks ms ?c1), syncError := syncError (applyMarks ms ?c1)\<rparr>"
    by (rule Cons.IH)
  also have "\<dots> = c\<lparr>syncStatus := syncStatus (applyMarks ms ?c1),
          syncedAt := syncedAt (applyMarks ms ?c1), syncError := syncError (applyMarks ms ?c1)\<rparr>"
    by (simp add: applyMark_def)
  finally show ?case
    by (simp add: m)
qed

lemma applyMarks_last:
  assumes "localId c = lid" and "lid \<notin> fst ` set ns"
  shows "applyMarks (ms @ (lid, st, sa, er) # ns) c =
           c\<lparr>syncStatus := st, syncedAt := orNullNum sa, syncError := orNullStr er\<rparr>"
proof -
  let ?c1 = "applyMarks ms c"
  have id1: "localId ?c1 = lid"
    using assms(1) by (simp add: applyMarks_localId)
  have "applyMarks (ms @ (lid, st, sa, er) # ns) c = applyMarks ns (applyMark lid st sa er ?c1)"
    by (simp add: applyMarks_append)
  also have "\<dots> = applyMark lid st sa er ?c1"
    using assms(2) id1 by (intro applyMarks_untouched) (simp add: applyMark_localId)
  also have "\<dots> = ?c1\<lparr>syncStatus := st, syncedAt := orNullNum sa, syncError := orNullStr er\<rparr>"
    using id1 by (simp add: applyMark_def)
  also have "\<dots> = c\<lparr>syncStatus := st, syncedAt := orNullNum sa, syncError := orNullStr er\<rparr>"
    by (subst applyMarks_only_sync [of ms c]) simp
  finally show ?thesis .
qed

lemma applyMarks_some:
  assumes "localId c \<in> fst ` set ms"
  shows "\<exists>st sa er. (localId c, st, sa, er) \<in> set ms \<and>
           applyMarks ms c = c\<lparr>syncStatus := st, syncedAt := orNullNum sa, syncError := orNullStr er\<rparr>"
  using assms
proof (induction ms rule: rev_induct)
  case Nil
  then show ?case by simp
next
  case (snoc m ms)
  obtain lid st sa er where m: "m = (lid, st, sa, er)"
    by (cases m) auto
  show ?case
  proof (cases "lid = localId c")
    case True
    then have "applyMarks (ms @ (lid, st, sa, er) # []) c =
        c\<lparr>syncStatus := st, syncedAt := orNullNum sa, syncError := orNullStr er\<rparr>"
      by (intro applyMarks_last) auto
    with True m show ?thesis by auto
  next
    case False
    with snoc.prems m have "localId c \<in> fst ` set ms" by auto
    from snoc.IH [OF this] obtain st' sa' er' where
      in_ms: "(localId c, st', sa', er') \<in> set ms" and
      eq: "applyMarks ms c = c\<lparr>syncStatus := st', syncedAt := orNullNum sa', syncError := orNullStr er'\<rparr>"
      by blast
    have "applyMarks (ms @ [m]) c = applyMark lid st sa er (applyMarks ms c)"
      by (simp add: applyMarks_append m)
    also have "\<dots> = applyMarks ms c"
      using False by (simp add: applyMark_def applyMarks_localId)
    finally show ?thesis
      using in_ms eq by auto
  qed
qed

lemma forE_marks:
  assumes body: "\<And>x w. body x w =
      (case mk x of (lid, st, sa, er) \<Rightarrow> updateCheckinSyncStatus lid st sa er w)"
  shows "db w = Some d \<Longrightarrow>
    forE xs body w =
      (Inr (), w\<lparr>db := Some (d\<lparr>checkins := map (applyMarks (map mk xs)) (checkins d)\<rparr>)\<rparr>)"
proof (induction xs arbitrary: w d)
  case Nil
  then show ?case
    by (simp add: returnE_def world_db_same)
next
  case (Cons x xs)
  obtain lid st sa er where mk: "mk x = (lid, st, sa, er)"
    by (cases "mk x") auto
  let ?d1 = "d\<lparr>checkins := map (applyMark lid st sa er) (checkins d)\<rparr>"
  let ?w1 = "w\<lparr>db := Some ?d1\<rparr>"
  have step: "body x w = (Inr (), ?w1)"
    using Cons.prems by (simp add: body mk updateCheckinSyncStatus_mark)
  have "db ?w1 = Some ?d1" by simp
  from Cons.IH [OF this] have rest: "forE xs body ?w1 =
      (Inr (), ?w1\<lparr>db := Some (?d1\<lparr>checkins := map (applyMarks (map mk xs)) (checkins ?d1)\<rparr>)\<rparr>)" .
  show ?case
    by (simp add: bindE_def step rest mk comp_def)
qed

lemma forE_markFailed:
  "db w = Some d \<Longrightarrow>
   forE fs markFailed w =
     (Inr (), w\<lparr>db := Some (d\<lparr>checkins := map (applyMarks (map failedMark fs)) (checkins d)\<rparr>)\<rparr>)"
  by (rule forE_marks) (simp_all add: markFailed_def failedMark_def)

lemma handleConflicts_marks:
  "db w = Some d \<Longrightarrow>
   handleConflicts ks w =
     (Inr (), w\<lparr>db := Some (d\<lparr>checkins := map (applyMarks (map conflictMark ks)) (checkins d)\<rparr>)\<rparr>)"
  unfolding handleConflicts_def
  by (rule forE_marks) (simp_all add: handleConflict_def conflictMark_def split: Resolution.splits)

lemma forE_markSynced:
  "db w = Some d \<Longrightarrow>
   forE ids (markSynced e) w =
     (Inr (), w\<lparr>db := Some (d\<lparr>checkins :=
                  map (applyMarks (syncedMarks e (ticks w) ids)) (checkins d)\<rparr>),
               ticks := ticks w + length ids\<rparr>)"
proof (induction ids arbitrary: w d)
  case Nil
  then show ?case
    by (simp add: returnE_def world_db_same)
next
  case (Cons lid ids)
  let ?d1 = "d\<lparr>checkins := map (applyMark lid synced (Some (clock e (ticks w))) None) (checkins d)\<rparr>"
  let ?w1 = "w\<lparr>ticks := Suc (ticks w), db := Some ?d1\<rparr>"
  have step: "markSynced e lid w = (Inr (), ?w1)"
    using Cons.prems by (simp add: markSynced_def dateNow_def updateCheckinSyncStatus_mark)
  have "db ?w1 = Some ?d1" by simp
  from Cons.IH [OF this] have rest: "forE ids (markSynced e) ?w1 =
      (Inr (), ?w1\<lparr>db := Some (?d1\<lparr>checkins :=
                  map (applyMarks (syncedMarks e (ticks ?w1) ids)) (checkins ?d1)\<rparr>),
               ticks := ticks ?w1 + length ids\<rparr>)" .
  show ?case
    by (simp add: bindE_def step rest comp_def)
qed

lemma syncedMarks_ids: "fst ` set (syncedMarks e t ids) = set ids"
  by (induction ids arbitrary: t) auto

lemma syncedMarks_nth:
  "(lid, st, sa, er) \<in> set (syncedMarks e t ids) \<Longrightarrow>
   st = synced \<and> er = None
   \<and> (\<exists>i < length ids. ids ! i = lid \<and> sa = Some (clock e (t + i)))"
proof (induction ids arbitrary: t)
  case Nil
  then show ?case by simp
next
  case (Cons x ids)
  show ?case
  proof (cases "(lid, st, sa, er) = (x, synced, Some (clock e t), None)")
    case True
    then show ?thesis by (auto intro!: exI [of _ 0])
  next
    case False
    with Cons.prems have "(lid, st, sa, er) \<in> set (syncedMarks e (Suc t) ids)" by auto
    from Cons.IH [OF this] obtain i where "i < length ids" "ids ! i = lid"
      "sa = Some (clock e (Suc t + i))" and "st = synced" "er = None" by blast
    then show ?thesis
      by (auto intro!: exI [of _ "Suc i"])
  qed
qed

section \<open>Conflict directives\<close>

text \<open>
  C6. With the database open, \<^verbatim>\<open>handleConflicts\<close> never fails and never removes or moves a
  row: every stored event is the event that was there, changed in \<open>syncStatus\<close>,
  \<open>syncedAt\<close> and \<open>syncError\<close> at most. For a directive \<open>k\<close> of the list that no later
  directive of the list overrides (none after it names the same event), every event
  with the \<open>localId\<close> it names ends as the directive says: \<open>use_local\<close> leaves it
  \<open>pending\<close> and in the result of the next \<^verbatim>\<open>getPendingCheckins\<close>; \<open>use_server\<close> leaves
  it \<open>conflict\<close> with the note \<^verbatim>\<open>Resolved: <conflictType>\<close>; \<open>manual\<close> leaves it
  \<open>conflict\<close> with the note \<^verbatim>\<open>Manual resolution required: <conflictType>\<close>.
\<close>

theorem handleConflicts_resolution:
  assumes "db w = Some d"
    and "k_localId k \<notin> k_localId ` set later"
  shows "fst (handleConflicts (earlier @ k # later) w) = Inr ()
       \<and> length (storedCheckins (snd (handleConflicts (earlier @ k # later) w)))
           = length (storedCheckins w)
       \<and> (\<forall>i < length (storedCheckins w).
            storedCheckins (snd (handleConflicts (earlier @ k # later) w)) ! i =
              (storedCheckins w ! i)
                \<lparr>syncStatus := syncStatus (storedCheckins (snd (handleConflicts (earlier @ k # later) w)) ! i),
                 syncedAt := syncedAt (storedCheckins (snd (handleConflicts (earlier @ k # later) w)) ! i),
                 syncError := syncError (storedCheckins (snd (handleConflicts (earlier @ k # later) w)) ! i)\<rparr>)
       \<and> (\<forall>c' \<in> set (storedCheckins (snd (handleConflicts (earlier @ k # later) w))).
            localId c' = k_localId k \<longrightarrow>
              (resolution k = use_local \<longrightarrow>
                 syncStatus c' = pending \<and>
                 (\<exists>queue. fst (getPendingCheckins e (snd (handleConflicts (earlier @ k # later) w)))
                            = Inr queue \<and> c' \<in> set queue))
            \<and> (resolution k = use_server \<longrightarrow>
                 syncStatus c' = conflict \<and>
                 syncError c' = Some (''Resolved: '' @ conflictTypeStr (conflictType k)))
            \<and> (resolution k = manual_resolution \<longrightarrow>
                 syncStatus c' = conflict \<and>
                 syncError c' =
                   Some (''Manual resolution required: '' @ conflictTypeStr (conflictType k))))"
proof -
  let ?ks = "earlier @ k # later"
  let ?ms = "map conflictMark ?ks"
  let ?w' = "snd (handleConflicts ?ks w)"
  have run: "handleConflicts ?ks w =
      (Inr (), w\<lparr>db := Some (d\<lparr>checkins := map (applyMarks ?ms) (checkins d)\<rparr>)\<rparr>)"
    using assms(1) by (rule handleConflicts_marks)
  have before: "storedCheckins w = checkins d"
    using assms(1) by (simp add: storedCheckins_def)
  have after: "storedCheckins ?w' = map (applyMarks ?ms) (checkins d)"
    by (simp add: run storedCheckins_def)
  have kept: "storedCheckins ?w' ! i =
      (storedCheckins w ! i)\<lparr>syncStatus := syncStatus (storedCheckins ?w' ! i),
         syncedAt := syncedAt (storedCheckins ?w' ! i),
         syncError := syncError (storedCheckins ?w' ! i)\<rparr>"
    if "i < length (storedCheckins w)" for i
    using that applyMarks_only_sync [of ?ms "checkins d ! i"] by (simp add: before after)
  have named: "(resolution k = use_local \<longrightarrow>
                 syncStatus c' = pending \<and>
                 (\<exists>queue. fst (getPendingCheckins e ?w') = Inr queue \<and> c' \<in> set queue))
            \<and> (resolution k = use_server \<longrightarrow>
                 syncStatus c' = conflict \<and>
                 syncError c' = Some (''Resolved: '' @ conflictTypeStr (conflictType k)))
            \<and> (resolution k = manual_resolution \<longrightarrow>
                 syncStatus c' = conflict \<and>
                 syncError c' =
                   Some (''Manual resolution required: '' @ conflictTypeStr (conflictType k)))"
    if c': "c' \<in> set (storedCheckins ?w')" and id: "localId c' = k_localId k" for c'
  proof -
    from c' obtain c where c: "c \<in> set (checkins d)" and c'_eq: "c' = applyMarks ?ms c"
      by (auto simp: after)
    have id_c: "localId c = k_localId k"
      using id by (simp add: c'_eq applyMarks_localId)
    obtain st sa er where km: "conflictMark k = (k_localId k, st, sa, er)"
      by (cases "resolution k") (simp_all add: conflictMark_def)
    have later: "k_localId k \<notin> fst ` set (map conflictMark later)"
    proof
      assume "k_localId k \<in> fst ` set (map conflictMark later)"
      then obtain k' where "k' \<in> set later" and "fst (conflictMark k') = k_localId k"
        by auto
      moreover have "fst (conflictMark k') = k_localId k'"
        by (cases "resolution k'") (simp_all add: conflictMark_def)
      ultimately have "k_localId k \<in> k_localId ` set later"
        by (metis imageI)
      with assms(2) show False
        by contradiction
    qed
    have "applyMarks (map conflictMark earlier @ (k_localId k, st, sa, er) # map conflictMark later) c
            = c\<lparr>syncStatus := st, syncedAt := orNullNum sa, syncError := orNullStr er\<rparr>"
      using id_c later by (rule applyMarks_last)
    then have c'_is: "c' = c\<lparr>syncStatus := st, syncedAt := orNullNum sa, syncError := orNullStr er\<rparr>"
      by (simp add: c'_eq km)
    have queue: "fst (getPendingCheckins e ?w') = Inr (sort_key timestamp (sort_key (tieRank e)
        (filter (\<lambda>c. syncStatus c = pending \<or> syncStatus c = failed) (storedCheckins ?w'))))"
      by (simp add: run getPendingCheckins_def storedCheckins_def)
    show ?thesis
    proof (cases "resolution k")
      case use_server
      with km have "st = conflict" "orNullStr er = Some (''Resolved: '' @ conflictTypeStr (conflictType k))"
        by (auto simp: conflictMark_def)
      with use_server show ?thesis
        by (simp add: c'_is)
    next
      case use_local
      with km have "syncStatus c' = pending"
        by (simp add: conflictMark_def c'_is)
      with c' use_local queue show ?thesis
        by simp
    next
      case manual_resolution
      with km have "st = conflict"
        "orNullStr er = Some (''Manual resolution required: '' @ conflictTypeStr (conflictType k))"
        by (auto simp: conflictMark_def)
      with manual_resolution show ?thesis
        by (simp add: c'_is)
    qed
  qed
  have ok: "fst (handleConflicts ?ks w) = Inr ()"
    by (simp add: run)
  have len: "length (storedCheckins ?w') = length (storedCheckins w)"
    by (simp add: before after)
  from ok len kept named show ?thesis
    by blast
qed

theorem handleConflicts_resolution_witness:
  "db worldFailedB = Some (emptyDb\<lparr>
     checkins := [eventA, eventB\<lparr>syncStatus := failed, syncError := Some ''rejected''\<rparr>, eventC],
     checkins_seq := 3\<rparr>)
   \<and> ''b'' \<notin> k_localId ` set [directives ! 2]
   \<and> (2::nat) < length (storedCheckins worldFailedB)
   \<and> map localId (storedCheckins (snd (handleConflicts directives worldFailedB)))
        = [''a'', ''b'', ''c'']
   \<and> map syncStatus (storedCheckins (snd (handleConflicts directives worldFailedB)))
        = [conflict, pending, conflict]
   \<and> map syncError (storedCheckins (snd (handleConflicts directives worldFailedB)))
        = [Some ''Resolved: duplicate'', None, Some ''Manual resolution required: user_mismatch'']
   \<and> (\<exists>queue. fst (getPendingCheckins envMarch1 (snd (handleConflicts directives worldFailedB))) = Inr queue
          \<and> map localId queue = [''b''])
   \<and> syncStatus (storedCheckins (snd (handleConflicts directives worldFailedB)) ! 1) = pending"
proof -
  let ?d = "emptyDb\<lparr>
     checkins := [eventA, eventB\<lparr>syncStatus := failed, syncError := Some ''rejected''\<rparr>, eventC],
     checkins_seq := 3\<rparr>"
  have open_db: "db worldFailedB = Some ?d"
    by (simp add: worldFailedB_def world0_def)
  have split: "directives = [directives ! 0] @ directives ! 1 # [directives ! 2]"
    by (simp add: directives_def)
  have last_b: "k_localId (directives ! 1) \<notin> k_localId ` set [directives ! 2]"
    by (simp add: directives_def)
  have b: "k_localId (directives ! 1) = ''b''" "resolution (directives ! 1) = use_local"
    by (simp_all add: directives_def)
  from handleConflicts_resolution [OF open_db last_b, of "[directives ! 0]"]
  have named: "\<forall>c' \<in> set (storedCheckins (snd (handleConflicts directives worldFailedB))).
         localId c' = ''b'' \<longrightarrow> syncStatus c' = pending"
    unfolding split [symmetric] b by blast
  have run: "handleConflicts directives worldFailedB =
      (Inr (), worldFailedB\<lparr>db := Some (?d\<lparr>checkins :=
         map (applyMarks (map conflictMark directives)) (checkins ?d)\<rparr>)\<rparr>)"
    using open_db by (rule handleConflicts_marks)
  have rows: "storedCheckins (snd (handleConflicts directives worldFailedB)) =
      [eventA\<lparr>syncStatus := conflict, syncError := Some ''Resolved: duplicate''\<rparr>,
       eventB,
       eventC\<lparr>syncStatus := conflict,
              syncError := Some ''Manual resolution required: user_mismatch''\<rparr>]"
    by (simp only: run snd_conv)
      (simp add: storedCheckins_def directives_def conflictMark_def applyMark_def
         emptyDb_def eventA_def eventB_def eventC_def)
  have queue: "fst (getPendingCheckins envMarch1 (snd (handleConflicts directives worldFailedB))) = Inr [eventB]"
    using rows
    by (simp only: run snd_conv)
      (simp add: getPendingCheckins_def storedCheckins_def eventA_def eventB_def eventC_def)
  have p2: "''b'' \<notin> k_localId ` set [directives ! 2]"
    by (simp add: directives_def)
  have p3: "(2::nat) < length (storedCheckins worldFailedB)"
    by (simp add: storedCheckins_def open_db)
  have p4: "map localId (storedCheckins (snd (handleConflicts directives worldFailedB)))
        = [''a'', ''b'', ''c'']"
    by (simp add: rows eventA_def eventB_def eventC_def)
  have p5: "map syncStatus (storedCheckins (snd (handleConflicts directives worldFailedB)))
        = [conflict, pending, conflict]"
    by (simp add: rows eventA_def eventB_def eventC_def)
  have p6: "map syncError (storedCheckins (snd (handleConflicts directives worldFailedB)))
        = [Some ''Resolved: duplicate'', None, Some ''Manual resolution required: user_mismatch'']"
    by (simp add: rows eventA_def eventB_def eventC_def)
  have p7: "\<exists>queue. fst (getPendingCheckins envMarch1 (snd (handleConflicts directives worldFailedB))) = Inr queue
          \<and> map localId queue = [''b'']"
    by (simp add: queue eventA_def eventB_def)
  have p8: "storedCheckins (snd (handleConflicts directives worldFailedB)) ! 1
              \<in> set (storedCheckins (snd (handleConflicts directives worldFailedB)))"
    "localId (storedCheckins (snd (handleConflicts directives worldFailedB)) ! 1) = ''b''"
    by (simp_all add: rows eventB_def)
  from named p8
  have p9: "syncStatus (storedCheckins (snd (handleConflicts directives worldFailedB)) ! 1) = pending"
    by blast
  show ?thesis
    by (intro conjI; fact)
qed

section \<open>One sync attempt\<close>

text \<open>
  The steps of \<^verbatim>\<open>performSync\<close> after a response with \<^verbatim>\<open>success\<close>, each with the part of
  the state it changes.
\<close>

lemma toLocalUsers_ticks:
  "snd (toLocalUsers e sus w) = w\<lparr>ticks := ticks w + length sus\<rparr>"
proof (induction sus arbitrary: w)
  case Nil
  show ?case by simp
next
  case (Cons u sus)
  let ?w1 = "w\<lparr>ticks := Suc (ticks w)\<rparr>"
  obtain rest w2 where r: "toLocalUsers e sus ?w1 = (rest, w2)"
    by (cases "toLocalUsers e sus ?w1") auto
  from Cons.IH [of ?w1] r have "w2 = ?w1\<lparr>ticks := ticks ?w1 + length sus\<rparr>"
    by simp
  then show ?case
    by (simp add: dateNow_def r)
qed

lemma saveUser_effect:
  assumes "db w = Some d"
  shows "\<exists>us n. saveUser e x w = (Inr (), w\<lparr>db := Some (d\<lparr>users := us\<rparr>), ticks := n\<rparr>)
           \<and> ticks w \<le> n"
proof (cases "orNullNum (lastSyncedAt x)")
  case None
  let ?us = "(users d)(u_id x \<mapsto>
                 x\<lparr>personnelNumber := orNullStr (personnelNumber x),
                      department := orNullStr (department x),
                      u_nfcCardHash := orNullStr (u_nfcCardHash x),
                      pinHash := orNullStr (pinHash x),
                      profilePhotoUrl := orNullStr (profilePhotoUrl x),
                      lastSyncedAt := Some (clock e (ticks w))\<rparr>)"
  have "saveUser e x w = (Inr (), w\<lparr>db := Some (d\<lparr>users := ?us\<rparr>), ticks := Suc (ticks w)\<rparr>)"
    using assms None by (simp add: saveUser_def dateNow_def)
  then show ?thesis
    by (intro exI [of _ ?us] exI [of _ "Suc (ticks w)"]) simp
next
  case (Some t)
  let ?us = "(users d)(u_id x \<mapsto>
                 x\<lparr>personnelNumber := orNullStr (personnelNumber x),
                      department := orNullStr (department x),
                      u_nfcCardHash := orNullStr (u_nfcCardHash x),
                      pinHash := orNullStr (pinHash x),
                      profilePhotoUrl := orNullStr (profilePhotoUrl x),
                      lastSyncedAt := Some t\<rparr>)"
  have "saveUser e x w = (Inr (), w\<lparr>db := Some (d\<lparr>users := ?us\<rparr>)\<rparr>)"
    using assms Some by (simp add: saveUser_def)
  moreover have "w\<lparr>db := Some (d\<lparr>users := ?us\<rparr>)\<rparr> = w\<lparr>db := Some (d\<lparr>users := ?us\<rparr>), ticks := ticks w\<rparr>"
    by simp
  ultimately show ?thesis
    by (intro exI [of _ ?us] exI [of _ "ticks w"]) simp
qed

lemma saveUsers_effect:
  "db w = Some d \<Longrightarrow>
   \<exists>us n. saveUsers e xs w = (Inr (), w\<lparr>db := Some (d\<lparr>users := us\<rparr>), ticks := n\<rparr>) \<and> ticks w \<le> n"
proof (induction xs arbitrary: w d)
  case Nil
  have "w\<lparr>db := Some (d\<lparr>users := users d\<rparr>), ticks := ticks w\<rparr> = w"
    using Nil by (simp add: world_db_same)
  then have "saveUsers e [] w = (Inr (), w\<lparr>db := Some (d\<lparr>users := users d\<rparr>), ticks := ticks w\<rparr>)"
    by (simp add: saveUsers_def returnE_def)
  then show ?case
    by (intro exI [of _ "users d"] exI [of _ "ticks w"]) simp
next
  case (Cons x xs)
  from saveUser_effect [OF Cons.prems, of e x] obtain us1 n1 where
    step: "saveUser e x w = (Inr (), w\<lparr>db := Some (d\<lparr>users := us1\<rparr>), ticks := n1\<rparr>)"
    and n1: "ticks w \<le> n1"
    by blast
  let ?w1 = "w\<lparr>db := Some (d\<lparr>users := us1\<rparr>), ticks := n1\<rparr>"
  have "db ?w1 = Some (d\<lparr>users := us1\<rparr>)" by simp
  from Cons.IH [OF this] obtain us n where
    rest: "saveUsers e xs ?w1 = (Inr (), ?w1\<lparr>db := Some (d\<lparr>users := us1\<rparr>\<lparr>users := us\<rparr>), ticks := n\<rparr>)"
    and n: "ticks ?w1 \<le> n"
    by blast
  from rest have "saveUsers e (x # xs) w = (Inr (), w\<lparr>db := Some (d\<lparr>users := us\<rparr>), ticks := n\<rparr>)"
    by (simp add: saveUsers_def bindE_def step)
  moreover from n n1 have "ticks w \<le> n"
    by simp
  ultimately show ?case
    by blast
qed

lemma updateLocalUsers_effect:
  assumes "db w = Some d"
  shows "\<exists>us n. updateLocalUsers e sus w =
           (Inr (), w\<lparr>db := Some (d\<lparr>users := us\<rparr>), ticks := n\<rparr>) \<and> ticks w \<le> n"
proof -
  obtain lus where tl: "toLocalUsers e sus w = (lus, w\<lparr>ticks := ticks w + length sus\<rparr>)"
    using toLocalUsers_ticks [of e sus w] by (cases "toLocalUsers e sus w") auto
  let ?w1 = "w\<lparr>ticks := ticks w + length sus\<rparr>"
  have "db ?w1 = Some d" using assms by simp
  from saveUsers_effect [OF this, of e lus] obtain us n where
    "saveUsers e lus ?w1 = (Inr (), ?w1\<lparr>db := Some (d\<lparr>users := us\<rparr>), ticks := n\<rparr>)"
    and "ticks ?w1 \<le> n"
    by blast
  then have "updateLocalUsers e sus w = (Inr (), w\<lparr>db := Some (d\<lparr>users := us\<rparr>), ticks := n\<rparr>)"
    and "ticks w \<le> n"
    by (simp_all add: updateLocalUsers_def tl)
  then show ?thesis by blast
qed

lemma startAutoSync_syncing:
  assumes "isSyncing (sync w)"
  shows "\<exists>si hi. startAutoSync w = w\<lparr>sync := (sync w)\<lparr>syncInterval := si, heartbeatInterval := hi\<rparr>\<rparr>"
proof (cases "config (sync w)")
  case None
  have "w\<lparr>sync := (sync w)\<lparr>syncInterval := syncInterval (sync w),
          heartbeatInterval := heartbeatInterval (sync w)\<rparr>\<rparr> = w"
    by simp
  moreover from None have "startAutoSync w = w"
    by (simp add: startAutoSync_def)
  ultimately show ?thesis
    by (intro exI [of _ "syncInterval (sync w)"] exI [of _ "heartbeatInterval (sync w)"]) simp
next
  case (Some cfg)
  with assms show ?thesis
    by (auto simp: startAutoSync_def stopAutoSync_def performSync_enter_def Let_def)
qed

lemma updateSettings_effect:
  assumes "db w = Some d" and "config (sync w) = Some c" and "isSyncing (sync w)"
  shows "\<exists>tc c' si hi. updateSettings settings w =
           (Inr (), w\<lparr>db := Some (d\<lparr>terminal_config := Some tc\<rparr>),
                      sync := (sync w)\<lparr>config := Some c', syncInterval := si,
                                       heartbeatInterval := hi\<rparr>\<rparr>)
         \<and> lastSyncAt c' = lastSyncAt c"
proof -
  let ?c' = "c\<lparr>syncIntervalSeconds := set_syncIntervalSeconds settings,
                      offlineBufferHours := set_offlineBufferHours settings,
                      nfcEnabled := set_nfcEnabled settings,
                      pinFallbackEnabled := set_pinFallbackEnabled settings,
                      timezone := set_timezone settings,
                      language := set_language settings\<rparr>"
  let ?tc = "?c'\<lparr>location := orNullStr (location ?c'), lastSyncAt := orNullNum (lastSyncAt ?c')\<rparr>"
  let ?w1 = "w\<lparr>sync := (sync w)\<lparr>config := Some ?c'\<rparr>\<rparr>"
  let ?w2 = "?w1\<lparr>db := Some (d\<lparr>terminal_config := Some ?tc\<rparr>)\<rparr>"
  have saved: "saveTerminalConfig ?c' ?w1 = (Inr (), ?w2)"
    using assms(1) by (simp add: saveTerminalConfig_def)
  have syncing: "isSyncing (sync ?w2)"
    using assms(3) by simp
  show ?thesis
  proof (cases "syncInterval (sync w)")
    case None
    then have "updateSettings settings w = (Inr (), ?w2)"
      using assms(2) by (simp add: updateSettings_def bindE_def saved Let_def)
    moreover have "?w2 = w\<lparr>db := Some (d\<lparr>terminal_config := Some ?tc\<rparr>),
        sync := (sync w)\<lparr>config := Some ?c', syncInterval := syncInterval (sync w),
                         heartbeatInterval := heartbeatInterval (sync w)\<rparr>\<rparr>"
      by simp
    ultimately show ?thesis
      by (intro exI [of _ ?tc] exI [of _ ?c'] exI [of _ "syncInterval (sync w)"]
            exI [of _ "heartbeatInterval (sync w)"]) simp
  next
    case (Some p)
    from startAutoSync_syncing [OF syncing] obtain si hi where
      "startAutoSync ?w2 = ?w2\<lparr>sync := (sync ?w2)\<lparr>syncInterval := si, heartbeatInterval := hi\<rparr>\<rparr>"
      by blast
    with Some have "updateSettings settings w =
        (Inr (), w\<lparr>db := Some (d\<lparr>terminal_config := Some ?tc\<rparr>),
                   sync := (sync w)\<lparr>config := Some ?c', syncInterval := si,
                                    heartbeatInterval := hi\<rparr>\<rparr>)"
      using assms(2) by (simp add: updateSettings_def bindE_def saved Let_def)
    then show ?thesis
      by (intro exI [of _ ?tc] exI [of _ ?c'] exI [of _ si] exI [of _ hi]) simp
  qed
qed


lemma world_same: "db w = Some d \<Longrightarrow> w\<lparr>db := Some d, ticks := ticks w\<rparr> = w"
  by (cases w) simp

lemma usersStep_effect:
  assumes "db w = Some d"
  shows "\<exists>us n. (case r_users data of
                    None \<Rightarrow> returnE ()
                  | Some us \<Rightarrow> if length us > 0 then updateLocalUsers e us else returnE ()) w
                 = (Inr (), w\<lparr>db := Some (d\<lparr>users := us\<rparr>), ticks := n\<rparr>)
           \<and> ticks w \<le> n"
proof -
  have skip: "\<exists>us n. returnE () w = (Inr (), w\<lparr>db := Some (d\<lparr>users := us\<rparr>), ticks := n\<rparr>)
                \<and> ticks w \<le> n"
    using assms
    by (intro exI [of _ "users d"] exI [of _ "ticks w"]) (simp add: returnE_def world_same)
  show ?thesis
  proof (cases "r_users data")
    case None
    with skip show ?thesis by simp
  next
    case (Some sus)
    show ?thesis
    proof (cases "length sus > 0")
      case True
      with Some updateLocalUsers_effect [OF assms, of e sus] show ?thesis by simp
    next
      case False
      with Some skip show ?thesis by simp
    qed
  qed
qed

lemma settingsStep_effect:
  assumes "db w = Some d" and "config (sync w) = Some c" and "isSyncing (sync w)"
  shows "\<exists>tc c' si hi. (case r_settings data of
                           None \<Rightarrow> returnE ()
                         | Some settings \<Rightarrow> updateSettings settings) w
           = (Inr (), w\<lparr>db := Some (d\<lparr>terminal_config := tc\<rparr>),
                      sync := (sync w)\<lparr>config := Some c', syncInterval := si,
                                       heartbeatInterval := hi\<rparr>\<rparr>)
         \<and> lastSyncAt c' = lastSyncAt c"
proof (cases "r_settings data")
  case None
  have "w\<lparr>db := Some (d\<lparr>terminal_config := terminal_config d\<rparr>),
          sync := (sync w)\<lparr>config := Some c, syncInterval := syncInterval (sync w),
                           heartbeatInterval := heartbeatInterval (sync w)\<rparr>\<rparr> = w"
    using assms(1,2) by (cases w) simp
  with None show ?thesis
    by (intro exI [of _ "terminal_config d"] exI [of _ c] exI [of _ "syncInterval (sync w)"]
          exI [of _ "heartbeatInterval (sync w)"]) (simp add: returnE_def)
next
  case (Some settings)
  from updateSettings_effect [OF assms, of settings] obtain tc c' si hi where
    "updateSettings settings w =
           (Inr (), w\<lparr>db := Some (d\<lparr>terminal_config := Some tc\<rparr>),
                      sync := (sync w)\<lparr>config := Some c', syncInterval := si,
                                       heartbeatInterval := hi\<rparr>\<rparr>)"
    and "lastSyncAt c' = lastSyncAt c"
    by blast
  with Some show ?thesis
    by (intro exI [of _ "Some tc"] exI [of _ c'] exI [of _ si] exI [of _ hi]) simp
qed

lemma applyMarks_Nil: "map (applyMarks []) cs = cs"
  by (induction cs) auto

lemma conflictsStep_effect:
  assumes "db w = Some d"
  shows "(case conflicts data of
            None \<Rightarrow> returnE ()
          | Some cs \<Rightarrow> if length cs > 0 then handleConflicts cs else returnE ()) w
         = (Inr (), w\<lparr>db := Some (d\<lparr>checkins :=
              map (applyMarks (case conflicts data of None \<Rightarrow> [] | Some ks \<Rightarrow> map conflictMark ks))
                (checkins d)\<rparr>)\<rparr>)"
proof (cases "conflicts data")
  case None
  with assms show ?thesis
    by (simp add: returnE_def world_db_same applyMarks_Nil)
next
  case (Some ks)
  show ?thesis
  proof (cases ks)
    case Nil
    with Some assms show ?thesis
      by (simp add: returnE_def world_db_same applyMarks_Nil)
  next
    case (Cons k ks')
    with Some handleConflicts_marks [OF assms, of ks] show ?thesis
      by simp
  qed
qed


lemma applyMarks_comp: "applyMarks ns \<circ> applyMarks ms = applyMarks (ms @ ns)"
  by (rule ext) (simp add: applyMarks_append)

lemma applyResponse_effect:
  assumes "db w = Some d" and "config (sync w) = Some c" and "isSyncing (sync w)"
  shows "\<exists>us tc c' si hi n now.
    applyResponse e logId pend data w =
      (Inr data,
       w\<lparr>db := Some (d\<lparr>
              checkins := map (applyMarks (responseMarks e (ticks w) pend data)) (checkins d),
              users := us, terminal_config := Some tc,
              sync_log := map (\<lambda>r. if log_id r = logId
                                    then r\<lparr>completed_at := Some now,
                                           records_sent := int (length (syncedLocalIds data pend)),
                                           records_received :=
                                             (case r_users data of None \<Rightarrow> 0
                                              | Some sus \<Rightarrow> int (length sus)),
                                           records_failed := int (length (failedRecords data)),
                                           status := completed\<rparr>
                                    else r) (sync_log d)\<rparr>),
         ticks := n,
         sync := (sync w)\<lparr>config := Some c', syncInterval := si, heartbeatInterval := hi\<rparr>\<rparr>)
    \<and> lastSyncAt c' = Some (serverTimestamp data)
    \<and> lastSyncAt tc = orNullNum (Some (serverTimestamp data))
    \<and> ticks w + length (syncedLocalIds data pend) < n"
proof -
  let ?ids = "syncedLocalIds data pend"
  let ?M1 = "syncedMarks e (ticks w) ?ids"
  let ?M2 = "map failedMark (failedRecords data)"
  let ?M3 = "case conflicts data of None \<Rightarrow> [] | Some ks \<Rightarrow> map conflictMark ks"
  let ?t = "serverTimestamp data"
  \<comment> \<open>the accepted events\<close>
  let ?d1 = "d\<lparr>checkins := map (applyMarks ?M1) (checkins d)\<rparr>"
  let ?w1 = "w\<lparr>db := Some ?d1, ticks := ticks w + length ?ids\<rparr>"
  have s1: "forE ?ids (markSynced e) w = (Inr (), ?w1)"
    using assms(1) by (rule forE_markSynced)
  \<comment> \<open>the refused events\<close>
  let ?d2 = "?d1\<lparr>checkins := map (applyMarks ?M2) (checkins ?d1)\<rparr>"
  let ?w2 = "?w1\<lparr>db := Some ?d2\<rparr>"
  have "db ?w1 = Some ?d1" by simp
  then have s2: "forE (failedRecords data) markFailed ?w1 = (Inr (), ?w2)"
    by (rule forE_markFailed)
  \<comment> \<open>the roster\<close>
  have db2: "db ?w2 = Some ?d2" by simp
  from usersStep_effect [OF db2, where data = data and e = e] obtain us n3 where
    s3: "(case r_users data of
            None \<Rightarrow> returnE ()
          | Some us \<Rightarrow> if length us > 0 then updateLocalUsers e us else returnE ()) ?w2
         = (Inr (), ?w2\<lparr>db := Some (?d2\<lparr>users := us\<rparr>), ticks := n3\<rparr>)"
    and n3: "ticks ?w2 \<le> n3"
    by blast
  let ?d3 = "?d2\<lparr>users := us\<rparr>"
  let ?w3 = "?w2\<lparr>db := Some ?d3, ticks := n3\<rparr>"
  \<comment> \<open>the settings\<close>
  have db3: "db ?w3 = Some ?d3" and cfg3: "config (sync ?w3) = Some c"
    and syncing3: "isSyncing (sync ?w3)"
    using assms(2,3) by simp_all
  from settingsStep_effect [OF db3 cfg3 syncing3, where data = data] obtain tc4 c4 si hi where
    s4: "(case r_settings data of
            None \<Rightarrow> returnE ()
          | Some settings \<Rightarrow> updateSettings settings) ?w3
         = (Inr (), ?w3\<lparr>db := Some (?d3\<lparr>terminal_config := tc4\<rparr>),
                       sync := (sync ?w3)\<lparr>config := Some c4, syncInterval := si,
                                          heartbeatInterval := hi\<rparr>\<rparr>)"
    and c4: "lastSyncAt c4 = lastSyncAt c"
    by blast
  let ?d4 = "?d3\<lparr>terminal_config := tc4\<rparr>"
  let ?sv4 = "(sync w)\<lparr>config := Some c4, syncInterval := si, heartbeatInterval := hi\<rparr>"
  let ?w4 = "?w3\<lparr>db := Some ?d4, sync := ?sv4\<rparr>"
  have s4': "(case r_settings data of
            None \<Rightarrow> returnE ()
          | Some settings \<Rightarrow> updateSettings settings) ?w3 = (Inr (), ?w4)"
    using s4 by simp
  \<comment> \<open>the conflicts\<close>
  let ?d5 = "?d4\<lparr>checkins := map (applyMarks ?M3) (checkins ?d4)\<rparr>"
  let ?w5 = "?w4\<lparr>db := Some ?d5\<rparr>"
  have "db ?w4 = Some ?d4" by simp
  then have s5: "(case conflicts data of
            None \<Rightarrow> returnE ()
          | Some cs \<Rightarrow> if length cs > 0 then handleConflicts cs else returnE ()) ?w4
         = (Inr (), ?w5)"
    by (rule conflictsStep_effect)
  \<comment> \<open>the checkpoint\<close>
  let ?c6 = "c4\<lparr>lastSyncAt := Some ?t\<rparr>"
  let ?tc6 = "?c6\<lparr>location := orNullStr (location ?c6), lastSyncAt := orNullNum (lastSyncAt ?c6)\<rparr>"
  let ?d6 = "?d5\<lparr>terminal_config := Some ?tc6\<rparr>"
  let ?w6 = "?w5\<lparr>sync := (sync ?w5)\<lparr>config := Some ?c6\<rparr>, db := Some ?d6\<rparr>"
  have s6: "advanceLastSyncAt ?t ?w5 = (Inr (), ?w6)"
    by (simp add: advanceLastSyncAt_def saveTerminalConfig_def)
  \<comment> \<open>the session\<close>
  let ?h = "\<lambda>r. if log_id r = logId
                  then r\<lparr>completed_at := Some (clock e n3),
                         records_sent := int (length ?ids),
                         records_received :=
                           (case r_users data of None \<Rightarrow> 0 | Some sus \<Rightarrow> int (length sus)),
                         records_failed := int (length (failedRecords data)),
                         status := completed\<rparr>
                  else r"
  let ?d7 = "?d6\<lparr>sync_log := map ?h (sync_log ?d6)\<rparr>"
  let ?w7 = "?w6\<lparr>ticks := Suc n3, db := Some ?d7\<rparr>"
  have s7: "logSyncComplete e logId (int (length ?ids))
              (case r_users data of None \<Rightarrow> 0 | Some us \<Rightarrow> int (length us))
              (int (length (failedRecords data))) ?w6 = (Inr (), ?w7)"
    by (simp add: logSyncComplete_def dateNow_def)
  have run: "applyResponse e logId pend data w = (Inr data, ?w7)"
    by (simp only: applyResponse_def bindE_def s1 s2 s3 s4' s5 s6 s7 returnE_def prod.case sum.case)
  have shape: "?w7 =
       w\<lparr>db := Some (d\<lparr>
              checkins := map (applyMarks (responseMarks e (ticks w) pend data)) (checkins d),
              users := us, terminal_config := Some ?tc6,
              sync_log := map ?h (sync_log d)\<rparr>),
         ticks := Suc n3,
         sync := (sync w)\<lparr>config := Some ?c6, syncInterval := si, heartbeatInterval := hi\<rparr>\<rparr>"
    by (simp add: responseMarks_def applyMarks_comp)
  have later: "ticks w + length ?ids < Suc n3"
    using n3 by simp
  show ?thesis
    apply (rule exI [of _ us], rule exI [of _ ?tc6], rule exI [of _ ?c6], rule exI [of _ si],
        rule exI [of _ hi], rule exI [of _ "Suc n3"], rule exI [of _ "clock e n3"])
    apply (intro conjI)
       apply (simp only: run shape)
      apply simp
     apply simp
    apply (rule later)
    done
qed


lemma getPendingCheckins_queue:
  "db w = Some d \<Longrightarrow> getPendingCheckins e w = (Inr (pendingQueue e d), w)"
  by (simp add: getPendingCheckins_def pendingQueue_def)

lemma pendingQueue_log:
  "pendingQueue e (d\<lparr>sync_log := l, sync_log_seq := n\<rparr>) = pendingQueue e d"
  by (simp add: pendingQueue_def)

lemmas attempt_defs = performSync_def performSync_enter_def performSync_run_def logSyncStart_def
  performSync_try_def getPendingCheckins_queue api_post_def performSync_catch_def logSyncFailed_def
  bindE_def throwE_def dateNow_def Let_def

lemma performSync_success_effect:
  assumes "db w = Some d" and "api (sync w) \<noteq> None" and "config (sync w) = Some c"
    and "\<not> isSyncing (sync w)" and "success data"
  shows "\<exists>us tc c' si hi n log ob.
    performSync e (Resolved data) ty w =
      (Inr (Some data),
       w\<lparr>db := Some (d\<lparr>
              checkins := map (applyMarks (responseMarks e (ticks w + 2) (pendingQueue e d) data))
                            (checkins d),
              users := us, terminal_config := Some tc,
              sync_log := log, sync_log_seq := Suc (sync_log_seq d)\<rparr>),
         ticks := n,
         sync := (sync w)\<lparr>config := Some c', syncInterval := si, heartbeatInterval := hi,
                          isOnline := True, retryCount := 0\<rparr>,
         outbox := ob\<rparr>)
    \<and> lastSyncAt c' = Some (serverTimestamp data)
    \<and> lastSyncAt tc = orNullNum (Some (serverTimestamp data))
    \<and> ticks w + 2 + length (syncedLocalIds data (pendingQueue e d)) < n
    \<and> length log = Suc (length (sync_log d))
    \<and> status (last log) = completed
    \<and> length ob = Suc (length (outbox w))"
proof -
  let ?seq = "sync_log_seq d"
  let ?row = "\<lparr>log_id = Suc ?seq, sync_type = ty, started_at = clock e (ticks w),
      completed_at = None, records_sent = 0, records_received = 0, records_failed = 0,
      status = in_progress, error_message = None\<rparr>"
  let ?req = "\<lparr>q_terminalId = terminalId c, lastSyncTimestamp = orZero (lastSyncAt c),
                q_checkins = pendingQueue e d, q_syncType = ty\<rparr>"
  define w1 where "w1 = w\<lparr>sync := (sync w)\<lparr>isSyncing := True\<rparr>\<rparr>"
  define d2 where "d2 = d\<lparr>sync_log := sync_log d @ [?row], sync_log_seq := Suc ?seq\<rparr>"
  define w2 where "w2 = w1\<lparr>ticks := Suc (ticks w), db := Some d2\<rparr>"
  define w3 where "w3 = w2\<lparr>ticks := Suc (Suc (ticks w)), outbox := outbox w @ [?req],
                             sync := (sync w2)\<lparr>isOnline := True, retryCount := 0\<rparr>\<rparr>"
  have enter: "performSync_enter w = (True, w1)"
    using assms(2-4) by (simp add: performSync_enter_def w1_def)
  have start: "logSyncStart e ty w1 = (Inr (Suc ?seq), w2)"
    using assms(1) by (simp add: logSyncStart_def dateNow_def w1_def w2_def d2_def)
  have queue: "getPendingCheckins e w2 = (Inr (pendingQueue e d), w2)"
    by (simp add: getPendingCheckins_def pendingQueue_def w2_def d2_def)
  have cfg2: "config (sync w2) = Some c"
    using assms(3) by (simp add: w2_def w1_def)
  have post: "api_post e (Resolved data) ?req w2 = (Inr data, w3)"
    using assms(3) by (simp add: api_post_def dateNow_def w3_def w2_def w1_def)
  have attempt: "performSync_try e (Resolved data) ty (Suc ?seq) w2 =
      applyResponse e (Suc ?seq) (pendingQueue e d) data w3"
    using assms(5) by (simp add: performSync_try_def bindE_def queue cfg2 post)
  have db3: "db w3 = Some d2" and cfg3: "config (sync w3) = Some c"
    and syncing3: "isSyncing (sync w3)" and ticks3: "ticks w3 = ticks w + 2"
    using assms(3) by (simp_all add: w3_def w2_def w1_def)
  from applyResponse_effect [OF db3 cfg3 syncing3, where e = e and data = data
      and logId = "Suc ?seq" and pend = "pendingQueue e d"]
  obtain us tc c' si hi n now w4 where
    ar: "applyResponse e (Suc ?seq) (pendingQueue e d) data w3 = (Inr data, w4)"
    and w4: "w4 = w3\<lparr>db := Some (d2\<lparr>
              checkins := map (applyMarks (responseMarks e (ticks w3) (pendingQueue e d) data))
                            (checkins d2),
              users := us, terminal_config := Some tc,
              sync_log := map (\<lambda>r. if log_id r = Suc ?seq
                                    then r\<lparr>completed_at := Some now,
                                           records_sent :=
                                             int (length (syncedLocalIds data (pendingQueue e d))),
                                           records_received :=
                                             (case r_users data of None \<Rightarrow> 0
                                              | Some sus \<Rightarrow> int (length sus)),
                                           records_failed := int (length (failedRecords data)),
                                           status := completed\<rparr>
                                    else r) (sync_log d2)\<rparr>),
         ticks := n,
         sync := (sync w3)\<lparr>config := Some c', syncInterval := si, heartbeatInterval := hi\<rparr>\<rparr>"
    and c': "lastSyncAt c' = Some (serverTimestamp data)"
    and tc: "lastSyncAt tc = orNullNum (Some (serverTimestamp data))"
    and n: "ticks w3 + length (syncedLocalIds data (pendingQueue e d)) < n"
    by blast
  let ?log = "map (\<lambda>r. if log_id r = Suc ?seq
                                    then r\<lparr>completed_at := Some now,
                                           records_sent :=
                                             int (length (syncedLocalIds data (pendingQueue e d))),
                                           records_received :=
                                             (case r_users data of None \<Rightarrow> 0
                                              | Some sus \<Rightarrow> int (length sus)),
                                           records_failed := int (length (failedRecords data)),
                                           status := completed\<rparr>
                                    else r) (sync_log d @ [?row])"
  have run: "performSync e (Resolved data) ty w =
      (Inr (Some data), w4\<lparr>sync := (sync w4)\<lparr>isSyncing := False\<rparr>\<rparr>)"
    by (simp add: performSync_def enter performSync_run_def start attempt ar)
  have shape: "w4\<lparr>sync := (sync w4)\<lparr>isSyncing := False\<rparr>\<rparr> =
       w\<lparr>db := Some (d\<lparr>
              checkins := map (applyMarks (responseMarks e (ticks w + 2) (pendingQueue e d) data))
                            (checkins d),
              users := us, terminal_config := Some tc,
              sync_log := ?log, sync_log_seq := Suc ?seq\<rparr>),
         ticks := n,
         sync := (sync w)\<lparr>config := Some c', syncInterval := si, heartbeatInterval := hi,
                          isOnline := True, retryCount := 0\<rparr>,
         outbox := outbox w @ [?req]\<rparr>"
    using assms(4) by (simp add: w4 w3_def w2_def w1_def d2_def)
  show ?thesis
    apply (rule exI [of _ us], rule exI [of _ tc], rule exI [of _ c'], rule exI [of _ si],
        rule exI [of _ hi], rule exI [of _ n], rule exI [of _ ?log],
        rule exI [of _ "outbox w @ [?req]"])
    using c' tc n ticks3 by (simp add: run shape)
qed

lemmas response_defs = applyResponse_def syncedLocalIds_def markSynced_def markFailed_def
  updateCheckinSyncStatus_def handleConflicts_def handleConflict_def advanceLastSyncAt_def
  saveTerminalConfig_def logSyncComplete_def returnE_def

lemmas example_defs = worldABC_def dbABC_def world0_def emptyDb_def newSyncService_def configT_def
  eventA_def eventB_def eventC_def envMarch1_def

text \<open>
  C3. For an attempt that is let in (database open, service initialised, no attempt
  running) and whose request gets no response: the call resolves to \<^verbatim>\<open>null\<close>, the stored
  events are what they were, the checkpoint and the stored config are what they were,
  and the session this attempt opened (the last row of \<^verbatim>\<open>sync_log\<close>) is closed as
  \<open>failed\<close> with the error's message. The service is marked offline and the in-progress
  flag is released.
\<close>

theorem performSync_transport_failure:
  assumes "db w = Some d" and "api (sync w) \<noteq> None" and "config (sync w) \<noteq> None"
    and "\<not> isSyncing (sync w)"
  shows "fst (performSync e (Rejected False msg) ty w) = Inr None
       \<and> storedCheckins (snd (performSync e (Rejected False msg) ty w)) = storedCheckins w
       \<and> config (sync (snd (performSync e (Rejected False msg) ty w))) = config (sync w)
       \<and> storedConfig (snd (performSync e (Rejected False msg) ty w)) = storedConfig w
       \<and> checkpoint (snd (performSync e (Rejected False msg) ty w)) = checkpoint w
       \<and> length (storedLog (snd (performSync e (Rejected False msg) ty w)))
           = Suc (length (storedLog w))
       \<and> log_id (last (storedLog (snd (performSync e (Rejected False msg) ty w))))
           = Suc (sync_log_seq d)
       \<and> sync_type (last (storedLog (snd (performSync e (Rejected False msg) ty w)))) = ty
       \<and> status (last (storedLog (snd (performSync e (Rejected False msg) ty w)))) = log_failed
       \<and> error_message (last (storedLog (snd (performSync e (Rejected False msg) ty w))))
           = Some msg
       \<and> \<not> isOnline (sync (snd (performSync e (Rejected False msg) ty w)))
       \<and> \<not> isSyncing (sync (snd (performSync e (Rejected False msg) ty w)))"
proof -
  from assms(3) obtain c where c: "config (sync w) = Some c"
    by auto
  let ?row = "\<lparr>log_id = Suc (sync_log_seq d), sync_type = ty, started_at = clock e (ticks w),
      completed_at = None, records_sent = 0, records_received = 0, records_failed = 0,
      status = in_progress, error_message = None\<rparr>"
  let ?close = "\<lambda>r. if log_id r = Suc (sync_log_seq d)
                     then r\<lparr>completed_at := Some (clock e (Suc (Suc (ticks w)))),
                            status := log_failed, error_message := Some msg\<rparr>
                     else r"
  obtain w' where run: "performSync e (Rejected False msg) ty w = (Inr None, w')"
    and db': "db w' = Some (d\<lparr>sync_log := map ?close (sync_log d @ [?row]),
                              sync_log_seq := Suc (sync_log_seq d)\<rparr>)"
    and sync': "config (sync w') = Some c" "\<not> isOnline (sync w')" "\<not> isSyncing (sync w')"
    using assms c by (simp add: attempt_defs)
  show ?thesis
    using assms(1) c
    by (simp add: run db' sync' storedCheckins_def storedConfig_def storedLog_def checkpoint_def)
qed



theorem performSync_transport_failure_witness:
  "db worldABC = Some dbABC
   \<and> api (sync worldABC) \<noteq> None \<and> config (sync worldABC) \<noteq> None
   \<and> \<not> isSyncing (sync worldABC)
   \<and> fst (performSync envMarch1 (Rejected False ''Network Error'') incremental worldABC) = Inr None
   \<and> map syncStatus (storedCheckins
        (snd (performSync envMarch1 (Rejected False ''Network Error'') incremental worldABC)))
       = [pending, pending, pending]
   \<and> checkpoint (snd (performSync envMarch1 (Rejected False ''Network Error'') incremental worldABC))
       = 100
   \<and> map status (storedLog
        (snd (performSync envMarch1 (Rejected False ''Network Error'') incremental worldABC)))
       = [log_failed]"
proof -
  have ready: "db worldABC = Some dbABC" "api (sync worldABC) \<noteq> None"
    "config (sync worldABC) \<noteq> None" "\<not> isSyncing (sync worldABC)"
    by (simp_all add: worldABC_def world0_def newSyncService_def)
  let ?w' = "snd (performSync envMarch1 (Rejected False ''Network Error'') incremental worldABC)"
  note inst = performSync_transport_failure [OF ready, of envMarch1 "''Network Error''" incremental]
  have before: "map syncStatus (storedCheckins worldABC) = [pending, pending, pending]"
    "checkpoint worldABC = 100" "storedLog worldABC = []"
    by (simp_all add: storedCheckins_def storedLog_def checkpoint_def example_defs)
  from inst have "storedCheckins ?w' = storedCheckins worldABC" "checkpoint ?w' = checkpoint worldABC"
    and "length (storedLog ?w') = Suc (length (storedLog worldABC))"
    and "status (last (storedLog ?w')) = log_failed"
    and r: "fst (performSync envMarch1 (Rejected False ''Network Error'') incremental worldABC) = Inr None"
    by simp_all
  with before have rows: "map syncStatus (storedCheckins ?w') = [pending, pending, pending]"
    and cp: "checkpoint ?w' = 100"
    and log: "length (storedLog ?w') = 1" "status (last (storedLog ?w')) = log_failed"
    by simp_all
  from log have "map status (storedLog ?w') = [log_failed]"
    by (cases "storedLog ?w'") simp_all
  with ready r rows cp show ?thesis
    by simp
qed

section \<open>A successful response\<close>

lemma zip_map_same: "set (zip xs (map f xs)) = (\<lambda>x. (x, f x)) ` set xs"
  by (induction xs) auto

lemma conflictMark_id: "fst (conflictMark k) = k_localId k"
  by (cases "resolution k") (simp_all add: conflictMark_def)

lemma conflictMarks_ids:
  "fst ` set (case conflicts data of None \<Rightarrow> [] | Some ks \<Rightarrow> map conflictMark ks) = conflictIds data"
  by (cases "conflicts data") (auto simp: conflictIds_def conflictMark_id image_iff)

lemma failedMarks_ids: "fst ` failedMark ` set (failedRecords data) = failedIds data"
  by (auto simp: failedIds_def failedMark_def image_iff)

lemma syncedLocalIds_set:
  "set (syncedLocalIds data (pendingQueue e d)) =
     localId ` {c \<in> set (checkins d). syncStatus c = pending \<or> syncStatus c = failed}
       - failedIds data"
proof -
  have "find (\<lambda>f. f_localId f = localId c) (failedRecords data) = None
          \<longleftrightarrow> localId c \<notin> failedIds data" for c
    by (auto simp: find_None_iff failedIds_def image_iff)
  then have "set (syncedLocalIds data (pendingQueue e d)) =
      localId ` {c \<in> set (checkins d).
                  (syncStatus c = pending \<or> syncStatus c = failed) \<and> localId c \<notin> failedIds data}"
    by (simp add: syncedLocalIds_def pendingQueue_def) (rule arg_cong [where f = "image localId"], blast)
  then show ?thesis
    by auto
qed

text \<open>
  C4 (as amended). For an attempt that is let in and gets a response with \<^verbatim>\<open>success\<close>:
  the call resolves to the response, and every stored event stays in its place and
  changes in \<open>syncStatus\<close>, \<open>syncedAt\<close> and \<open>syncError\<close> at most. For an event that no
  conflict directive of the response names: if it was sent (pending or failed) and is
  not in \<^verbatim>\<open>failedRecords\<close> it is \<open>synced\<close>, with no error, and its \<open>syncedAt\<close> is the
  reading of the terminal's clock (\<^verbatim>\<open>Date.now() || null\<close>) taken for it while the response
  is applied: the accepted ids are marked in the order of the queue, one reading each,
  after the reading of the session start and the reading of the request, so the id at
  place \<open>i\<close> gets reading \<open>ticks w + 2 + i\<close>; if it is in \<^verbatim>\<open>failedRecords\<close> it is \<open>failed\<close>,
  with no \<open>syncedAt\<close> and with an error reported for it (\<^verbatim>\<open>error || null\<close>); if its id is
  neither sent nor in \<^verbatim>\<open>failedRecords\<close> it is unchanged. For an event that a conflict
  directive names, the last directive that names it decides, whatever the marking did
  before: \<open>syncedAt\<close> is cleared, and the event is \<open>pending\<close> with no error
  (\<open>use_local\<close>), or \<open>conflict\<close> with the note \<^verbatim>\<open>Resolved: <conflictType>\<close> (\<open>use_server\<close>),
  or \<open>conflict\<close> with the note \<^verbatim>\<open>Manual resolution required: <conflictType>\<close>. The
  checkpoint is the response's \<open>serverTimestamp\<close>, and the stored config holds it
  (\<^verbatim>\<open>lastSyncAt || null\<close>).
\<close>

theorem performSync_marks_batch:
  assumes "db w = Some d" and "api (sync w) \<noteq> None" and "config (sync w) \<noteq> None"
    and "\<not> isSyncing (sync w)" and "success data"
  shows "fst (performSync e (Resolved data) ty w) = Inr (Some data)
       \<and> length (storedCheckins (snd (performSync e (Resolved data) ty w)))
           = length (storedCheckins w)
       \<and> (\<forall>(c, c') \<in> set (zip (storedCheckins w)
                                 (storedCheckins (snd (performSync e (Resolved data) ty w)))).
             c' = c\<lparr>syncStatus := syncStatus c', syncedAt := syncedAt c',
                     syncError := syncError c'\<rparr>
           \<and> (localId c \<notin> conflictIds data \<longrightarrow>
                 ((syncStatus c = pending \<or> syncStatus c = failed)
                    \<and> localId c \<notin> failedIds data \<longrightarrow>
                   syncStatus c' = synced \<and> syncError c' = None \<and>
                   (\<exists>i < length (syncedLocalIds data (pendingQueue e d)).
                       syncedLocalIds data (pendingQueue e d) ! i = localId c
                     \<and> ticks w + 2 + i < ticks (snd (performSync e (Resolved data) ty w))
                     \<and> syncedAt c' = orNullNum (Some (clock e (ticks w + 2 + i)))))
               \<and> (localId c \<in> failedIds data \<longrightarrow>
                   syncStatus c' = failed \<and> syncedAt c' = None \<and>
                   (\<exists>f \<in> set (failedRecords data).
                       f_localId f = localId c \<and> syncError c' = orNullStr (Some (f_error f))))
               \<and> (localId c \<notin> sentIds w \<and> localId c \<notin> failedIds data \<longrightarrow> c' = c))
           \<and> (\<forall>earlier k later.
              conflicts data = Some (earlier @ k # later)
                \<and> k_localId k \<notin> k_localId ` set later \<and> localId c = k_localId k \<longrightarrow>
                syncedAt c' = None
              \<and> (resolution k = use_local \<longrightarrow> syncStatus c' = pending \<and> syncError c' = None)
              \<and> (resolution k = use_server \<longrightarrow>
                   syncStatus c' = conflict
                 \<and> syncError c' = Some (''Resolved: '' @ conflictTypeStr (conflictType k)))
              \<and> (resolution k = manual_resolution \<longrightarrow>
                   syncStatus c' = conflict
                 \<and> syncError c' =
                     Some (''Manual resolution required: '' @ conflictTypeStr (conflictType k)))))
       \<and> checkpoint (snd (performSync e (Resolved data) ty w)) = serverTimestamp data
       \<and> (\<exists>tc. storedConfig (snd (performSync e (Resolved data) ty w)) = Some tc
              \<and> lastSyncAt tc = orNullNum (Some (serverTimestamp data)))"
proof -
  from assms(3) obtain c0 where c0: "config (sync w) = Some c0"
    by auto
  let ?ids = "syncedLocalIds data (pendingQueue e d)"
  let ?t = "ticks w + 2"
  let ?M1 = "syncedMarks e ?t ?ids"
  let ?M2 = "map failedMark (failedRecords data)"
  let ?M3 = "case conflicts data of None \<Rightarrow> [] | Some ks \<Rightarrow> map conflictMark ks"
  let ?M = "responseMarks e ?t (pendingQueue e d) data"
  from performSync_success_effect [OF assms(1,2) c0 assms(4,5), where e = e and ty = ty]
  obtain w' n c' tc where run: "performSync e (Resolved data) ty w = (Inr (Some data), w')"
    and rows': "storedCheckins w' = map (applyMarks ?M) (checkins d)"
    and ticks': "ticks w' = n" "?t + length ?ids < n"
    and cfg': "config (sync w') = Some c'" "lastSyncAt c' = Some (serverTimestamp data)"
    and tc: "storedConfig w' = Some tc" "lastSyncAt tc = orNullNum (Some (serverTimestamp data))"
    by (fastforce simp: storedCheckins_def storedConfig_def)
  have rows: "storedCheckins w = checkins d"
    using assms(1) by (simp add: storedCheckins_def)
  have M: "?M = ?M1 @ ?M2 @ ?M3"
    by (simp add: responseMarks_def)
  have sent: "sentIds w = localId ` {c \<in> set (checkins d). syncStatus c = pending \<or> syncStatus c = failed}"
    by (simp add: sentIds_def rows)
  have row: "applyMarks ?M c = c\<lparr>syncStatus := syncStatus (applyMarks ?M c),
                 syncedAt := syncedAt (applyMarks ?M c), syncError := syncError (applyMarks ?M c)\<rparr>
           \<and> (localId c \<notin> conflictIds data \<longrightarrow>
                 ((syncStatus c = pending \<or> syncStatus c = failed)
                    \<and> localId c \<notin> failedIds data \<longrightarrow>
                   syncStatus (applyMarks ?M c) = synced \<and> syncError (applyMarks ?M c) = None \<and>
                   (\<exists>i < length ?ids. ?ids ! i = localId c \<and> ticks w + 2 + i < n
                       \<and> syncedAt (applyMarks ?M c) = orNullNum (Some (clock e (ticks w + 2 + i)))))
               \<and> (localId c \<in> failedIds data \<longrightarrow>
                   syncStatus (applyMarks ?M c) = failed \<and> syncedAt (applyMarks ?M c) = None \<and>
                   (\<exists>f \<in> set (failedRecords data).
                       f_localId f = localId c
                       \<and> syncError (applyMarks ?M c) = orNullStr (Some (f_error f))))
               \<and> (localId c \<notin> sentIds w \<and> localId c \<notin> failedIds data \<longrightarrow>
                   applyMarks ?M c = c))
           \<and> (\<forall>earlier k later.
              conflicts data = Some (earlier @ k # later)
                \<and> k_localId k \<notin> k_localId ` set later \<and> localId c = k_localId k \<longrightarrow>
                syncedAt (applyMarks ?M c) = None
              \<and> (resolution k = use_local \<longrightarrow> syncStatus (applyMarks ?M c) = pending \<and> syncError (applyMarks ?M c) = None)
              \<and> (resolution k = use_server \<longrightarrow>
                   syncStatus (applyMarks ?M c) = conflict
                 \<and> syncError (applyMarks ?M c) = Some (''Resolved: '' @ conflictTypeStr (conflictType k)))
              \<and> (resolution k = manual_resolution \<longrightarrow>
                   syncStatus (applyMarks ?M c) = conflict
                 \<and> syncError (applyMarks ?M c) =
                     Some (''Manual resolution required: '' @ conflictTypeStr (conflictType k))))"
    if member: "c \<in> set (checkins d)" for c
  proof -
    have only: "applyMarks ?M c = c\<lparr>syncStatus := syncStatus (applyMarks ?M c),
                 syncedAt := syncedAt (applyMarks ?M c), syncError := syncError (applyMarks ?M c)\<rparr>"
      by (rule applyMarks_only_sync)
    have no_conflict: "applyMarks ?M c = applyMarks ?M2 (applyMarks ?M1 c)"
      if "localId c \<notin> conflictIds data"
    proof -
      have "applyMarks ?M c = applyMarks ?M3 (applyMarks ?M2 (applyMarks ?M1 c))"
        by (simp only: M applyMarks_append)
      also have "\<dots> = applyMarks ?M2 (applyMarks ?M1 c)"
      proof (rule applyMarks_untouched)
        show "localId (applyMarks ?M2 (applyMarks ?M1 c)) \<notin> fst ` set ?M3"
          using that by (simp only: applyMarks_localId conflictMarks_ids not_False_eq_True)
      qed
      finally show ?thesis .
    qed
    have accepted: "syncStatus (applyMarks ?M c) = synced \<and> syncError (applyMarks ?M c) = None \<and>
                   (\<exists>i < length ?ids. ?ids ! i = localId c \<and> ticks w + 2 + i < n
                       \<and> syncedAt (applyMarks ?M c) = orNullNum (Some (clock e (ticks w + 2 + i))))"
      if nc: "localId c \<notin> conflictIds data"
        and st: "syncStatus c = pending \<or> syncStatus c = failed"
        and nf: "localId c \<notin> failedIds data"
    proof -
      have in_ids: "localId c \<in> fst ` set ?M1"
        using member st nf by (auto simp: syncedMarks_ids syncedLocalIds_set)
      have "applyMarks ?M2 (applyMarks ?M1 c) = applyMarks ?M1 c"
        using nf by (intro applyMarks_untouched) (simp add: applyMarks_localId failedMarks_ids)
      with no_conflict [OF nc] have eq: "applyMarks ?M c = applyMarks ?M1 c"
        by simp
      from applyMarks_some [OF in_ids] obtain st' sa er where
        elem: "(localId c, st', sa, er) \<in> set ?M1"
        and res: "applyMarks ?M1 c =
                    c\<lparr>syncStatus := st', syncedAt := orNullNum sa, syncError := orNullStr er\<rparr>"
        by blast
      from syncedMarks_nth [OF elem] obtain i where
        k: "st' = synced" "er = None" "sa = Some (clock e (?t + i))"
        and range: "i < length ?ids" "?ids ! i = localId c"
        by blast
      have "applyMarks ?M c =
              c\<lparr>syncStatus := st', syncedAt := orNullNum sa, syncError := orNullStr er\<rparr>"
        using eq res by (simp only:)
      then have marked: "applyMarks ?M c =
              c\<lparr>syncStatus := synced, syncedAt := orNullNum (Some (clock e (?t + i))),
                 syncError := None\<rparr>"
        using k by simp
      from range ticks'(2) have "?t + i < n"
        by simp
      moreover from marked have "syncStatus (applyMarks ?M c) = synced"
        "syncError (applyMarks ?M c) = None"
        "syncedAt (applyMarks ?M c) = orNullNum (Some (clock e (?t + i)))"
        by simp_all
      ultimately show ?thesis
        using range by blast
    qed
    have refused: "syncStatus (applyMarks ?M c) = failed \<and> syncedAt (applyMarks ?M c) = None \<and>
                   (\<exists>f \<in> set (failedRecords data).
                       f_localId f = localId c
                       \<and> syncError (applyMarks ?M c) = orNullStr (Some (f_error f)))"
      if nc: "localId c \<notin> conflictIds data" and f: "localId c \<in> failedIds data"
    proof -
      let ?c1 = "applyMarks ?M1 c"
      have "localId ?c1 \<in> fst ` set ?M2"
        using f by (simp add: applyMarks_localId failedMarks_ids)
      from applyMarks_some [OF this] obtain st' sa er where
        elem: "(localId c, st', sa, er) \<in> set ?M2"
        and res: "applyMarks ?M2 ?c1 =
                    ?c1\<lparr>syncStatus := st', syncedAt := orNullNum sa, syncError := orNullStr er\<rparr>"
        by (auto simp: applyMarks_localId)
      from elem obtain fr where fr: "fr \<in> set (failedRecords data)" "f_localId fr = localId c"
        "st' = failed" "sa = None" "er = Some (f_error fr)"
        by (auto simp: failedMark_def)
      with res no_conflict [OF nc] fr(1,2) show ?thesis
        by auto
    qed
    have untouched: "applyMarks ?M c = c"
      if ns: "localId c \<notin> sentIds w" and nf: "localId c \<notin> failedIds data"
        and nc: "localId c \<notin> conflictIds data"
    proof -
      have "localId c \<notin> fst ` set ?M1"
        using ns by (simp add: syncedMarks_ids syncedLocalIds_set sent)
      then have "applyMarks ?M1 c = c"
        by (rule applyMarks_untouched)
      moreover have "applyMarks ?M2 c = c"
        using nf by (intro applyMarks_untouched) (simp add: failedMarks_ids)
      ultimately show ?thesis
        using no_conflict [OF nc] by simp
    qed
    have named: "syncedAt (applyMarks ?M c) = None
       \<and> (resolution k = use_local \<longrightarrow>
            syncStatus (applyMarks ?M c) = pending \<and> syncError (applyMarks ?M c) = None)
       \<and> (resolution k = use_server \<longrightarrow>
            syncStatus (applyMarks ?M c) = conflict
          \<and> syncError (applyMarks ?M c) = Some (''Resolved: '' @ conflictTypeStr (conflictType k)))
       \<and> (resolution k = manual_resolution \<longrightarrow>
            syncStatus (applyMarks ?M c) = conflict
          \<and> syncError (applyMarks ?M c) =
              Some (''Manual resolution required: '' @ conflictTypeStr (conflictType k)))"
      if ks: "conflicts data = Some (earlier @ k # later)"
        and last: "k_localId k \<notin> k_localId ` set later"
        and id: "localId c = k_localId k" for earlier k later
    proof -
      obtain st sa er where km: "conflictMark k = (k_localId k, st, sa, er)"
        by (cases "resolution k") (simp_all add: conflictMark_def)
      have "fst ` set (map conflictMark later) = k_localId ` set later"
        by (simp add: image_image conflictMark_id)
      with last have later: "k_localId k \<notin> fst ` set (map conflictMark later)"
        by (simp only: not_False_eq_True)
      have "?M = (?M1 @ ?M2 @ map conflictMark earlier)
                   @ (k_localId k, st, sa, er) # map conflictMark later"
        by (simp add: responseMarks_def ks km)
      moreover have "applyMarks ((?M1 @ ?M2 @ map conflictMark earlier)
                   @ (k_localId k, st, sa, er) # map conflictMark later) c
            = c\<lparr>syncStatus := st, syncedAt := orNullNum sa, syncError := orNullStr er\<rparr>"
        using id later by (rule applyMarks_last)
      ultimately have is_mark: "applyMarks ?M c =
          c\<lparr>syncStatus := st, syncedAt := orNullNum sa, syncError := orNullStr er\<rparr>"
        by (simp only:)
      then have proj: "syncStatus (applyMarks ?M c) = st"
        "syncedAt (applyMarks ?M c) = orNullNum sa" "syncError (applyMarks ?M c) = orNullStr er"
        by simp_all
      show ?thesis
      proof (cases "resolution k")
        case use_server
        with km have "st = conflict" "sa = None"
          "er = Some (''Resolved: '' @ conflictTypeStr (conflictType k))"
          by (simp_all add: conflictMark_def)
        with use_server proj show ?thesis
          by simp
      next
        case use_local
        with km have "st = pending" "sa = None" "er = None"
          by (simp_all add: conflictMark_def)
        with use_local proj show ?thesis
          by simp
      next
        case manual_resolution
        with km have "st = conflict" "sa = None"
          "er = Some (''Manual resolution required: '' @ conflictTypeStr (conflictType k))"
          by (simp_all add: conflictMark_def)
        with manual_resolution proj show ?thesis
          by simp
      qed
    qed
    from only accepted refused untouched named show ?thesis
      by blast
  qed
  have pairs: "set (zip (storedCheckins w) (storedCheckins w')) =
                 (\<lambda>c. (c, applyMarks ?M c)) ` set (checkins d)"
    by (simp add: rows rows' zip_map_same)
  have result: "fst (performSync e (Resolved data) ty w) = Inr (Some data)"
    and state: "snd (performSync e (Resolved data) ty w) = w'"
    by (simp_all add: run)
  have len: "length (storedCheckins w') = length (storedCheckins w)"
    by (simp add: rows rows')
  have events: "\<forall>(c, c') \<in> set (zip (storedCheckins w) (storedCheckins w')).
             c' = c\<lparr>syncStatus := syncStatus c', syncedAt := syncedAt c',
                     syncError := syncError c'\<rparr>
           \<and> (localId c \<notin> conflictIds data \<longrightarrow>
                 ((syncStatus c = pending \<or> syncStatus c = failed)
                    \<and> localId c \<notin> failedIds data \<longrightarrow>
                   syncStatus c' = synced \<and> syncError c' = None \<and>
                   (\<exists>i < length ?ids. ?ids ! i = localId c \<and> ticks w + 2 + i < ticks w'
                       \<and> syncedAt c' = orNullNum (Some (clock e (ticks w + 2 + i)))))
               \<and> (localId c \<in> failedIds data \<longrightarrow>
                   syncStatus c' = failed \<and> syncedAt c' = None \<and>
                   (\<exists>f \<in> set (failedRecords data).
                       f_localId f = localId c \<and> syncError c' = orNullStr (Some (f_error f))))
               \<and> (localId c \<notin> sentIds w \<and> localId c \<notin> failedIds data \<longrightarrow> c' = c))
           \<and> (\<forall>earlier k later.
              conflicts data = Some (earlier @ k # later)
                \<and> k_localId k \<notin> k_localId ` set later \<and> localId c = k_localId k \<longrightarrow>
                syncedAt c' = None
              \<and> (resolution k = use_local \<longrightarrow> syncStatus c' = pending \<and> syncError c' = None)
              \<and> (resolution k = use_server \<longrightarrow>
                   syncStatus c' = conflict
                 \<and> syncError c' = Some (''Resolved: '' @ conflictTypeStr (conflictType k)))
              \<and> (resolution k = manual_resolution \<longrightarrow>
                   syncStatus c' = conflict
                 \<and> syncError c' =
                     Some (''Manual resolution required: '' @ conflictTypeStr (conflictType k))))"
  proof (intro ballI, clarify)
    fix c c'
    assume "(c, c') \<in> set (zip (storedCheckins w) (storedCheckins w'))"
    then have member: "c \<in> set (checkins d)" and c': "c' = applyMarks ?M c"
      by (auto simp: pairs)
    show "c' = c\<lparr>syncStatus := syncStatus c', syncedAt := syncedAt c',
                     syncError := syncError c'\<rparr>
           \<and> (localId c \<notin> conflictIds data \<longrightarrow>
                 ((syncStatus c = pending \<or> syncStatus c = failed)
                    \<and> localId c \<notin> failedIds data \<longrightarrow>
                   syncStatus c' = synced \<and> syncError c' = None \<and>
                   (\<exists>i < length ?ids. ?ids ! i = localId c \<and> ticks w + 2 + i < ticks w'
                       \<and> syncedAt c' = orNullNum (Some (clock e (ticks w + 2 + i)))))
               \<and> (localId c \<in> failedIds data \<longrightarrow>
                   syncStatus c' = failed \<and> syncedAt c' = None \<and>
                   (\<exists>f \<in> set (failedRecords data).
                       f_localId f = localId c \<and> syncError c' = orNullStr (Some (f_error f))))
               \<and> (localId c \<notin> sentIds w \<and> localId c \<notin> failedIds data \<longrightarrow> c' = c))
           \<and> (\<forall>earlier k later.
              conflicts data = Some (earlier @ k # later)
                \<and> k_localId k \<notin> k_localId ` set later \<and> localId c = k_localId k \<longrightarrow>
                syncedAt c' = None
              \<and> (resolution k = use_local \<longrightarrow> syncStatus c' = pending \<and> syncError c' = None)
              \<and> (resolution k = use_server \<longrightarrow>
                   syncStatus c' = conflict
                 \<and> syncError c' = Some (''Resolved: '' @ conflictTypeStr (conflictType k)))
              \<and> (resolution k = manual_resolution \<longrightarrow>
                   syncStatus c' = conflict
                 \<and> syncError c' =
                     Some (''Manual resolution required: '' @ conflictTypeStr (conflictType k))))"
      unfolding c' ticks'(1) by (rule row [OF member])
  qed
  have cp: "checkpoint w' = serverTimestamp data"
    by (simp add: checkpoint_def cfg')
  have stored: "\<exists>tc. storedConfig w' = Some tc
              \<and> lastSyncAt tc = orNullNum (Some (serverTimestamp data))"
    using tc by blast
  show ?thesis
    unfolding state using result len events cp stored by (intro conjI)
qed

theorem performSync_marks_batch_witness:
  "db worldABC = Some dbABC
   \<and> api (sync worldABC) \<noteq> None \<and> config (sync worldABC) \<noteq> None
   \<and> \<not> isSyncing (sync worldABC) \<and> success replyPartial
   \<and> map f_localId (failedRecords replyPartial) = [''b'']
   \<and> map localId (storedCheckins worldABC) = [''a'', ''b'', ''c'']
   \<and> map syncStatus (storedCheckins worldABC) = [pending, pending, pending]
   \<and> fst (performSync envMarch1 (Resolved replyPartial) incremental worldABC)
       = Inr (Some replyPartial)
   \<and> map syncStatus (storedCheckins
        (snd (performSync envMarch1 (Resolved replyPartial) incremental worldABC)))
       = [synced, failed, synced]
   \<and> map syncError (storedCheckins
        (snd (performSync envMarch1 (Resolved replyPartial) incremental worldABC)))
       = [None, Some ''rejected'', None]
   \<and> map syncedAt (storedCheckins
        (snd (performSync envMarch1 (Resolved replyPartial) incremental worldABC)))
       = [Some (clock envMarch1 2), None, Some (clock envMarch1 3)]
   \<and> checkpoint worldABC = 100
   \<and> checkpoint (snd (performSync envMarch1 (Resolved replyPartial) incremental worldABC)) = 5000
   \<and> success replyMixed
   \<and> map f_localId (failedRecords replyMixed) = [''b'']
   \<and> map_option (map k_localId) (conflicts replyMixed) = Some [''c'']
   \<and> fst (performSync envMarch1 (Resolved replyMixed) incremental worldABC)
       = Inr (Some replyMixed)
   \<and> map syncStatus (storedCheckins
        (snd (performSync envMarch1 (Resolved replyMixed) incremental worldABC)))
       = [synced, failed, conflict]
   \<and> map syncError (storedCheckins
        (snd (performSync envMarch1 (Resolved replyMixed) incremental worldABC)))
       = [None, Some ''rejected'', Some ''Manual resolution required: user_mismatch'']
   \<and> map syncedAt (storedCheckins
        (snd (performSync envMarch1 (Resolved replyMixed) incremental worldABC)))
       = [Some (clock envMarch1 2), None, None]
   \<and> checkpoint (snd (performSync envMarch1 (Resolved replyMixed) incremental worldABC)) = 6000"
proof -
  have ready: "db worldABC = Some dbABC" "api (sync worldABC) \<noteq> None"
    "config (sync worldABC) \<noteq> None" "\<not> isSyncing (sync worldABC)"
    by (simp_all add: worldABC_def world0_def newSyncService_def)
  have ok: "success replyPartial" "success replyMixed"
    by (simp_all add: replyPartial_def replyMixed_def)
  let ?w' = "snd (performSync envMarch1 (Resolved replyPartial) incremental worldABC)"
  let ?w'' = "snd (performSync envMarch1 (Resolved replyMixed) incremental worldABC)"
  note inst = performSync_marks_batch [OF ready ok(1), of envMarch1 incremental]
  from inst have r: "fst (performSync envMarch1 (Resolved replyPartial) incremental worldABC)
       = Inr (Some replyPartial)"
    and cp: "checkpoint ?w' = serverTimestamp replyPartial"
    by blast+
  note mixed = performSync_marks_batch [OF ready ok(2), of envMarch1 incremental]
  from mixed have r': "fst (performSync envMarch1 (Resolved replyMixed) incremental worldABC)
       = Inr (Some replyMixed)"
    and cp': "checkpoint ?w'' = serverTimestamp replyMixed"
    by blast+
  have before: "map f_localId (failedRecords replyPartial) = [''b'']"
    "map localId (storedCheckins worldABC) = [''a'', ''b'', ''c'']"
    "map syncStatus (storedCheckins worldABC) = [pending, pending, pending]"
    "checkpoint worldABC = 100" "serverTimestamp replyPartial = 5000"
    "map f_localId (failedRecords replyMixed) = [''b'']"
    "map_option (map k_localId) (conflicts replyMixed) = Some [''c'']"
    "serverTimestamp replyMixed = 6000"
    by (simp_all add: storedCheckins_def checkpoint_def example_defs replyPartial_def
          replyMixed_def)
  have rows: "map syncStatus (storedCheckins ?w') = [synced, failed, synced]"
    "map syncError (storedCheckins ?w') = [None, Some ''rejected'', None]"
    "map syncedAt (storedCheckins ?w') = [Some (clock envMarch1 2), None, Some (clock envMarch1 3)]"
    by (simp_all add: attempt_defs pendingQueue_def response_defs example_defs replyPartial_def
          storedCheckins_def)
  have rows': "map syncStatus (storedCheckins ?w'') = [synced, failed, conflict]"
    "map syncError (storedCheckins ?w'')
       = [None, Some ''rejected'', Some ''Manual resolution required: user_mismatch'']"
    "map syncedAt (storedCheckins ?w'') = [Some (clock envMarch1 2), None, None]"
    by (simp_all add: attempt_defs pendingQueue_def response_defs example_defs replyMixed_def
          storedCheckins_def)
  from ready ok r cp r' cp' before rows rows' show ?thesis
    by simp
qed

text \<open>
  The claim C4 as it is written fails when the response also carries a conflict
  directive for an accepted event: \<^verbatim>\<open>handleConflicts\<close> runs after the marking, and the
  event ends as \<open>conflict\<close>, not \<open>synced\<close>. The \<open>syncedAt\<close> of the other events is the
  terminal's clock, not the \<open>serverTimestamp\<close> 5000.
\<close>

theorem performSync_conflict_overrides_synced:
  "success replyConflict \<and> failedRecords replyConflict = []
   \<and> serverTimestamp replyConflict = 5000
   \<and> map localId (storedCheckins worldABC) = [''a'', ''b'', ''c'']
   \<and> map syncStatus (storedCheckins worldABC) = [pending, pending, pending]
   \<and> fst (performSync envMarch1 (Resolved replyConflict) incremental worldABC)
       = Inr (Some replyConflict)
   \<and> map syncStatus (storedCheckins
        (snd (performSync envMarch1 (Resolved replyConflict) incremental worldABC)))
       = [conflict, synced, synced]
   \<and> map syncedAt (storedCheckins
        (snd (performSync envMarch1 (Resolved replyConflict) incremental worldABC)))
       = [None, Some 1709280000003, Some 1709280000004]"
  by (simp add: attempt_defs pendingQueue_def response_defs example_defs replyConflict_def
        storedCheckins_def)

section \<open>The checkpoint and the in-progress flag\<close>

text \<open>
  An attempt that fails, whether the response says \<^verbatim>\<open>success = false\<close> or the request is
  rejected, leaves the events, the checkpoint and the stored config as they were. Every
  attempt that is let in adds one row to \<^verbatim>\<open>sync_log\<close> and releases the flag.
\<close>

lemma performSync_no_success:
  assumes "db w = Some d" and "api (sync w) \<noteq> None" and "config (sync w) \<noteq> None"
    and "\<not> isSyncing (sync w)" and "\<not> success data"
  shows "fst (performSync e (Resolved data) ty w) = Inr None"
    and "checkpoint (snd (performSync e (Resolved data) ty w)) = checkpoint w"
    and "storedConfig (snd (performSync e (Resolved data) ty w)) = storedConfig w"
    and "storedCheckins (snd (performSync e (Resolved data) ty w)) = storedCheckins w"
    and "length (storedLog (snd (performSync e (Resolved data) ty w))) = Suc (length (storedLog w))"
    and "\<not> isSyncing (sync (snd (performSync e (Resolved data) ty w)))"
proof -
  from assms(3) obtain c where c: "config (sync w) = Some c"
    by auto
  note defs = attempt_defs storedCheckins_def storedConfig_def storedLog_def checkpoint_def
  show "fst (performSync e (Resolved data) ty w) = Inr None"
    using assms c by (simp add: defs)
  show "checkpoint (snd (performSync e (Resolved data) ty w)) = checkpoint w"
    using assms c by (simp add: defs)
  show "storedConfig (snd (performSync e (Resolved data) ty w)) = storedConfig w"
    using assms c by (simp add: defs)
  show "storedCheckins (snd (performSync e (Resolved data) ty w)) = storedCheckins w"
    using assms c by (simp add: defs)
  show "length (storedLog (snd (performSync e (Resolved data) ty w))) = Suc (length (storedLog w))"
    using assms c by (simp add: defs)
  show "\<not> isSyncing (sync (snd (performSync e (Resolved data) ty w)))"
    using assms c by (simp add: defs)
qed

lemma performSync_rejected:
  assumes "db w = Some d" and "api (sync w) \<noteq> None" and "config (sync w) \<noteq> None"
    and "\<not> isSyncing (sync w)"
  shows "fst (performSync e (Rejected hr msg) ty w) = Inr None"
    and "checkpoint (snd (performSync e (Rejected hr msg) ty w)) = checkpoint w"
    and "storedConfig (snd (performSync e (Rejected hr msg) ty w)) = storedConfig w"
    and "storedCheckins (snd (performSync e (Rejected hr msg) ty w)) = storedCheckins w"
    and "length (storedLog (snd (performSync e (Rejected hr msg) ty w))) = Suc (length (storedLog w))"
    and "\<not> isSyncing (sync (snd (performSync e (Rejected hr msg) ty w)))"
proof -
  from assms(3) obtain c where c: "config (sync w) = Some c"
    by auto
  note defs = attempt_defs storedCheckins_def storedConfig_def storedLog_def checkpoint_def
  show "fst (performSync e (Rejected hr msg) ty w) = Inr None"
    using assms c by (cases hr) (simp_all add: defs)
  show "checkpoint (snd (performSync e (Rejected hr msg) ty w)) = checkpoint w"
    using assms c by (cases hr) (simp_all add: defs)
  show "storedConfig (snd (performSync e (Rejected hr msg) ty w)) = storedConfig w"
    using assms c by (cases hr) (simp_all add: defs)
  show "storedCheckins (snd (performSync e (Rejected hr msg) ty w)) = storedCheckins w"
    using assms c by (cases hr) (simp_all add: defs)
  show "length (storedLog (snd (performSync e (Rejected hr msg) ty w))) = Suc (length (storedLog w))"
    using assms c by (cases hr) (simp_all add: defs)
  show "\<not> isSyncing (sync (snd (performSync e (Rejected hr msg) ty w)))"
    using assms c by (cases hr) (simp_all add: defs)
qed

lemma performSync_success_log:
  assumes "db w = Some d" and "api (sync w) \<noteq> None" and "config (sync w) \<noteq> None"
    and "\<not> isSyncing (sync w)" and "success data"
  shows "length (storedLog (snd (performSync e (Resolved data) ty w))) = Suc (length (storedLog w))"
    and "\<not> isSyncing (sync (snd (performSync e (Resolved data) ty w)))"
proof -
  from assms(3) obtain c where c: "config (sync w) = Some c"
    by auto
  from performSync_success_effect [OF assms(1,2) c assms(4,5), where e = e and ty = ty]
  obtain w' where run: "performSync e (Resolved data) ty w = (Inr (Some data), w')"
    and "length (storedLog w') = Suc (length (sync_log d))" and "\<not> isSyncing (sync w')"
    using assms(4) by (fastforce simp: storedLog_def)
  then show "length (storedLog (snd (performSync e (Resolved data) ty w))) = Suc (length (storedLog w))"
    and "\<not> isSyncing (sync (snd (performSync e (Resolved data) ty w)))"
    using assms(1) by (simp_all add: storedLog_def)
qed

lemma performSync_one_session:
  assumes "db w = Some d" and "api (sync w) \<noteq> None" and "config (sync w) \<noteq> None"
    and "\<not> isSyncing (sync w)"
  shows "length (storedLog (snd (performSync e reply ty w))) = Suc (length (storedLog w))"
    and "\<not> isSyncing (sync (snd (performSync e reply ty w)))"
proof -
  have "length (storedLog (snd (performSync e reply ty w))) = Suc (length (storedLog w))
      \<and> \<not> isSyncing (sync (snd (performSync e reply ty w)))"
  proof (cases reply)
    case (Resolved data)
    show ?thesis
    proof (cases "success data")
      case True
      with Resolved performSync_success_log [OF assms True] show ?thesis by simp
    next
      case False
      with Resolved performSync_no_success(5,6) [OF assms False] show ?thesis by simp
    qed
  next
    case (Rejected hr msg)
    with performSync_rejected(5,6) [OF assms] show ?thesis by simp
  qed
  then show "length (storedLog (snd (performSync e reply ty w))) = Suc (length (storedLog w))"
    and "\<not> isSyncing (sync (snd (performSync e reply ty w)))"
    by simp_all
qed


text \<open>
  C1 (as amended). For an attempt that is let in: after a response with \<^verbatim>\<open>success\<close> the
  checkpoint is the response's \<open>serverTimestamp\<close>, whatever it was before, and the stored
  config holds it (\<^verbatim>\<open>lastSyncAt || null\<close>); so the checkpoint has not decreased exactly
  when \<open>serverTimestamp\<close> is not below the old checkpoint. After a response without
  \<^verbatim>\<open>success\<close>, and after a rejected request, the checkpoint and the stored config are
  unchanged.
\<close>

theorem performSync_checkpoint:
  assumes "db w = Some d" and "api (sync w) \<noteq> None" and "config (sync w) \<noteq> None"
    and "\<not> isSyncing (sync w)"
  shows "(success data \<longrightarrow>
            fst (performSync e (Resolved data) ty w) = Inr (Some data)
          \<and> checkpoint (snd (performSync e (Resolved data) ty w)) = serverTimestamp data
          \<and> (\<exists>tc. storedConfig (snd (performSync e (Resolved data) ty w)) = Some tc
                 \<and> lastSyncAt tc = orNullNum (Some (serverTimestamp data)))
          \<and> (checkpoint w \<le> checkpoint (snd (performSync e (Resolved data) ty w))
               \<longleftrightarrow> checkpoint w \<le> serverTimestamp data))
       \<and> (\<not> success data \<longrightarrow>
            fst (performSync e (Resolved data) ty w) = Inr None
          \<and> checkpoint (snd (performSync e (Resolved data) ty w)) = checkpoint w
          \<and> storedConfig (snd (performSync e (Resolved data) ty w)) = storedConfig w)
       \<and> fst (performSync e (Rejected hr msg) ty w) = Inr None
       \<and> checkpoint (snd (performSync e (Rejected hr msg) ty w)) = checkpoint w
       \<and> storedConfig (snd (performSync e (Rejected hr msg) ty w)) = storedConfig w"
proof -
  from assms(3) obtain c where c: "config (sync w) = Some c"
    by auto
  have accepted: "fst (performSync e (Resolved data) ty w) = Inr (Some data)
          \<and> checkpoint (snd (performSync e (Resolved data) ty w)) = serverTimestamp data
          \<and> (\<exists>tc. storedConfig (snd (performSync e (Resolved data) ty w)) = Some tc
                 \<and> lastSyncAt tc = orNullNum (Some (serverTimestamp data)))
          \<and> (checkpoint w \<le> checkpoint (snd (performSync e (Resolved data) ty w))
               \<longleftrightarrow> checkpoint w \<le> serverTimestamp data)"
    if ok: "success data"
  proof -
    from performSync_success_effect [OF assms(1,2) c assms(4) ok, where e = e and ty = ty]
    obtain w' c' tc where run: "performSync e (Resolved data) ty w = (Inr (Some data), w')"
      and cfg': "config (sync w') = Some c'" "lastSyncAt c' = Some (serverTimestamp data)"
      and tc: "storedConfig w' = Some tc" "lastSyncAt tc = orNullNum (Some (serverTimestamp data))"
      by (fastforce simp: storedConfig_def)
    have "checkpoint w' = serverTimestamp data"
      by (simp add: checkpoint_def cfg')
    with tc show ?thesis
      by (simp add: run)
  qed
  have refused: "fst (performSync e (Resolved data) ty w) = Inr None
          \<and> checkpoint (snd (performSync e (Resolved data) ty w)) = checkpoint w
          \<and> storedConfig (snd (performSync e (Resolved data) ty w)) = storedConfig w"
    if "\<not> success data"
    using performSync_no_success(1-3) [OF assms that] by simp
  have rejected: "fst (performSync e (Rejected hr msg) ty w) = Inr None
       \<and> checkpoint (snd (performSync e (Rejected hr msg) ty w)) = checkpoint w
       \<and> storedConfig (snd (performSync e (Rejected hr msg) ty w)) = storedConfig w"
    using performSync_rejected(1-3) [OF assms] by simp
  show ?thesis
  proof (cases "success data")
    case True
    with accepted rejected show ?thesis by simp
  next
    case False
    with refused rejected show ?thesis by simp
  qed
qed

theorem performSync_checkpoint_witness:
  "db worldABC = Some dbABC
   \<and> api (sync worldABC) \<noteq> None \<and> config (sync worldABC) \<noteq> None
   \<and> \<not> isSyncing (sync worldABC)
   \<and> success replyPartial \<and> \<not> success replyRefused
   \<and> checkpoint worldABC = 100
   \<and> checkpoint (snd (performSync envMarch1 (Resolved replyPartial) full worldABC)) = 5000
   \<and> checkpoint (snd (performSync envMarch1 (Resolved replyRefused) full worldABC)) = 100
   \<and> checkpoint (snd (performSync envMarch1 (Rejected True ''502'') full worldABC)) = 100"
proof -
  have ready: "db worldABC = Some dbABC" "api (sync worldABC) \<noteq> None"
    "config (sync worldABC) \<noteq> None" "\<not> isSyncing (sync worldABC)"
    by (simp_all add: worldABC_def world0_def newSyncService_def)
  have facts: "success replyPartial" "\<not> success replyRefused" "checkpoint worldABC = 100"
    "serverTimestamp replyPartial = 5000"
    by (simp_all add: replyPartial_def replyRefused_def checkpoint_def worldABC_def world0_def
          newSyncService_def configT_def)
  from performSync_checkpoint [OF ready, of replyPartial envMarch1 full True "''502''"] facts
  have a: "checkpoint (snd (performSync envMarch1 (Resolved replyPartial) full worldABC)) = 5000"
    and b: "checkpoint (snd (performSync envMarch1 (Rejected True ''502'') full worldABC)) = 100"
    by simp_all
  from performSync_checkpoint [OF ready, of replyRefused envMarch1 full True "''502''"] facts
  have c: "checkpoint (snd (performSync envMarch1 (Resolved replyRefused) full worldABC)) = 100"
    by simp
  from ready facts a b c show ?thesis
    by simp
qed

text \<open>
  The claim C1 as it is written fails: the checkpoint is 100, the response is successful
  and carries \<open>serverTimestamp\<close> 50, and afterwards the checkpoint, in memory and in the
  stored config, is 50.
\<close>

theorem performSync_checkpoint_moves_back:
  "success replyEarly \<and> serverTimestamp replyEarly = 50
   \<and> checkpoint worldABC = 100
   \<and> map_option lastSyncAt (storedConfig worldABC) = Some (Some 100)
   \<and> fst (performSync envMarch1 (Resolved replyEarly) incremental worldABC) = Inr (Some replyEarly)
   \<and> checkpoint (snd (performSync envMarch1 (Resolved replyEarly) incremental worldABC)) = 50
   \<and> map_option lastSyncAt
        (storedConfig (snd (performSync envMarch1 (Resolved replyEarly) incremental worldABC)))
       = Some (Some 50)
   \<and> \<not> checkpoint worldABC
        \<le> checkpoint (snd (performSync envMarch1 (Resolved replyEarly) incremental worldABC))"
  by (simp add: attempt_defs pendingQueue_def response_defs example_defs replyEarly_def
        checkpoint_def storedConfig_def)

text \<open>
  C7 (as amended). A call of \<^verbatim>\<open>performSync\<close> (from \<^verbatim>\<open>syncFull\<close> or \<^verbatim>\<open>syncIncremental\<close>)
  in a state whose in-progress flag is set resolves to \<^verbatim>\<open>null\<close> and leaves the whole state
  as it is: no row in \<^verbatim>\<open>sync_log\<close>, no request, no write. \<^verbatim>\<open>forceSync\<close>, the trigger of
  the screens, resolves to \<^verbatim>\<open>null\<close> there as well, with no row in \<^verbatim>\<open>sync_log\<close>, no request
  and no write to the database, but it has set \<^verbatim>\<open>retryCount\<close> to 0: that is the one change
  it makes to the state. An attempt that is let in sets the flag before its first
  \<^verbatim>\<open>await\<close>; a second trigger that arrives then, by any of the three ways, is dropped as
  said, and the first attempt, whatever the reply, adds exactly one row to \<^verbatim>\<open>sync_log\<close>
  and releases the flag at its end. The callbacks of the one JavaScript thread run one
  after another, so a second trigger runs at an \<^verbatim>\<open>await\<close> of the first, where the flag is
  set.
\<close>

theorem performSync_single_flight:
  "(isSyncing (sync w) \<longrightarrow>
      performSync e reply ty w = (Inr None, w)
    \<and> syncFull e reply w = (Inr None, w) \<and> syncIncremental e reply w = (Inr None, w)
    \<and> forceSync e reply w = (Inr None, w\<lparr>sync := (sync w)\<lparr>retryCount := 0\<rparr>\<rparr>)
    \<and> storedLog (snd (forceSync e reply w)) = storedLog w
    \<and> outbox (snd (forceSync e reply w)) = outbox w
    \<and> db (snd (forceSync e reply w)) = db w)
   \<and> (db w = Some d \<and> api (sync w) \<noteq> None \<and> config (sync w) \<noteq> None
        \<and> \<not> isSyncing (sync w) \<longrightarrow>
         fst (performSync_enter w)
       \<and> isSyncing (sync (snd (performSync_enter w)))
       \<and> performSync e reply' ty' (snd (performSync_enter w))
           = (Inr None, snd (performSync_enter w))
       \<and> performSync e reply ty w = performSync_run e reply ty (snd (performSync_enter w))
       \<and> length (storedLog (snd (performSync_run e reply ty (snd (performSync_enter w)))))
           = Suc (length (storedLog w))
       \<and> \<not> isSyncing (sync (snd (performSync_run e reply ty (snd (performSync_enter w)))))
       \<and> fst (forceSync e reply' (snd (performSync_enter w))) = Inr None
       \<and> length (storedLog (snd (performSync_run e reply ty
            (snd (forceSync e reply' (snd (performSync_enter w)))))))
           = Suc (length (storedLog w))
       \<and> \<not> isSyncing (sync (snd (performSync_run e reply ty
            (snd (forceSync e reply' (snd (performSync_enter w))))))))"
proof -
  have dropped: "performSync e r t v = (Inr None, v)" if "isSyncing (sync v)" for r t v
    using that by (simp add: performSync_def performSync_enter_def)
  have forced: "forceSync e r v = (Inr None, v\<lparr>sync := (sync v)\<lparr>retryCount := 0\<rparr>\<rparr>)"
    if "isSyncing (sync v)" for r v
    using that by (simp add: forceSync_def syncFull_def performSync_def performSync_enter_def)
  have forced_obs: "storedLog (snd (forceSync e r v)) = storedLog v
      \<and> outbox (snd (forceSync e r v)) = outbox v \<and> db (snd (forceSync e r v)) = db v"
    if "isSyncing (sync v)" for r v
    using forced [OF that] by (simp add: storedLog_def)
  have let_in: "fst (performSync_enter w)
       \<and> isSyncing (sync (snd (performSync_enter w)))
       \<and> performSync e reply' ty' (snd (performSync_enter w))
           = (Inr None, snd (performSync_enter w))
       \<and> performSync e reply ty w = performSync_run e reply ty (snd (performSync_enter w))
       \<and> length (storedLog (snd (performSync_run e reply ty (snd (performSync_enter w)))))
           = Suc (length (storedLog w))
       \<and> \<not> isSyncing (sync (snd (performSync_run e reply ty (snd (performSync_enter w)))))
       \<and> fst (forceSync e reply' (snd (performSync_enter w))) = Inr None
       \<and> length (storedLog (snd (performSync_run e reply ty
            (snd (forceSync e reply' (snd (performSync_enter w)))))))
           = Suc (length (storedLog w))
       \<and> \<not> isSyncing (sync (snd (performSync_run e reply ty
            (snd (forceSync e reply' (snd (performSync_enter w)))))))"
    if ready: "db w = Some d" "api (sync w) \<noteq> None" "config (sync w) \<noteq> None"
      "\<not> isSyncing (sync w)"
  proof -
    have enter: "performSync_enter w = (True, w\<lparr>sync := (sync w)\<lparr>isSyncing := True\<rparr>\<rparr>)"
      using ready by (simp add: performSync_enter_def)
    then have flag: "fst (performSync_enter w)" "isSyncing (sync (snd (performSync_enter w)))"
      by simp_all
    have whole: "performSync e reply ty w = performSync_run e reply ty (snd (performSync_enter w))"
      by (simp add: performSync_def enter)
    from flag(2) have second: "performSync e reply' ty' (snd (performSync_enter w))
           = (Inr None, snd (performSync_enter w))"
      by (rule dropped)
    define w0 where "w0 = w\<lparr>sync := (sync w)\<lparr>retryCount := 0\<rparr>\<rparr>"
    have ready0: "db w0 = Some d" "api (sync w0) \<noteq> None" "config (sync w0) \<noteq> None"
      "\<not> isSyncing (sync w0)"
      using ready by (simp_all add: w0_def)
    have enter0: "performSync_enter w0 = (True, w0\<lparr>sync := (sync w0)\<lparr>isSyncing := True\<rparr>\<rparr>)"
      using ready0 by (simp add: performSync_enter_def)
    have "snd (forceSync e reply' (snd (performSync_enter w)))
        = (snd (performSync_enter w))\<lparr>sync := (sync (snd (performSync_enter w)))\<lparr>retryCount := 0\<rparr>\<rparr>"
      by (simp only: forced [OF flag(2)] snd_conv)
    also have "\<dots> = snd (performSync_enter w0)"
      by (simp add: enter enter0) (simp add: w0_def)
    finally have after:
      "snd (forceSync e reply' (snd (performSync_enter w))) = snd (performSync_enter w0)" .
    have whole0: "performSync e reply ty w0 = performSync_run e reply ty (snd (performSync_enter w0))"
      by (simp add: performSync_def enter0)
    have log0: "storedLog w0 = storedLog w"
      by (simp add: w0_def storedLog_def)
    have third: "fst (forceSync e reply' (snd (performSync_enter w))) = Inr None"
      by (simp add: forced [OF flag(2)])
    from performSync_one_session [OF ready0, of e reply ty] whole0 after log0
    have resumed: "length (storedLog (snd (performSync_run e reply ty
            (snd (forceSync e reply' (snd (performSync_enter w)))))))
           = Suc (length (storedLog w))"
      "\<not> isSyncing (sync (snd (performSync_run e reply ty
            (snd (forceSync e reply' (snd (performSync_enter w)))))))"
      by simp_all
    from performSync_one_session [OF ready, of e reply ty] whole flag second third resumed
    show ?thesis
      by simp
  qed
  from dropped forced forced_obs let_in show ?thesis
    unfolding syncFull_def syncIncremental_def by blast
qed

theorem performSync_single_flight_witness:
  "isSyncing (sync (snd (performSync_enter worldABC)))
   \<and> performSync envMarch1 (Resolved replyPartial) full (snd (performSync_enter worldABC))
       = (Inr None, snd (performSync_enter worldABC))
   \<and> db worldABC = Some dbABC \<and> api (sync worldABC) \<noteq> None
   \<and> config (sync worldABC) \<noteq> None \<and> \<not> isSyncing (sync worldABC)
   \<and> storedLog worldABC = []
   \<and> length (storedLog (snd (performSync_run envMarch1 (Resolved replyPartial) incremental
        (snd (performSync_enter worldABC))))) = 1
   \<and> outbox (snd (performSync envMarch1 (Resolved replyPartial) full
        (snd (performSync_enter worldABC)))) = []
   \<and> isSyncing (sync worldRetrying)
   \<and> forceSync envMarch1 (Resolved replyPartial) worldRetrying
       = (Inr None, worldRetrying\<lparr>sync := (sync worldRetrying)\<lparr>retryCount := 0\<rparr>\<rparr>)
   \<and> storedLog (snd (forceSync envMarch1 (Resolved replyPartial) worldRetrying))
       = storedLog worldRetrying
   \<and> outbox (snd (forceSync envMarch1 (Resolved replyPartial) worldRetrying))
       = outbox worldRetrying
   \<and> length (storedLog worldRetrying) = 1
   \<and> length (storedLog (snd (performSync_run envMarch1 (Resolved replyPartial) incremental
        (snd (forceSync envMarch1 (Resolved replyPartial) (snd (performSync_enter worldABC)))))))
       = 1"
proof -
  have ready: "db worldABC = Some dbABC \<and> api (sync worldABC) \<noteq> None
      \<and> config (sync worldABC) \<noteq> None \<and> \<not> isSyncing (sync worldABC)"
    by (simp add: worldABC_def world0_def newSyncService_def)
  have empty: "storedLog worldABC = []" "outbox (snd (performSync_enter worldABC)) = []"
    by (simp_all add: storedLog_def performSync_enter_def worldABC_def world0_def dbABC_def
          emptyDb_def newSyncService_def)
  have retrying: "isSyncing (sync worldRetrying)" "length (storedLog worldRetrying) = 1"
    by (simp_all add: worldRetrying_def attempt_defs pendingQueue_def example_defs
          storedLog_def maxRetries_def)
  from performSync_single_flight [of worldABC envMarch1 "Resolved replyPartial" incremental dbABC
      "Resolved replyPartial" full] ready
  have syncing: "isSyncing (sync (snd (performSync_enter worldABC)))"
    and second: "performSync envMarch1 (Resolved replyPartial) full (snd (performSync_enter worldABC))
       = (Inr None, snd (performSync_enter worldABC))"
    and one: "length (storedLog (snd (performSync_run envMarch1 (Resolved replyPartial) incremental
        (snd (performSync_enter worldABC))))) = Suc (length (storedLog worldABC))"
    by blast+
  from performSync_single_flight [of worldABC envMarch1 "Resolved replyPartial" incremental dbABC
      "Resolved replyPartial" full] ready
  have resumed: "length (storedLog (snd (performSync_run envMarch1 (Resolved replyPartial) incremental
        (snd (forceSync envMarch1 (Resolved replyPartial) (snd (performSync_enter worldABC)))))))
       = Suc (length (storedLog worldABC))"
    by blast
  from performSync_single_flight [of worldRetrying envMarch1 "Resolved replyPartial" full] retrying(1)
  have forced: "forceSync envMarch1 (Resolved replyPartial) worldRetrying
       = (Inr None, worldRetrying\<lparr>sync := (sync worldRetrying)\<lparr>retryCount := 0\<rparr>\<rparr>)"
    and same: "storedLog (snd (forceSync envMarch1 (Resolved replyPartial) worldRetrying))
       = storedLog worldRetrying"
      "outbox (snd (forceSync envMarch1 (Resolved replyPartial) worldRetrying))
       = outbox worldRetrying"
    by blast+
  from ready syncing second one empty retrying forced same resumed show ?thesis
    by simp
qed

text \<open>
  The claim C7 as it is written fails: the retry of a failed attempt is running, the
  user presses the sync button, and \<^verbatim>\<open>forceSync\<close> is dropped (it resolves to \<^verbatim>\<open>null\<close>) but
  the retry counter, which was 1, is 0 afterwards: the trigger has changed the state.
\<close>

theorem forceSync_resets_retryCount_while_syncing:
  "isSyncing (sync worldRetrying)
   \<and> retryCount (sync worldRetrying) = 1
   \<and> fst (forceSync envMarch1 (Resolved replyPartial) worldRetrying) = Inr None
   \<and> retryCount (sync (snd (forceSync envMarch1 (Resolved replyPartial) worldRetrying))) = 0
   \<and> snd (forceSync envMarch1 (Resolved replyPartial) worldRetrying) \<noteq> worldRetrying"
proof -
  have before: "isSyncing (sync worldRetrying)" "retryCount (sync worldRetrying) = 1"
    by (simp_all add: worldRetrying_def attempt_defs pendingQueue_def example_defs
          maxRetries_def)
  then have run: "forceSync envMarch1 (Resolved replyPartial) worldRetrying
      = (Inr None, worldRetrying\<lparr>sync := (sync worldRetrying)\<lparr>retryCount := 0\<rparr>\<rparr>)"
    by (simp add: forceSync_def syncFull_def performSync_def performSync_enter_def)
  have after: "retryCount (sync (snd (forceSync envMarch1 (Resolved replyPartial) worldRetrying))) = 0"
    by (simp add: run)
  with before have "snd (forceSync envMarch1 (Resolved replyPartial) worldRetrying) \<noteq> worldRetrying"
    by auto
  with run before after show ?thesis
    by simp
qed

end
